theory Spec2Isabelle
  imports Complex_Main "HOL-Library.Multiset"
begin

section \<open>Data model\<close>

text \<open>
  The backend is an Express application over Sequelize models (MySQL dialect). A request
  handler reads the authenticated user \<open>req.user\<close>, the query or the body, runs a few
  store operations and answers with a status code and a JSON body. The embedding keeps that
  shape: a handler is a function of the caller, the request data and the store, and returns
  the response, paired with the new store when it writes.

  Instants (\<open>Date\<close>, \<open>DATE\<close> columns) are milliseconds as \<open>int\<close>; calendar dates
  (\<open>DATEONLY\<close>) are day numbers as \<open>int\<close>. The clock read by \<open>new Date()\<close> is an
  explicit argument \<open>now\<close>. A store operation of the model fails in one place only: a
  list statement whose \<open>LIMIT\<close> or \<open>OFFSET\<close> the database refuses, which the \<open>catch\<close>
  branch of the list handler answers with 500. The other \<open>catch\<close> branches have no
  counterpart.

  A string of the model is a list of the characters with code points 0 to 255.
\<close>

datatype json = JNull | JBool bool | JNum int | JStr string
  | JArr "json list" | JObj "(string \<times> json) list"

type_synonym jobject = "string \<rightharpoonup> json"

text \<open>
  Modelled from the spec: the \<open>User\<close> model (\<open>models/User.js\<close>) is not among the
  sources. The fields are the ones the routes and the auth middleware read or write:
  identity, name, unique email, hashed secret, active flag, preference map, last login.
\<close>

record user =
  u_id :: nat
  u_name :: string
  u_email :: string
  u_password :: string
  u_preferences :: "jobject option"
  u_isActive :: bool
  u_isAdmin :: bool
  u_lastLogin :: "int option"
  u_createdAt :: int

text \<open>\<open>sequelize.define('Alert', ...)\<close>; \<open>ENUM\<close> and \<open>STRING\<close> columns hold strings.\<close>

record alert =
  a_id :: nat
  a_title :: string
  a_message :: "string option"
  a_status :: string
  a_priority :: string
  a_type :: string
  a_userId :: nat
  a_metadata :: jobject
  a_acknowledgedAt :: "int option"
  a_resolvedAt :: "int option"
  a_createdAt :: int

text \<open>\<open>sequelize.define('DiagnosticTest', ...)\<close>\<close>

record diagnostic_test =
  t_id :: nat
  t_name :: string
  t_result :: string
  t_date :: int
  t_testType :: string
  t_status :: string
  t_normalRange :: "string option"
  t_units :: "string option"
  t_notes :: "string option"
  t_userId :: nat
  t_doctorName :: "string option"
  t_labName :: "string option"
  t_isAbnormal :: bool
  t_attachments :: "json list"

text \<open>
  The three tables, in insertion order, with the \<open>autoIncrement\<close> counters of the two
  resource tables.
\<close>

record store =
  users :: "user list"
  alerts :: "alert list"
  tests :: "diagnostic_test list"
  alertSeq :: nat
  testSeq :: nat

text \<open>Primary keys are unique and below the next value of the counter.\<close>

definition wf_store :: "store \<Rightarrow> bool" where
  "wf_store st =
     (distinct (map a_id (alerts st)) \<and> list_all (\<lambda>a. a_id a < alertSeq st) (alerts st) \<and>
      distinct (map t_id (tests st)) \<and> list_all (\<lambda>t. t_id t < testSeq st) (tests st) \<and>
      distinct (map u_id (users st)))"


section \<open>JavaScript numbers\<close>

text \<open>
  The numbers of the list handlers (\<open>parseInt\<close> of a query parameter, \<open>page - 1\<close>, the
  offset, the page count) are doubles. Each of them is \<open>NaN\<close>, an infinity or a double
  whose value is a whole number. A whole number of at most 53 bits is a double as it is; a
  longer one is rounded to the nearest double, a tie to the one with the even significand, and
  to \<open>Infinity\<close> from \<open>2^1024 - 2^970\<close> on.
\<close>

datatype number = NaN | MInf | Whole int | PInf

fun bit_length :: "nat \<Rightarrow> nat" where
  "bit_length n = (if n = 0 then 0 else Suc (bit_length (n div 2)))"

definition nearest_double :: "nat \<Rightarrow> number" where
  "nearest_double n =
     (let ulp = 2 ^ (bit_length n - 53);
          q = n div ulp;
          r = n mod ulp;
          m = (if ulp < 2 * r \<or> (2 * r = ulp \<and> odd q) then Suc q else q)
      in if 2 ^ 1024 \<le> m * ulp then PInf else Whole (int (m * ulp)))"

definition num_neg :: "number \<Rightarrow> number" where
  "num_neg x = (case x of NaN \<Rightarrow> NaN | MInf \<Rightarrow> PInf | Whole n \<Rightarrow> Whole (- n) | PInf \<Rightarrow> MInf)"

definition round_double :: "int \<Rightarrow> number" where
  "round_double i = (if 0 \<le> i then nearest_double (nat i) else num_neg (nearest_double (nat (- i))))"

definition num_sign :: "number \<Rightarrow> int" where
  "num_sign x = (case x of NaN \<Rightarrow> 0 | MInf \<Rightarrow> - 1 | Whole n \<Rightarrow> sgn n | PInf \<Rightarrow> 1)"

text \<open>\<open>x - y\<close>, \<open>x * y\<close> and \<open>x < y\<close> on these numbers.\<close>

fun num_minus :: "number \<Rightarrow> number \<Rightarrow> number" where
  "num_minus (Whole a) (Whole b) = round_double (a - b)"
| "num_minus NaN y = NaN"
| "num_minus x NaN = NaN"
| "num_minus PInf PInf = NaN"
| "num_minus MInf MInf = NaN"
| "num_minus PInf y = PInf"
| "num_minus MInf y = MInf"
| "num_minus x PInf = MInf"
| "num_minus x MInf = PInf"

fun num_times :: "number \<Rightarrow> number \<Rightarrow> number" where
  "num_times (Whole a) (Whole b) = round_double (a * b)"
| "num_times x y =
     (if num_sign x * num_sign y = 0 then NaN
      else if 0 < num_sign x * num_sign y then PInf else MInf)"

fun num_less :: "number \<Rightarrow> number \<Rightarrow> bool" where
  "num_less NaN y = False"
| "num_less x NaN = False"
| "num_less (Whole a) (Whole b) = (a < b)"
| "num_less x MInf = False"
| "num_less PInf y = False"
| "num_less x y = True"


section \<open>Responses\<close>

text \<open>
  \<open>include: [{ model: User, as: 'user', attributes: ['id', 'name', 'email'] }]\<close>: the
  owner summary joined to a row, \<open>null\<close> when the user row is missing.
\<close>

record user_ref =
  r_id :: nat
  r_name :: string
  r_email :: string

type_synonym alert_view = "alert \<times> user_ref option"
type_synonym test_view = "diagnostic_test \<times> user_ref option"

text \<open>
  The user objects of \<open>GET /api/users/profile\<close> and \<open>PUT /api/users/profile\<close>: the
  password never leaves the store. (\<open>updatedAt\<close>, which Sequelize maintains by itself, is
  not part of the model.)
\<close>

record profile =
  pf_id :: nat
  pf_name :: string
  pf_email :: string
  pf_preferences :: "jobject option"
  pf_isActive :: bool
  pf_lastLogin :: "int option"
  pf_createdAt :: int

record profile_brief =
  pb_id :: nat
  pb_name :: string
  pb_email :: string
  pb_preferences :: "jobject option"

record pagination =
  currentPage :: number
  totalPages :: number
  totalItems :: number
  itemsPerPage :: number
  hasNextPage :: bool
  hasPrevPage :: bool

text \<open>
  The JSON bodies the handlers send, one constructor per shape. \<open>Message\<close> is a body with
  the single key \<open>message\<close>; \<open>ValidationFailed\<close> carries the messages of
  \<open>errors.array()\<close>. A response is the status code with the body
  (\<open>res.json\<close> alone answers 200).
\<close>

datatype body =
    Message string
  | ValidationFailed string "string list"
  | AlertsPage "alert_view list" pagination
  | AlertsCount "alert list" nat
  | AlertOne alert_view
  | AlertDone string "alert_view option"
  | AlertPlain string alert
  | AlertSummary nat "string \<rightharpoonup> nat" "string \<rightharpoonup> nat"
  | TestsPage "test_view list" pagination
  | TestsCount "diagnostic_test list" nat
  | TestsRecent "diagnostic_test list" nat int
  | TestOne test_view
  | TestDone string "test_view option"
  | TestPlain string diagnostic_test
  | TestSummary nat nat nat "string \<rightharpoonup> nat" "string \<rightharpoonup> nat"
  | ProfileBody profile
  | ProfileDone string profile_brief
  | PreferencesDone string jobject
  | UserStats nat nat nat int "int option"

type_synonym response = "nat \<times> body"

section \<open>Library behaviour the handlers rely on\<close>

subsection \<open>express-validator and JavaScript coercions\<close>

text \<open>
  A numeric or date-valued parameter arrives as text. \<open>Unparsable\<close> stands for a text the
  validator (\<open>isInt\<close>, \<open>isISO8601\<close>) rejects, \<open>Parsed v\<close> for an accepted text
  denoting \<open>v\<close>.
\<close>

datatype 'a parsed = Unparsable | Parsed 'a

definition check :: "bool \<Rightarrow> string \<Rightarrow> string list" where
  "check ok msg = (if ok then [] else [msg])"

text \<open>\<open>.optional()\<close>: the chain is skipped when the field is \<open>undefined\<close>.\<close>

definition optional :: "('a \<Rightarrow> bool) \<Rightarrow> 'a option \<Rightarrow> bool" where
  "optional ok v = (case v of None \<Rightarrow> True | Some x \<Rightarrow> ok x)"

definition isInt :: "int option \<Rightarrow> int option \<Rightarrow> int parsed \<Rightarrow> bool" where
  "isInt lo hi v =
     (case v of
        Unparsable \<Rightarrow> False
      | Parsed n \<Rightarrow>
          (case lo of None \<Rightarrow> True | Some l \<Rightarrow> l \<le> n) \<and>
          (case hi of None \<Rightarrow> True | Some h \<Rightarrow> n \<le> h))"

definition isISO8601 :: "int parsed \<Rightarrow> bool" where
  "isISO8601 v = (case v of Unparsable \<Rightarrow> False | Parsed d \<Rightarrow> True)"

definition isIn :: "string list \<Rightarrow> string \<Rightarrow> bool" where
  "isIn allowed s = (s \<in> set allowed)"

definition isBoolean :: "string \<Rightarrow> bool" where
  "isBoolean s = (s \<in> set [''true'', ''false'', ''1'', ''0''])"

definition isLength :: "nat \<Rightarrow> nat option \<Rightarrow> string \<Rightarrow> bool" where
  "isLength lo hi s =
     (lo \<le> length s \<and> (case hi of None \<Rightarrow> True | Some h \<Rightarrow> length s \<le> h))"

text \<open>
  The characters \<open>\s\<close> matches among the code points 0 to 255: the six ASCII blanks and
  the no-break space. \<open>trim\<close> strips them from both ends.
\<close>

definition is_space :: "char \<Rightarrow> bool" where
  "is_space c =
     (c \<in> set [CHR '' '', CHR 0x09, CHR 0x0A, CHR 0x0B, CHR 0x0C, CHR 0x0D, CHR 0xA0])"

definition trim :: "string \<Rightarrow> string" where
  "trim s = rev (dropWhile is_space (rev (dropWhile is_space s)))"

text \<open>
  \<open>parseInt(x)\<close> of a query parameter: the double nearest to the integer the text denotes,
  \<open>NaN\<close> for a missing parameter or a text that denotes none. \<open>x || d\<close> takes \<open>d\<close> for
  the falsy numbers \<open>NaN\<close> and 0.
\<close>

definition parseInt :: "int parsed option \<Rightarrow> number" where
  "parseInt v = (case v of Some (Parsed n) \<Rightarrow> round_double n | _ \<Rightarrow> NaN)"

definition or_num :: "number \<Rightarrow> number \<Rightarrow> number" where
  "or_num v d = (if v = NaN \<or> v = Whole 0 then d else v)"

text \<open>\<open>x || d\<close> on an integer that is \<open>None\<close> for \<open>NaN\<close>, and on strings.\<close>

definition or_int :: "int option \<Rightarrow> int \<Rightarrow> int" where
  "or_int v d = (case v of None \<Rightarrow> d | Some n \<Rightarrow> if n = 0 then d else n)"

definition truthy :: "string option \<Rightarrow> bool" where
  "truthy v = (case v of None \<Rightarrow> False | Some s \<Rightarrow> s \<noteq> [])"

definition or_str :: "string option \<Rightarrow> string \<Rightarrow> string" where
  "or_str v d = (case v of None \<Rightarrow> d | Some s \<Rightarrow> if s = [] then d else s)"

text \<open>\<open>if (req.query.k) whereClause.k = req.query.k\<close>: the key is set for a truthy value only.\<close>

definition if_truthy :: "string option \<Rightarrow> string option" where
  "if_truthy v = (if truthy v then v else None)"

text \<open>
  \<open>Math.ceil(count / limit)\<close> on a row count. For a whole divisor other than 0 it is the
  ceiling of the exact quotient: rounding the quotient to a double does not move it across a
  whole number while the count is below \<open>2^53\<close>, which every table of the schema is (the
  keys are 32-bit \<open>INTEGER\<close>s).
\<close>

definition ceil_div :: "int \<Rightarrow> int \<Rightarrow> int" where
  "ceil_div n d = - ((- n) div d)"

definition ceil_quotient :: "nat \<Rightarrow> number \<Rightarrow> number" where
  "ceil_quotient rowCount limit =
     (case limit of
        NaN \<Rightarrow> NaN
      | Whole d \<Rightarrow>
          if d = 0 then (if rowCount = 0 then NaN else PInf)
          else Whole (ceil_div (int rowCount) d)
      | _ \<Rightarrow> Whole 0)"

subsection \<open>Sequelize queries\<close>

text \<open>
  \<open>ORDER BY\<close> arranges the rows under the order clause, read as the relation
  may-stand-before. \<open>order_by\<close> is an insertion sort that keeps rows the relation does not
  separate in the order they come in.
\<close>

fun place :: "('r \<Rightarrow> 'r \<Rightarrow> bool) \<Rightarrow> 'r \<Rightarrow> 'r list \<Rightarrow> 'r list" where
  "place precedes r [] = [r]"
| "place precedes r (x # xs) = (if precedes r x then r # x # xs else x # place precedes r xs)"

definition order_by :: "('r \<Rightarrow> 'r \<Rightarrow> bool) \<Rightarrow> 'r list \<Rightarrow> 'r list" where
  "order_by precedes rows = foldr (place precedes) rows []"

text \<open>
  SQL leaves open how rows stand that the order clause does not separate, and the database
  may arrange them differently in each statement. The choice it makes in one statement is the
  argument \<open>tie\<close>, a rank of the rows: tied rows stand by ascending rank, rows of equal rank
  in table order. Every arrangement of distinct rows that obeys the order clause is the one
  of some \<open>tie\<close>.
\<close>

definition ordered :: "('r \<Rightarrow> nat) \<Rightarrow> ('r \<Rightarrow> 'r \<Rightarrow> bool) \<Rightarrow> 'r list \<Rightarrow> 'r list" where
  "ordered tie precedes rows = order_by precedes (order_by (\<lambda>a b. tie a \<le> tie b) rows)"

text \<open>
  Sequelize writes \<open>limit\<close> and \<open>offset\<close> into the statement as JavaScript prints them
  (\<open>LIMIT offset, limit\<close>). MySQL takes a whole number from 0 to \<open>2^64 - 1\<close> there and
  refuses the statement for anything else: \<open>NaN\<close>, \<open>Infinity\<close>, a negative number, a
  larger one (from \<open>10^21\<close> on it is printed with an exponent). Above \<open>2^53\<close> the
  digits JavaScript prints are the shortest that name the double, not its exact value; the
  model takes the exact value, which like the printed one lies beyond the rows of any table
  of the schema.
\<close>

definition sql_count :: "number \<Rightarrow> nat option" where
  "sql_count v =
     (case v of Whole n \<Rightarrow> if 0 \<le> n \<and> n < 2 ^ 64 then Some (nat n) else None | _ \<Rightarrow> None)"

text \<open>
  \<open>Model.findAndCountAll({ where, order, limit, offset })\<close>: the count of the rows that
  match (the code's \<open>count\<close>, here \<open>rowCount\<close>), and the page
  \<open>LIMIT limit OFFSET offset\<close> of them in order; \<open>None\<close> when the database refuses the
  statement and the promise rejects.
\<close>

definition findAndCountAll ::
  "('r \<Rightarrow> bool) \<Rightarrow> ('r \<Rightarrow> 'r \<Rightarrow> bool) \<Rightarrow> ('r \<Rightarrow> nat) \<Rightarrow> number \<Rightarrow> number \<Rightarrow> 'r list \<Rightarrow>
   (nat \<times> 'r list) option" where
  "findAndCountAll matches precedes tie limit offset table =
     (case sql_count limit of
        None \<Rightarrow> None
      | Some l \<Rightarrow>
          (case sql_count offset of
             None \<Rightarrow> None
           | Some k \<Rightarrow>
               let found = ordered tie precedes (filter matches table)
               in Some (length found, take l (drop k found))))"

text \<open>
  \<open>findAll({ attributes: [col, COUNT(id)], group: [col], raw: true })\<close>: one row per value
  of the column that occurs, with the number of rows holding it.
\<close>

definition group_count :: "string list \<Rightarrow> (string \<times> nat) list" where
  "group_count column = map (\<lambda>v. (v, count_list column v)) (remdups column)"

text \<open>\<open>stats.reduce((acc, item) => { acc[item.k] = parseInt(item.count); return acc }, {})\<close>\<close>

definition reduce_counts :: "(string \<times> nat) list \<Rightarrow> string \<rightharpoonup> nat" where
  "reduce_counts stats = foldl (\<lambda>acc item. acc(fst item \<mapsto> snd item)) Map.empty stats"

text \<open>
  A MySQL \<open>ENUM\<close> column sorts by the position of the value in the column's declaration
  (1 for the first member, 0 for a value outside it), not by its spelling.
\<close>

fun enum_index :: "string list \<Rightarrow> string \<Rightarrow> nat" where
  "enum_index [] s = 0"
| "enum_index (m # ms) s = (if s = m then 1 else case enum_index ms s of 0 \<Rightarrow> 0 | Suc k \<Rightarrow> Suc (Suc k))"

definition user_include :: "store \<Rightarrow> nat \<Rightarrow> user_ref option" where
  "user_include st uid =
     map_option (\<lambda>u. \<lparr>r_id = u_id u, r_name = u_name u, r_email = u_email u\<rparr>)
       (find (\<lambda>u. u_id u = uid) (users st))"


section \<open>Alerts (the \<open>/api/alerts\<close> router, the \<open>Alert\<close> model)\<close>

subsection \<open>Model methods\<close>

text \<open>\<open>Alert.prototype.acknowledge\<close>, \<open>resolve\<close> and \<open>dismiss\<close>, up to \<open>this.save()\<close>.\<close>

definition acknowledge :: "int \<Rightarrow> alert \<Rightarrow> alert" where
  "acknowledge now a = a\<lparr>a_status := ''acknowledged'', a_acknowledgedAt := Some now\<rparr>"

definition resolve :: "int \<Rightarrow> alert \<Rightarrow> alert" where
  "resolve now a = a\<lparr>a_status := ''resolved'', a_resolvedAt := Some now\<rparr>"

definition dismiss :: "alert \<Rightarrow> alert" where
  "dismiss a = a\<lparr>a_status := ''dismissed''\<rparr>"

text \<open>\<open>instance.save()\<close> writes the instance over the row with its primary key.\<close>

definition alert_save :: "alert \<Rightarrow> store \<Rightarrow> store" where
  "alert_save a st = st\<lparr>alerts := map (\<lambda>r. if a_id r = a_id a then a else r) (alerts st)\<rparr>"

definition alert_destroy :: "alert \<Rightarrow> store \<Rightarrow> store" where
  "alert_destroy a st = st\<lparr>alerts := filter (\<lambda>r. a_id r \<noteq> a_id a) (alerts st)\<rparr>"

text \<open>\<open>Alert.findOne({ where: { id, userId } })\<close> and \<open>Alert.findByPk(id, { include })\<close>\<close>

definition alert_findOne :: "nat \<Rightarrow> nat \<Rightarrow> store \<Rightarrow> alert option" where
  "alert_findOne i uid st = find (\<lambda>a. a_id a = i \<and> a_userId a = uid) (alerts st)"

definition alert_view :: "store \<Rightarrow> alert \<Rightarrow> alert_view" where
  "alert_view st a = (a, user_include st (a_userId a))"

definition alert_findByPk :: "nat \<Rightarrow> store \<Rightarrow> alert_view option" where
  "alert_findByPk i st = map_option (alert_view st) (find (\<lambda>a. a_id a = i) (alerts st))"

text \<open>
  The order clause \<open>[['priority', 'DESC'], ['created_at', 'DESC']]\<close> over the column
  \<open>ENUM('low', 'medium', 'high', 'critical')\<close>.
\<close>

definition priority_enum :: "string list" where
  "priority_enum = [''low'', ''medium'', ''high'', ''critical'']"

definition priority_rank :: "alert \<Rightarrow> nat" where
  "priority_rank a = enum_index priority_enum (a_priority a)"

definition alert_before :: "alert \<Rightarrow> alert \<Rightarrow> bool" where
  "alert_before a b =
     (priority_rank b < priority_rank a \<or>
      (priority_rank a = priority_rank b \<and> a_createdAt b \<le> a_createdAt a))"

definition findActiveByUser :: "(alert \<Rightarrow> nat) \<Rightarrow> nat \<Rightarrow> store \<Rightarrow> alert list" where
  "findActiveByUser tie uid st =
     ordered tie alert_before
       (filter (\<lambda>a. a_userId a = uid \<and> a_status a = ''active'') (alerts st))"

subsection \<open>GET /api/alerts\<close>

record alert_query =
  q_page :: "int parsed option"
  q_limit :: "int parsed option"
  q_status :: "string option"
  q_priority :: "string option"
  q_type :: "string option"

definition status_enum :: "string list" where
  "status_enum = [''active'', ''acknowledged'', ''resolved'', ''dismissed'']"

definition type_enum :: "string list" where
  "type_enum = [''general'', ''health'', ''system'', ''diagnostic'', ''reminder'']"

definition validate_alerts_get :: "alert_query \<Rightarrow> string list" where
  "validate_alerts_get q =
     check (optional (isInt (Some 1) None) (q_page q)) ''Page must be a positive integer'' @
     check (optional (isInt (Some 1) (Some 100)) (q_limit q)) ''Limit must be between 1 and 100'' @
     check (optional (isIn status_enum) (q_status q)) ''Invalid status filter'' @
     check (optional (isIn priority_enum) (q_priority q)) ''Invalid priority filter'' @
     check (optional (isIn type_enum) (q_type q)) ''Invalid type filter''"

text \<open>The \<open>where\<close> object: \<open>userId\<close> always, the other keys when set; all keys must match.\<close>

record alert_where =
  w_userId :: nat
  w_status :: "string option"
  w_priority :: "string option"
  w_type :: "string option"

definition alert_matches :: "alert_where \<Rightarrow> alert \<Rightarrow> bool" where
  "alert_matches w a =
     (a_userId a = w_userId w \<and>
      (case w_status w of None \<Rightarrow> True | Some s \<Rightarrow> a_status a = s) \<and>
      (case w_priority w of None \<Rightarrow> True | Some p \<Rightarrow> a_priority a = p) \<and>
      (case w_type w of None \<Rightarrow> True | Some t \<Rightarrow> a_type a = t))"

definition alerts_whereClause :: "user \<Rightarrow> alert_query \<Rightarrow> alert_where" where
  "alerts_whereClause u q =
     \<lparr>w_userId = u_id u, w_status = if_truthy (q_status q),
      w_priority = if_truthy (q_priority q), w_type = if_truthy (q_type q)\<rparr>"

definition alerts_get :: "(alert \<Rightarrow> nat) \<Rightarrow> user \<Rightarrow> alert_query \<Rightarrow> store \<Rightarrow> response" where
  "alerts_get tie u q st =
     (let errors = validate_alerts_get q in
      if errors \<noteq> [] then (400, ValidationFailed ''Validation failed'' errors)
      else
        let page = or_num (parseInt (q_page q)) (Whole 1);
            limit = or_num (parseInt (q_limit q)) (Whole 10);
            offset = num_times (num_minus page (Whole 1)) limit;
            whereClause = alerts_whereClause u q
        in case findAndCountAll (alert_matches whereClause) alert_before tie limit offset
                  (alerts st) of
             None \<Rightarrow> (500, Message ''Server error while fetching alerts'')
           | Some (rowCount, rows) \<Rightarrow>
               let totalPages = ceil_quotient rowCount limit
               in (200, AlertsPage (map (alert_view st) rows)
                     \<lparr>currentPage = page, totalPages = totalPages,
                      totalItems = Whole (int rowCount), itemsPerPage = limit,
                      hasNextPage = num_less page totalPages,
                      hasPrevPage = num_less (Whole 1) page\<rparr>))"

subsection \<open>GET /api/alerts/active and GET /api/alerts/:id\<close>

definition alerts_get_active :: "(alert \<Rightarrow> nat) \<Rightarrow> user \<Rightarrow> store \<Rightarrow> response" where
  "alerts_get_active tie u st =
     (let found = findActiveByUser tie (u_id u) st in (200, AlertsCount found (length found)))"

definition alerts_get_id :: "user \<Rightarrow> nat \<Rightarrow> store \<Rightarrow> response" where
  "alerts_get_id u i st =
     (case alert_findOne i (u_id u) st of
        None \<Rightarrow> (404, Message ''Alert not found'')
      | Some a \<Rightarrow> (200, AlertOne (alert_view st a)))"

subsection \<open>POST /api/alerts\<close>

text \<open>
  The JSON body. \<open>b_userId\<close> is an owner a client may put in the body; the handlers
  destructure the other keys only. \<open>metadata\<close> is typed as an object (on create
  \<open>isObject\<close> rejects anything else).
\<close>

record alert_body =
  b_title :: "string option"
  b_message :: "string option"
  b_status :: "string option"
  b_priority :: "string option"
  b_type :: "string option"
  b_metadata :: "jobject option"
  b_userId :: "nat option"

text \<open>
  A chain without \<open>.optional()\<close> runs on a missing field as on the empty string;
  \<open>.trim()\<close> replaces the field by its trimmed text.
\<close>

definition required :: "string option \<Rightarrow> string" where
  "required v = (case v of None \<Rightarrow> [] | Some s \<Rightarrow> s)"

definition validate_alerts_post :: "alert_body \<Rightarrow> string list" where
  "validate_alerts_post b =
     check (isLength 1 (Some 255) (trim (required (b_title b))))
       ''Title must be between 1 and 255 characters'' @
     check (optional (\<lambda>m. isLength 0 (Some 1000) (trim m)) (b_message b))
       ''Message must not exceed 1000 characters'' @
     check (optional (isIn priority_enum) (b_priority b))
       ''Priority must be low, medium, high, or critical'' @
     check (optional (isIn type_enum) (b_type b))
       ''Type must be general, health, system, diagnostic, or reminder''"

text \<open>
  \<open>Alert.create\<close>: the row takes the next key and the clock as \<open>created_at\<close>, which
  the \<open>DATETIME\<close> column keeps in whole seconds.
\<close>

definition alert_create :: "int \<Rightarrow> alert \<Rightarrow> store \<Rightarrow> alert \<times> store" where
  "alert_create now a st =
     (let row = a\<lparr>a_id := alertSeq st, a_createdAt := now - now mod 1000\<rparr>
      in (row, st\<lparr>alerts := alerts st @ [row], alertSeq := Suc (alertSeq st)\<rparr>))"

definition alerts_post :: "int \<Rightarrow> user \<Rightarrow> alert_body \<Rightarrow> store \<Rightarrow> response \<times> store" where
  "alerts_post now u b st =
     (let errors = validate_alerts_post b in
      if errors \<noteq> [] then ((400, ValidationFailed ''Validation failed'' errors), st)
      else
        let title = trim (required (b_title b));
            message = map_option trim (b_message b);
            priority = b_priority b;
            type = b_type b;
            metadata = b_metadata b;
            (alert, st') = alert_create now
              \<lparr>a_id = 0, a_title = title, a_message = message, a_status = ''active'',
               a_priority = or_str priority ''medium'', a_type = or_str type ''general'',
               a_userId = u_id u,
               a_metadata = (case metadata of None \<Rightarrow> Map.empty | Some m \<Rightarrow> m),
               a_acknowledgedAt = None, a_resolvedAt = None, a_createdAt = now\<rparr> st;
            createdAlert = alert_findByPk (a_id alert) st'
        in ((201, AlertDone ''Alert created successfully'' createdAlert), st'))"

subsection \<open>PUT /api/alerts/:id\<close>

definition validate_alerts_put :: "alert_body \<Rightarrow> string list" where
  "validate_alerts_put b =
     check (optional (\<lambda>t. isLength 1 (Some 255) (trim t)) (b_title b))
       ''Title must be between 1 and 255 characters'' @
     check (optional (\<lambda>m. isLength 0 (Some 1000) (trim m)) (b_message b))
       ''Message must not exceed 1000 characters'' @
     check (optional (isIn status_enum) (b_status b))
       ''Status must be active, acknowledged, resolved, or dismissed'' @
     check (optional (isIn priority_enum) (b_priority b))
       ''Priority must be low, medium, high, or critical'' @
     check (optional (isIn type_enum) (b_type b))
       ''Type must be general, health, system, diagnostic, or reminder''"

text \<open>The object \<open>updateData\<close>: a key is \<open>None\<close> when the handler does not set it.\<close>

record alert_patch =
  p_title :: "string option"
  p_message :: "string option"
  p_status :: "string option"
  p_acknowledgedAt :: "int option"
  p_resolvedAt :: "int option"
  p_priority :: "string option"
  p_type :: "string option"
  p_metadata :: "jobject option"

definition alerts_updateData :: "int \<Rightarrow> alert \<Rightarrow> alert_body \<Rightarrow> alert_patch" where
  "alerts_updateData now alert b =
     (let title = map_option trim (b_title b);
          message = map_option trim (b_message b);
          status = b_status b;
          priority = b_priority b;
          type = b_type b;
          metadata = b_metadata b
      in \<lparr>p_title = if_truthy title,
          p_message = message,
          p_status = if_truthy status,
          p_acknowledgedAt =
            (if truthy status \<and> status = Some ''acknowledged'' \<and> a_acknowledgedAt alert = None
             then Some now else None),
          p_resolvedAt =
            (if truthy status \<and> status = Some ''resolved'' \<and> a_resolvedAt alert = None
             then Some now else None),
          p_priority = if_truthy priority,
          p_type = if_truthy type,
          p_metadata = (case metadata of None \<Rightarrow> None | Some m \<Rightarrow> Some (a_metadata alert ++ m))\<rparr>)"

text \<open>\<open>alert.update(updateData)\<close>: the keys that are set overwrite the row's columns.\<close>

definition alert_set :: "alert_patch \<Rightarrow> alert \<Rightarrow> alert" where
  "alert_set p a =
     a\<lparr>a_title := (case p_title p of None \<Rightarrow> a_title a | Some t \<Rightarrow> t),
       a_message := (case p_message p of None \<Rightarrow> a_message a | Some m \<Rightarrow> Some m),
       a_status := (case p_status p of None \<Rightarrow> a_status a | Some s \<Rightarrow> s),
       a_acknowledgedAt :=
         (case p_acknowledgedAt p of None \<Rightarrow> a_acknowledgedAt a | Some t \<Rightarrow> Some t),
       a_resolvedAt := (case p_resolvedAt p of None \<Rightarrow> a_resolvedAt a | Some t \<Rightarrow> Some t),
       a_priority := (case p_priority p of None \<Rightarrow> a_priority a | Some s \<Rightarrow> s),
       a_type := (case p_type p of None \<Rightarrow> a_type a | Some s \<Rightarrow> s),
       a_metadata := (case p_metadata p of None \<Rightarrow> a_metadata a | Some m \<Rightarrow> m)\<rparr>"

definition alert_update :: "alert \<Rightarrow> alert_patch \<Rightarrow> store \<Rightarrow> store" where
  "alert_update alert p st = alert_save (alert_set p alert) st"

definition alerts_put ::
  "int \<Rightarrow> user \<Rightarrow> nat \<Rightarrow> alert_body \<Rightarrow> store \<Rightarrow> response \<times> store" where
  "alerts_put now u i b st =
     (let errors = validate_alerts_put b in
      if errors \<noteq> [] then ((400, ValidationFailed ''Validation failed'' errors), st)
      else
        case alert_findOne i (u_id u) st of
          None \<Rightarrow> ((404, Message ''Alert not found''), st)
        | Some alert \<Rightarrow>
            let updateData = alerts_updateData now alert b;
                st' = alert_update alert updateData st;
                updatedAlert = alert_findByPk (a_id alert) st'
            in ((200, AlertDone ''Alert updated successfully'' updatedAlert), st'))"

subsection \<open>PUT /api/alerts/:id/acknowledge, PUT /api/alerts/:id/resolve, DELETE /api/alerts/:id\<close>

definition alerts_put_acknowledge :: "int \<Rightarrow> user \<Rightarrow> nat \<Rightarrow> store \<Rightarrow> response \<times> store" where
  "alerts_put_acknowledge now u i st =
     (case alert_findOne i (u_id u) st of
        None \<Rightarrow> ((404, Message ''Alert not found''), st)
      | Some alert \<Rightarrow>
          let alert' = acknowledge now alert
          in ((200, AlertPlain ''Alert acknowledged successfully'' alert'), alert_save alert' st))"

definition alerts_put_resolve :: "int \<Rightarrow> user \<Rightarrow> nat \<Rightarrow> store \<Rightarrow> response \<times> store" where
  "alerts_put_resolve now u i st =
     (case alert_findOne i (u_id u) st of
        None \<Rightarrow> ((404, Message ''Alert not found''), st)
      | Some alert \<Rightarrow>
          let alert' = resolve now alert
          in ((200, AlertPlain ''Alert resolved successfully'' alert'), alert_save alert' st))"

definition alerts_delete :: "user \<Rightarrow> nat \<Rightarrow> store \<Rightarrow> response \<times> store" where
  "alerts_delete u i st =
     (case alert_findOne i (u_id u) st of
        None \<Rightarrow> ((404, Message ''Alert not found''), st)
      | Some alert \<Rightarrow> ((200, Message ''Alert deleted successfully''), alert_destroy alert st))"

subsection \<open>GET /api/alerts/stats/summary\<close>

definition alert_count :: "(alert \<Rightarrow> bool) \<Rightarrow> store \<Rightarrow> nat" where
  "alert_count matches st = length (filter matches (alerts st))"

definition alerts_get_stats_summary :: "user \<Rightarrow> store \<Rightarrow> response" where
  "alerts_get_stats_summary u st =
     (let total = alert_count (\<lambda>a. a_userId a = u_id u) st;
          active = alert_count (\<lambda>a. a_userId a = u_id u \<and> a_status a = ''active'') st;
          acknowledged =
            alert_count (\<lambda>a. a_userId a = u_id u \<and> a_status a = ''acknowledged'') st;
          resolved = alert_count (\<lambda>a. a_userId a = u_id u \<and> a_status a = ''resolved'') st;
          dismissed = alert_count (\<lambda>a. a_userId a = u_id u \<and> a_status a = ''dismissed'') st;
          priorityStats =
            group_count (map a_priority (filter (\<lambda>a. a_userId a = u_id u) (alerts st)))
      in (200, AlertSummary total
            [''active'' \<mapsto> active, ''acknowledged'' \<mapsto> acknowledged,
             ''resolved'' \<mapsto> resolved, ''dismissed'' \<mapsto> dismissed]
            (reduce_counts priorityStats)))"


section \<open>Diagnostic tests (the \<open>/api/diagnostic-tests\<close> router, \<open>models/DiagnosticTest.js\<close>)\<close>

subsection \<open>Model methods\<close>

definition markAsReviewed :: "diagnostic_test \<Rightarrow> diagnostic_test" where
  "markAsReviewed t = t\<lparr>t_status := ''reviewed''\<rparr>"

definition cancel :: "diagnostic_test \<Rightarrow> diagnostic_test" where
  "cancel t = t\<lparr>t_status := ''cancelled''\<rparr>"

definition test_save :: "diagnostic_test \<Rightarrow> store \<Rightarrow> store" where
  "test_save t st = st\<lparr>tests := map (\<lambda>r. if t_id r = t_id t then t else r) (tests st)\<rparr>"

definition test_destroy :: "diagnostic_test \<Rightarrow> store \<Rightarrow> store" where
  "test_destroy t st = st\<lparr>tests := filter (\<lambda>r. t_id r \<noteq> t_id t) (tests st)\<rparr>"

definition test_findOne :: "nat \<Rightarrow> nat \<Rightarrow> store \<Rightarrow> diagnostic_test option" where
  "test_findOne i uid st = find (\<lambda>t. t_id t = i \<and> t_userId t = uid) (tests st)"

definition test_view :: "store \<Rightarrow> diagnostic_test \<Rightarrow> test_view" where
  "test_view st t = (t, user_include st (t_userId t))"

definition test_findByPk :: "nat \<Rightarrow> store \<Rightarrow> test_view option" where
  "test_findByPk i st = map_option (test_view st) (find (\<lambda>t. t_id t = i) (tests st))"

text \<open>The order clause \<open>[['date', 'DESC']]\<close>.\<close>

definition test_before :: "diagnostic_test \<Rightarrow> diagnostic_test \<Rightarrow> bool" where
  "test_before a b = (t_date b \<le> t_date a)"

definition findAbnormalByUser ::
  "(diagnostic_test \<Rightarrow> nat) \<Rightarrow> nat \<Rightarrow> store \<Rightarrow> diagnostic_test list" where
  "findAbnormalByUser tie uid st =
     ordered tie test_before (filter (\<lambda>t. t_userId t = uid \<and> t_isAbnormal t) (tests st))"

text \<open>
  \<open>dateThreshold.setDate(dateThreshold.getDate() - days)\<close> moves the clock back by whole
  days (of 86400000 ms; daylight-saving shifts are left out). Sequelize writes the
  threshold into the statement as a date of the \<open>DATEONLY\<close> column, the calendar day of
  the instant (in UTC, the time zone of the model's day numbers), so a row dated on the day
  of the threshold is on or after it.
\<close>

definition day_ms :: int where
  "day_ms = 86400000"

definition on_or_after :: "int \<Rightarrow> int \<Rightarrow> bool" where
  "on_or_after threshold date = (threshold div day_ms \<le> date)"

definition findRecentByUser ::
  "(diagnostic_test \<Rightarrow> nat) \<Rightarrow> int \<Rightarrow> nat \<Rightarrow> int \<Rightarrow> store \<Rightarrow> diagnostic_test list" where
  "findRecentByUser tie now uid days st =
     (let dateThreshold = now - days * day_ms
      in ordered tie test_before
           (filter (\<lambda>t. t_userId t = uid \<and> on_or_after dateThreshold (t_date t)) (tests st)))"

subsection \<open>GET /api/diagnostic-tests\<close>

record test_query =
  tq_page :: "int parsed option"
  tq_limit :: "int parsed option"
  tq_testType :: "string option"
  tq_status :: "string option"
  tq_isAbnormal :: "string option"
  tq_dateFrom :: "int parsed option"
  tq_dateTo :: "int parsed option"

definition testType_enum :: "string list" where
  "testType_enum =
     [''blood'', ''urine'', ''imaging'', ''cardiac'', ''neurological'', ''genetic'', ''general'']"

definition test_status_enum :: "string list" where
  "test_status_enum = [''pending'', ''completed'', ''reviewed'', ''cancelled'']"

definition validate_tests_get :: "test_query \<Rightarrow> string list" where
  "validate_tests_get q =
     check (optional (isInt (Some 1) None) (tq_page q)) ''Page must be a positive integer'' @
     check (optional (isInt (Some 1) (Some 100)) (tq_limit q)) ''Limit must be between 1 and 100'' @
     check (optional (isIn testType_enum) (tq_testType q)) ''Invalid test type filter'' @
     check (optional (isIn test_status_enum) (tq_status q)) ''Invalid status filter'' @
     check (optional isBoolean (tq_isAbnormal q)) ''isAbnormal must be a boolean'' @
     check (optional isISO8601 (tq_dateFrom q)) ''dateFrom must be a valid date'' @
     check (optional isISO8601 (tq_dateTo q)) ''dateTo must be a valid date''"

text \<open>
  The date a supplied (truthy) parameter denotes; \<open>whereClause.date\<close> holds the bounds
  \<open>Op.gte\<close> and \<open>Op.lte\<close> and exists when one of the two parameters is truthy.
\<close>

definition date_given :: "int parsed option \<Rightarrow> int option" where
  "date_given v = (case v of Some (Parsed d) \<Rightarrow> Some d | _ \<Rightarrow> None)"

record test_where =
  tw_userId :: nat
  tw_testType :: "string option"
  tw_status :: "string option"
  tw_isAbnormal :: "bool option"
  tw_date :: "(int option \<times> int option) option"

definition test_matches :: "test_where \<Rightarrow> diagnostic_test \<Rightarrow> bool" where
  "test_matches w t =
     (t_userId t = tw_userId w \<and>
      (case tw_testType w of None \<Rightarrow> True | Some s \<Rightarrow> t_testType t = s) \<and>
      (case tw_status w of None \<Rightarrow> True | Some s \<Rightarrow> t_status t = s) \<and>
      (case tw_isAbnormal w of None \<Rightarrow> True | Some b \<Rightarrow> t_isAbnormal t = b) \<and>
      (case tw_date w of
         None \<Rightarrow> True
       | Some (gte, lte) \<Rightarrow>
           (case gte of None \<Rightarrow> True | Some d \<Rightarrow> d \<le> t_date t) \<and>
           (case lte of None \<Rightarrow> True | Some d \<Rightarrow> t_date t \<le> d)))"

definition tests_whereClause :: "user \<Rightarrow> test_query \<Rightarrow> test_where" where
  "tests_whereClause u q =
     \<lparr>tw_userId = u_id u, tw_testType = if_truthy (tq_testType q),
      tw_status = if_truthy (tq_status q),
      tw_isAbnormal = map_option (\<lambda>s. s = ''true'') (tq_isAbnormal q),
      tw_date =
        (if date_given (tq_dateFrom q) \<noteq> None \<or> date_given (tq_dateTo q) \<noteq> None
         then Some (date_given (tq_dateFrom q), date_given (tq_dateTo q)) else None)\<rparr>"

definition tests_get ::
  "(diagnostic_test \<Rightarrow> nat) \<Rightarrow> user \<Rightarrow> test_query \<Rightarrow> store \<Rightarrow> response" where
  "tests_get tie u q st =
     (let errors = validate_tests_get q in
      if errors \<noteq> [] then (400, ValidationFailed ''Validation failed'' errors)
      else
        let page = or_num (parseInt (tq_page q)) (Whole 1);
            limit = or_num (parseInt (tq_limit q)) (Whole 10);
            offset = num_times (num_minus page (Whole 1)) limit;
            whereClause = tests_whereClause u q
        in case findAndCountAll (test_matches whereClause) test_before tie limit offset
                  (tests st) of
             None \<Rightarrow> (500, Message ''Server error while fetching diagnostic tests'')
           | Some (rowCount, rows) \<Rightarrow>
               let totalPages = ceil_quotient rowCount limit
               in (200, TestsPage (map (test_view st) rows)
                     \<lparr>currentPage = page, totalPages = totalPages,
                      totalItems = Whole (int rowCount), itemsPerPage = limit,
                      hasNextPage = num_less page totalPages,
                      hasPrevPage = num_less (Whole 1) page\<rparr>))"

subsection \<open>GET /api/diagnostic-tests/recent, /abnormal and /:id\<close>

text \<open>\<open>days\<close> is \<open>parseInt(req.query.days)\<close>, \<open>None\<close> for \<open>NaN\<close>; no validator runs on it.\<close>

definition tests_get_recent ::
  "(diagnostic_test \<Rightarrow> nat) \<Rightarrow> int \<Rightarrow> user \<Rightarrow> int option \<Rightarrow> store \<Rightarrow> response" where
  "tests_get_recent tie now u days_param st =
     (let days = or_int days_param 30;
          found = findRecentByUser tie now (u_id u) days st
      in (200, TestsRecent found (length found) days))"

definition tests_get_abnormal :: "(diagnostic_test \<Rightarrow> nat) \<Rightarrow> user \<Rightarrow> store \<Rightarrow> response" where
  "tests_get_abnormal tie u st =
     (let found = findAbnormalByUser tie (u_id u) st in (200, TestsCount found (length found)))"

definition tests_get_id :: "user \<Rightarrow> nat \<Rightarrow> store \<Rightarrow> response" where
  "tests_get_id u i st =
     (case test_findOne i (u_id u) st of
        None \<Rightarrow> (404, Message ''Diagnostic test not found'')
      | Some t \<Rightarrow> (200, TestOne (test_view st t)))"

subsection \<open>POST /api/diagnostic-tests\<close>

text \<open>
  The JSON body, \<open>isAbnormal\<close> typed as a boolean and \<open>attachments\<close> as an array;
  \<open>tb_userId\<close> is an owner a client may put in the body.
\<close>

record test_body =
  tb_name :: "string option"
  tb_result :: "string option"
  tb_date :: "int parsed option"
  tb_testType :: "string option"
  tb_status :: "string option"
  tb_normalRange :: "string option"
  tb_units :: "string option"
  tb_notes :: "string option"
  tb_doctorName :: "string option"
  tb_labName :: "string option"
  tb_isAbnormal :: "bool option"
  tb_attachments :: "json list option"
  tb_userId :: "nat option"

definition at_most :: "nat \<Rightarrow> string \<Rightarrow> bool" where
  "at_most n s = isLength 0 (Some n) (trim s)"

definition validate_test_optionals :: "test_body \<Rightarrow> string list" where
  "validate_test_optionals b =
     check (optional (isIn testType_enum) (tb_testType b))
       ''Test type must be blood, urine, imaging, cardiac, neurological, genetic, or general'' @
     check (optional (isIn test_status_enum) (tb_status b))
       ''Status must be pending, completed, reviewed, or cancelled'' @
     check (optional (at_most 255) (tb_normalRange b))
       ''Normal range must not exceed 255 characters'' @
     check (optional (at_most 50) (tb_units b)) ''Units must not exceed 50 characters'' @
     check (optional (at_most 1000) (tb_notes b)) ''Notes must not exceed 1000 characters'' @
     check (optional (at_most 255) (tb_doctorName b))
       ''Doctor name must not exceed 255 characters'' @
     check (optional (at_most 255) (tb_labName b)) ''Lab name must not exceed 255 characters''"

definition validate_tests_post :: "test_body \<Rightarrow> string list" where
  "validate_tests_post b =
     check (isLength 1 (Some 255) (trim (required (tb_name b))))
       ''Name must be between 1 and 255 characters'' @
     check (trim (required (tb_result b)) \<noteq> []) ''Result is required'' @
     check (case tb_date b of None \<Rightarrow> False | Some d \<Rightarrow> isISO8601 d)
       ''Date must be a valid date'' @
     validate_test_optionals b"

definition test_create :: "diagnostic_test \<Rightarrow> store \<Rightarrow> diagnostic_test \<times> store" where
  "test_create t st =
     (let row = t\<lparr>t_id := testSeq st\<rparr>
      in (row, st\<lparr>tests := tests st @ [row], testSeq := Suc (testSeq st)\<rparr>))"

definition tests_post :: "user \<Rightarrow> test_body \<Rightarrow> store \<Rightarrow> response \<times> store" where
  "tests_post u b st =
     (let errors = validate_tests_post b in
      if errors \<noteq> [] then ((400, ValidationFailed ''Validation failed'' errors), st)
      else
        let name = trim (required (tb_name b));
            result = trim (required (tb_result b));
            date = (case date_given (tb_date b) of None \<Rightarrow> 0 | Some d \<Rightarrow> d);
            testType = tb_testType b;
            status = tb_status b;
            isAbnormal = tb_isAbnormal b;
            attachments = tb_attachments b;
            (test, st') = test_create
              \<lparr>t_id = 0, t_name = name, t_result = result, t_date = date,
               t_testType = or_str testType ''general'', t_status = or_str status ''completed'',
               t_normalRange = map_option trim (tb_normalRange b),
               t_units = map_option trim (tb_units b),
               t_notes = map_option trim (tb_notes b),
               t_userId = u_id u,
               t_doctorName = map_option trim (tb_doctorName b),
               t_labName = map_option trim (tb_labName b),
               t_isAbnormal = (case isAbnormal of None \<Rightarrow> False | Some v \<Rightarrow> v),
               t_attachments = (case attachments of None \<Rightarrow> [] | Some v \<Rightarrow> v)\<rparr> st;
            createdTest = test_findByPk (t_id test) st'
        in ((201, TestDone ''Diagnostic test created successfully'' createdTest), st'))"

subsection \<open>PUT /api/diagnostic-tests/:id, /:id/review and DELETE /api/diagnostic-tests/:id\<close>

definition validate_tests_put :: "test_body \<Rightarrow> string list" where
  "validate_tests_put b =
     check (optional (\<lambda>n. isLength 1 (Some 255) (trim n)) (tb_name b))
       ''Name must be between 1 and 255 characters'' @
     check (optional (\<lambda>r. trim r \<noteq> []) (tb_result b)) ''Result cannot be empty'' @
     check (optional isISO8601 (tb_date b)) ''Date must be a valid date'' @
     validate_test_optionals b"

text \<open>
  \<open>updateData\<close> applied to the row: \<open>if (k)\<close> keys overwrite when truthy, the
  \<open>k !== undefined\<close> keys whenever they are present.
\<close>

definition tests_updateData :: "test_body \<Rightarrow> diagnostic_test \<Rightarrow> diagnostic_test" where
  "tests_updateData b t =
     t\<lparr>t_name := (case if_truthy (map_option trim (tb_name b)) of None \<Rightarrow> t_name t | Some v \<Rightarrow> v),
       t_result :=
         (case if_truthy (map_option trim (tb_result b)) of None \<Rightarrow> t_result t | Some v \<Rightarrow> v),
       t_date := (case date_given (tb_date b) of None \<Rightarrow> t_date t | Some d \<Rightarrow> d),
       t_testType := (case if_truthy (tb_testType b) of None \<Rightarrow> t_testType t | Some v \<Rightarrow> v),
       t_status := (case if_truthy (tb_status b) of None \<Rightarrow> t_status t | Some v \<Rightarrow> v),
       t_normalRange :=
         (case tb_normalRange b of None \<Rightarrow> t_normalRange t | Some v \<Rightarrow> Some (trim v)),
       t_units := (case tb_units b of None \<Rightarrow> t_units t | Some v \<Rightarrow> Some (trim v)),
       t_notes := (case tb_notes b of None \<Rightarrow> t_notes t | Some v \<Rightarrow> Some (trim v)),
       t_doctorName :=
         (case tb_doctorName b of None \<Rightarrow> t_doctorName t | Some v \<Rightarrow> Some (trim v)),
       t_labName := (case tb_labName b of None \<Rightarrow> t_labName t | Some v \<Rightarrow> Some (trim v)),
       t_isAbnormal := (case tb_isAbnormal b of None \<Rightarrow> t_isAbnormal t | Some v \<Rightarrow> v),
       t_attachments := (case tb_attachments b of None \<Rightarrow> t_attachments t | Some v \<Rightarrow> v)\<rparr>"

definition tests_put :: "user \<Rightarrow> nat \<Rightarrow> test_body \<Rightarrow> store \<Rightarrow> response \<times> store" where
  "tests_put u i b st =
     (let errors = validate_tests_put b in
      if errors \<noteq> [] then ((400, ValidationFailed ''Validation failed'' errors), st)
      else
        case test_findOne i (u_id u) st of
          None \<Rightarrow> ((404, Message ''Diagnostic test not found''), st)
        | Some test \<Rightarrow>
            let st' = test_save (tests_updateData b test) st;
                updatedTest = test_findByPk (t_id test) st'
            in ((200, TestDone ''Diagnostic test updated successfully'' updatedTest), st'))"

definition tests_put_review :: "user \<Rightarrow> nat \<Rightarrow> store \<Rightarrow> response \<times> store" where
  "tests_put_review u i st =
     (case test_findOne i (u_id u) st of
        None \<Rightarrow> ((404, Message ''Diagnostic test not found''), st)
      | Some test \<Rightarrow>
          let test' = markAsReviewed test
          in ((200, TestPlain ''Diagnostic test marked as reviewed'' test'), test_save test' st))"

definition tests_delete :: "user \<Rightarrow> nat \<Rightarrow> store \<Rightarrow> response \<times> store" where
  "tests_delete u i st =
     (case test_findOne i (u_id u) st of
        None \<Rightarrow> ((404, Message ''Diagnostic test not found''), st)
      | Some test \<Rightarrow>
          ((200, Message ''Diagnostic test deleted successfully''), test_destroy test st))"

subsection \<open>GET /api/diagnostic-tests/stats/summary\<close>

definition test_count :: "(diagnostic_test \<Rightarrow> bool) \<Rightarrow> store \<Rightarrow> nat" where
  "test_count matches st = length (filter matches (tests st))"

definition tests_get_stats_summary :: "int \<Rightarrow> user \<Rightarrow> store \<Rightarrow> response" where
  "tests_get_stats_summary now u st =
     (let total = test_count (\<lambda>t. t_userId t = u_id u) st;
          abnormal = test_count (\<lambda>t. t_userId t = u_id u \<and> t_isAbnormal t) st;
          pending = test_count (\<lambda>t. t_userId t = u_id u \<and> t_status t = ''pending'') st;
          completed = test_count (\<lambda>t. t_userId t = u_id u \<and> t_status t = ''completed'') st;
          reviewed = test_count (\<lambda>t. t_userId t = u_id u \<and> t_status t = ''reviewed'') st;
          typeStats =
            group_count (map t_testType (filter (\<lambda>t. t_userId t = u_id u) (tests st)));
          thirtyDaysAgo = now - 30 * day_ms;
          recentCount =
            test_count (\<lambda>t. t_userId t = u_id u \<and> on_or_after thirtyDaysAgo (t_date t)) st
      in (200, TestSummary total abnormal recentCount
            [''pending'' \<mapsto> pending, ''completed'' \<mapsto> completed, ''reviewed'' \<mapsto> reviewed]
            (reduce_counts typeStats)))"

section \<open>Users (the \<open>/api/users\<close> router) and the auth middleware\<close>

subsection \<open>Store operations on users\<close>

definition user_findByPk :: "nat \<Rightarrow> store \<Rightarrow> user option" where
  "user_findByPk i st = find (\<lambda>r. u_id r = i) (users st)"

text \<open>
  \<open>req.user.update(values)\<close>: an \<open>UPDATE\<close> of the changed columns of the row with the
  caller's primary key.
\<close>

definition user_update :: "nat \<Rightarrow> (user \<Rightarrow> user) \<Rightarrow> store \<Rightarrow> store" where
  "user_update i change st =
     st\<lparr>users := map (\<lambda>r. if u_id r = i then change r else r) (users st)\<rparr>"

text \<open>
  \<open>User.hasMany(Alert, { onDelete: 'CASCADE' })\<close> and the same for tests: destroying a
  user row removes the rows that reference it. The test suite calls \<open>testUser.destroy()\<close>;
  no route does.
\<close>

definition user_destroy :: "nat \<Rightarrow> store \<Rightarrow> store" where
  "user_destroy i st =
     st\<lparr>users := filter (\<lambda>r. u_id r \<noteq> i) (users st),
        alerts := filter (\<lambda>a. a_userId a \<noteq> i) (alerts st),
        tests := filter (\<lambda>t. t_userId t \<noteq> i) (tests st)\<rparr>"

subsection \<open>The auth middleware\<close>

text \<open>
  \<open>jwt.verify\<close> is a capability from outside: it decodes a token to the user id it
  claims, or throws one of two errors.
\<close>

datatype jwt = Decoded nat | JsonWebTokenError | TokenExpiredError

text \<open>\<open>header.replace('Bearer ', '')\<close> removes the first occurrence.\<close>

fun remove_first :: "string \<Rightarrow> string \<Rightarrow> string" where
  "remove_first pat [] = []"
| "remove_first pat (c # cs) =
     (if take (length pat) (c # cs) = pat then drop (length pat) (c # cs)
      else c # remove_first pat cs)"

definition auth :: "(string \<Rightarrow> jwt) \<Rightarrow> string option \<Rightarrow> store \<Rightarrow> response + user" where
  "auth verify header st =
     (let token = map_option (remove_first ''Bearer '') header in
      if \<not> truthy token then Inl (401, Message ''Access denied. No token provided.'')
      else
        case verify (required token) of
          JsonWebTokenError \<Rightarrow> Inl (401, Message ''Access denied. Invalid token.'')
        | TokenExpiredError \<Rightarrow> Inl (401, Message ''Access denied. Token expired.'')
        | Decoded i \<Rightarrow>
            (case user_findByPk i st of
               None \<Rightarrow> Inl (401, Message ''Access denied. Invalid token or user inactive.'')
             | Some user \<Rightarrow>
                 if \<not> u_isActive user
                 then Inl (401, Message ''Access denied. Invalid token or user inactive.'')
                 else Inr user))"

subsection \<open>GET and PUT /api/users/profile\<close>

definition users_get_profile :: "user \<Rightarrow> store \<Rightarrow> response" where
  "users_get_profile u st =
     (case user_findByPk (u_id u) st of
        None \<Rightarrow> (404, Message ''User not found'')
      | Some user \<Rightarrow>
          (200, ProfileBody
             \<lparr>pf_id = u_id user, pf_name = u_name user, pf_email = u_email user,
              pf_preferences = u_preferences user, pf_isActive = u_isActive user,
              pf_lastLogin = u_lastLogin user, pf_createdAt = u_createdAt user\<rparr>))"

text \<open>
  The body of a profile update; \<open>Parsed e\<close> is an address \<open>isEmail\<close> accepts, in the
  form \<open>normalizeEmail\<close> gives it.
\<close>

record profile_body =
  pr_name :: "string option"
  pr_email :: "string parsed option"

definition isEmail :: "string parsed \<Rightarrow> bool" where
  "isEmail v = (case v of Unparsable \<Rightarrow> False | Parsed e \<Rightarrow> True)"

definition validate_users_put_profile :: "profile_body \<Rightarrow> string list" where
  "validate_users_put_profile b =
     check (optional (\<lambda>n. isLength 2 (Some 100) (trim n)) (pr_name b))
       ''Name must be between 2 and 100 characters'' @
     check (optional isEmail (pr_email b)) ''Please provide a valid email''"

definition users_put_profile :: "user \<Rightarrow> profile_body \<Rightarrow> store \<Rightarrow> response \<times> store" where
  "users_put_profile u b st =
     (let errors = validate_users_put_profile b in
      if errors \<noteq> [] then ((400, ValidationFailed ''Validation failed'' errors), st)
      else
        let name = map_option trim (pr_name b);
            email = (case pr_email b of Some (Parsed e) \<Rightarrow> Some e | _ \<Rightarrow> None);
            existingUser =
              (if truthy email
               then find (\<lambda>r. u_email r = required email \<and> u_id r \<noteq> u_id u) (users st)
               else None)
        in if existingUser \<noteq> None
           then ((400, Message ''Email is already taken by another user''), st)
           else
             let change = (\<lambda>r. r\<lparr>u_name := or_str name (u_name r),
                                   u_email := or_str email (u_email r)\<rparr>);
                 user = change u
             in ((200, ProfileDone ''Profile updated successfully''
                   \<lparr>pb_id = u_id user, pb_name = u_name user, pb_email = u_email user,
                    pb_preferences = u_preferences user\<rparr>),
                 user_update (u_id u) change st))"

subsection \<open>PUT /api/users/preferences\<close>

record preferences_body =
  pe_notificationThreshold :: "string option"
  pe_emailNotifications :: "bool option"
  pe_theme :: "string option"
  pe_language :: "string option"

definition validate_users_put_preferences :: "preferences_body \<Rightarrow> string list" where
  "validate_users_put_preferences b =
     check (optional (isIn [''low'', ''medium'', ''high'']) (pe_notificationThreshold b))
       ''Notification threshold must be low, medium, or high'' @
     check (optional (isIn [''light'', ''dark'']) (pe_theme b)) ''Theme must be light or dark'' @
     check (optional (isIn [''en'', ''es'', ''fr'', ''de'']) (pe_language b))
       ''Language must be en, es, fr, or de''"

text \<open>\<open>...(v && { k: v })\<close>: the key is spread in when \<open>v\<close> is truthy.\<close>

definition spread_str :: "string \<Rightarrow> string option \<Rightarrow> jobject" where
  "spread_str k v = (if truthy v then [k \<mapsto> JStr (required v)] else Map.empty)"

definition users_put_preferences ::
  "user \<Rightarrow> preferences_body \<Rightarrow> store \<Rightarrow> response \<times> store" where
  "users_put_preferences u b st =
     (let errors = validate_users_put_preferences b in
      if errors \<noteq> [] then ((400, ValidationFailed ''Validation failed'' errors), st)
      else
        let currentPreferences =
              (case u_preferences u of None \<Rightarrow> Map.empty | Some prefs \<Rightarrow> prefs);
            updatedPreferences =
              currentPreferences ++
              spread_str ''notificationThreshold'' (pe_notificationThreshold b) ++
              (case pe_emailNotifications b of
                 None \<Rightarrow> Map.empty
               | Some v \<Rightarrow> [''emailNotifications'' \<mapsto> JBool v]) ++
              spread_str ''theme'' (pe_theme b) ++
              spread_str ''language'' (pe_language b)
        in ((200, PreferencesDone ''Preferences updated successfully'' updatedPreferences),
            user_update (u_id u) (\<lambda>r. r\<lparr>u_preferences := Some updatedPreferences\<rparr>) st))"

subsection \<open>PUT /api/users/password\<close>

record password_body =
  pw_currentPassword :: "string option"
  pw_newPassword :: "string option"
  pw_confirmPassword :: "string option"

definition validate_users_put_password :: "password_body \<Rightarrow> string list" where
  "validate_users_put_password b =
     check (required (pw_currentPassword b) \<noteq> []) ''Current password is required'' @
     check (isLength 6 None (required (pw_newPassword b)))
       ''New password must be at least 6 characters long'' @
     check (pw_confirmPassword b = pw_newPassword b) ''Password confirmation does not match''"

text \<open>
  \<open>comparePassword\<close> and the hashing of a stored password belong to the \<open>User\<close> model,
  which is not among the sources; both are parameters.
\<close>

definition users_put_password ::
  "(string \<Rightarrow> string \<Rightarrow> bool) \<Rightarrow> (string \<Rightarrow> string) \<Rightarrow> user \<Rightarrow> password_body \<Rightarrow> store \<Rightarrow>
   response \<times> store" where
  "users_put_password comparePassword hash u b st =
     (let errors = validate_users_put_password b in
      if errors \<noteq> [] then ((400, ValidationFailed ''Validation failed'' errors), st)
      else
        let currentPassword = required (pw_currentPassword b);
            newPassword = required (pw_newPassword b)
        in if \<not> comparePassword currentPassword (u_password u)
           then ((400, Message ''Current password is incorrect''), st)
           else ((200, Message ''Password changed successfully''),
                 user_update (u_id u) (\<lambda>r. r\<lparr>u_password := hash newPassword\<rparr>) st))"

subsection \<open>DELETE /api/users/account and GET /api/users/stats\<close>

definition users_delete_account :: "user \<Rightarrow> store \<Rightarrow> response \<times> store" where
  "users_delete_account u st =
     ((200, Message ''Account deactivated successfully''),
      user_update (u_id u) (\<lambda>r. r\<lparr>u_isActive := False\<rparr>) st)"

definition users_get_stats :: "user \<Rightarrow> store \<Rightarrow> response" where
  "users_get_stats u st =
     (let alertsCount = alert_count (\<lambda>a. a_userId a = u_id u) st;
          testsCount = test_count (\<lambda>t. t_userId t = u_id u) st;
          activeAlertsCount =
            alert_count (\<lambda>a. a_userId a = u_id u \<and> a_status a = ''active'') st
      in (200, UserStats alertsCount activeAlertsCount testsCount (u_createdAt u)
            (u_lastLogin u)))"

section \<open>The API under the three routers\<close>

datatype request =
    GetAlerts alert_query
  | GetAlertsActive
  | GetAlert nat
  | PostAlert alert_body
  | PutAlert nat alert_body
  | PutAlertAcknowledge nat
  | PutAlertResolve nat
  | DeleteAlert nat
  | GetAlertsSummary
  | GetTests test_query
  | GetTestsRecent "int option"
  | GetTestsAbnormal
  | GetTest nat
  | PostTest test_body
  | PutTest nat test_body
  | PutTestReview nat
  | DeleteTest nat
  | GetTestsSummary
  | GetProfile
  | PutProfile profile_body
  | PutPreferences preferences_body
  | PutPassword password_body
  | DeleteAccount
  | GetUserStats

text \<open>
  The choices the database makes in the statements of one request: how it ranks tied rows
  of each table (see \<open>ordered\<close>).
\<close>

record engine =
  alert_tie :: "alert \<Rightarrow> nat"
  test_tie :: "diagnostic_test \<Rightarrow> nat"

text \<open>The handler of a request, run for the caller the middleware resolved.\<close>

fun handle ::
  "(string \<Rightarrow> string \<Rightarrow> bool) \<Rightarrow> (string \<Rightarrow> string) \<Rightarrow> engine \<Rightarrow> int \<Rightarrow> user \<Rightarrow> request \<Rightarrow>
   store \<Rightarrow> response \<times> store" where
  "handle cmp hash eng now u (GetAlerts q) st = (alerts_get (alert_tie eng) u q st, st)"
| "handle cmp hash eng now u GetAlertsActive st = (alerts_get_active (alert_tie eng) u st, st)"
| "handle cmp hash eng now u (GetAlert i) st = (alerts_get_id u i st, st)"
| "handle cmp hash eng now u (PostAlert b) st = alerts_post now u b st"
| "handle cmp hash eng now u (PutAlert i b) st = alerts_put now u i b st"
| "handle cmp hash eng now u (PutAlertAcknowledge i) st = alerts_put_acknowledge now u i st"
| "handle cmp hash eng now u (PutAlertResolve i) st = alerts_put_resolve now u i st"
| "handle cmp hash eng now u (DeleteAlert i) st = alerts_delete u i st"
| "handle cmp hash eng now u GetAlertsSummary st = (alerts_get_stats_summary u st, st)"
| "handle cmp hash eng now u (GetTests q) st = (tests_get (test_tie eng) u q st, st)"
| "handle cmp hash eng now u (GetTestsRecent days) st =
     (tests_get_recent (test_tie eng) now u days st, st)"
| "handle cmp hash eng now u GetTestsAbnormal st = (tests_get_abnormal (test_tie eng) u st, st)"
| "handle cmp hash eng now u (GetTest i) st = (tests_get_id u i st, st)"
| "handle cmp hash eng now u (PostTest b) st = tests_post u b st"
| "handle cmp hash eng now u (PutTest i b) st = tests_put u i b st"
| "handle cmp hash eng now u (PutTestReview i) st = tests_put_review u i st"
| "handle cmp hash eng now u (DeleteTest i) st = tests_delete u i st"
| "handle cmp hash eng now u GetTestsSummary st = (tests_get_stats_summary now u st, st)"
| "handle cmp hash eng now u GetProfile st = (users_get_profile u st, st)"
| "handle cmp hash eng now u (PutProfile b) st = users_put_profile u b st"
| "handle cmp hash eng now u (PutPreferences b) st = users_put_preferences u b st"
| "handle cmp hash eng now u (PutPassword b) st = users_put_password cmp hash u b st"
| "handle cmp hash eng now u DeleteAccount st = users_delete_account u st"
| "handle cmp hash eng now u GetUserStats st = (users_get_stats u st, st)"

text \<open>Every route runs \<open>auth\<close> first and answers its failure unchanged.\<close>

definition api ::
  "(string \<Rightarrow> jwt) \<Rightarrow> (string \<Rightarrow> string \<Rightarrow> bool) \<Rightarrow> (string \<Rightarrow> string) \<Rightarrow> engine \<Rightarrow> int \<Rightarrow>
   string option \<Rightarrow> request \<Rightarrow> store \<Rightarrow> response \<times> store" where
  "api verify cmp hash eng now header req st =
     (case auth verify header st of
        Inl denied \<Rightarrow> (denied, st)
      | Inr u \<Rightarrow> handle cmp hash eng now u req st)"

section \<open>Reading a response\<close>

text \<open>The rows of a list response, without the joined owner summary.\<close>

definition alerts_of :: "response \<Rightarrow> alert list" where
  "alerts_of r = (case snd r of AlertsPage rows pg \<Rightarrow> map fst rows | _ \<Rightarrow> [])"

definition tests_of :: "response \<Rightarrow> diagnostic_test list" where
  "tests_of r = (case snd r of TestsPage rows pg \<Rightarrow> map fst rows | _ \<Rightarrow> [])"




text \<open>The grouped maps of a summary response: by status, and by priority or test type.\<close>

definition byStatus :: "response \<Rightarrow> string \<rightharpoonup> nat" where
  "byStatus r =
     (case snd r of
        AlertSummary n by_status by_priority \<Rightarrow> by_status
      | TestSummary n ab rc by_status by_type \<Rightarrow> by_status
      | _ \<Rightarrow> Map.empty)"

definition byPriority :: "response \<Rightarrow> string \<rightharpoonup> nat" where
  "byPriority r =
     (case snd r of AlertSummary n by_status by_priority \<Rightarrow> by_priority | _ \<Rightarrow> Map.empty)"

definition byType :: "response \<Rightarrow> string \<rightharpoonup> nat" where
  "byType r =
     (case snd r of
        TestSummary n ab rc by_status by_type \<Rightarrow> by_type
      | _ \<Rightarrow> Map.empty)"

text \<open>
  The page number and the page size a query asks for: the integer its text denotes, 1 and
  10 when the parameter is absent.
\<close>

definition page_asked :: "int parsed option \<Rightarrow> int" where
  "page_asked v = (case v of Some (Parsed n) \<Rightarrow> n | _ \<Rightarrow> 1)"

definition limit_asked :: "int parsed option \<Rightarrow> int" where
  "limit_asked v = (case v of Some (Parsed n) \<Rightarrow> n | _ \<Rightarrow> 10)"

text \<open>
  The rows a list query matches, in table order, and their arrangement in one statement
  before \<open>LIMIT\<close> and \<open>OFFSET\<close>.
\<close>

definition alerts_matching :: "user \<Rightarrow> alert_query \<Rightarrow> store \<Rightarrow> alert list" where
  "alerts_matching u q st = filter (alert_matches (alerts_whereClause u q)) (alerts st)"

definition tests_matching :: "user \<Rightarrow> test_query \<Rightarrow> store \<Rightarrow> diagnostic_test list" where
  "tests_matching u q st = filter (test_matches (tests_whereClause u q)) (tests st)"

definition alerts_found :: "(alert \<Rightarrow> nat) \<Rightarrow> user \<Rightarrow> alert_query \<Rightarrow> store \<Rightarrow> alert list" where
  "alerts_found tie u q st = ordered tie alert_before (alerts_matching u q st)"

definition tests_found ::
  "(diagnostic_test \<Rightarrow> nat) \<Rightarrow> user \<Rightarrow> test_query \<Rightarrow> store \<Rightarrow> diagnostic_test list" where
  "tests_found tie u q st = ordered tie test_before (tests_matching u q st)"


text \<open>
  The boolean a text denotes that \<open>isBoolean\<close> accepts: \<open>true\<close> and \<open>1\<close> are true,
  \<open>false\<close> and \<open>0\<close> are false.
\<close>

definition boolean_text :: "string \<Rightarrow> bool" where
  "boolean_text s = (s = ''true'' \<or> s = ''1'')"

section \<open>A small store for concrete runs\<close>

text \<open>
  Two users; Alice owns alert 1 (high, health, active, never acknowledged), created at
  instant 100.
\<close>

definition alice :: user where
  "alice = \<lparr>u_id = 1, u_name = ''Alice'', u_email = ''alice@example.com'', u_password = ''h1'',
     u_preferences = None, u_isActive = True, u_isAdmin = False, u_lastLogin = None,
     u_createdAt = 0\<rparr>"

definition bob :: user where
  "bob = \<lparr>u_id = 2, u_name = ''Bob'', u_email = ''bob@example.com'', u_password = ''h2'',
     u_preferences = None, u_isActive = True, u_isAdmin = False, u_lastLogin = None,
     u_createdAt = 0\<rparr>"

definition alert1 :: alert where
  "alert1 = \<lparr>a_id = 1, a_title = ''Test Alert'', a_message = None, a_status = ''active'',
     a_priority = ''high'', a_type = ''health'', a_userId = 1, a_metadata = Map.empty,
     a_acknowledgedAt = None, a_resolvedAt = None, a_createdAt = 100\<rparr>"

definition store0 :: store where
  "store0 = \<lparr>users = [alice, bob], alerts = [alert1], tests = [], alertSeq = 2, testSeq = 1\<rparr>"

text \<open>The body \<open>{ status: s }\<close>.\<close>

definition status_body :: "string \<Rightarrow> alert_body" where
  "status_body s = \<lparr>b_title = None, b_message = None, b_status = Some s, b_priority = None,
     b_type = None, b_metadata = None, b_userId = None\<rparr>"

text \<open>
  A larger store: Alice also owns alert 2 (critical, acknowledged at 150, newer), Bob owns
  alert 3; Alice owns test 1 (blood, abnormal) and test 2 (urine), Bob owns test 3.
\<close>

definition alert2 :: alert where
  "alert2 = \<lparr>a_id = 2, a_title = ''Second'', a_message = Some ''m'', a_status = ''acknowledged'',
     a_priority = ''critical'', a_type = ''system'', a_userId = 1, a_metadata = Map.empty,
     a_acknowledgedAt = Some 150, a_resolvedAt = None, a_createdAt = 200\<rparr>"

definition alert3 :: alert where
  "alert3 = \<lparr>a_id = 3, a_title = ''Other'', a_message = None, a_status = ''active'',
     a_priority = ''low'', a_type = ''general'', a_userId = 2, a_metadata = Map.empty,
     a_acknowledgedAt = None, a_resolvedAt = None, a_createdAt = 300\<rparr>"

definition test1 :: diagnostic_test where
  "test1 = \<lparr>t_id = 1, t_name = ''CBC'', t_result = ''high'', t_date = 19000,
     t_testType = ''blood'', t_status = ''completed'', t_normalRange = None, t_units = None,
     t_notes = None, t_userId = 1, t_doctorName = None, t_labName = None, t_isAbnormal = True,
     t_attachments = []\<rparr>"

definition test2 :: diagnostic_test where
  "test2 = \<lparr>t_id = 2, t_name = ''Urinalysis'', t_result = ''normal'', t_date = 19010,
     t_testType = ''urine'', t_status = ''pending'', t_normalRange = None, t_units = None,
     t_notes = None, t_userId = 1, t_doctorName = None, t_labName = None, t_isAbnormal = False,
     t_attachments = []\<rparr>"

definition test3 :: diagnostic_test where
  "test3 = \<lparr>t_id = 3, t_name = ''MRI'', t_result = ''clear'', t_date = 19005,
     t_testType = ''imaging'', t_status = ''completed'', t_normalRange = None, t_units = None,
     t_notes = None, t_userId = 2, t_doctorName = None, t_labName = None, t_isAbnormal = False,
     t_attachments = []\<rparr>"

definition store2 :: store where
  "store2 = \<lparr>users = [alice, bob], alerts = [alert1, alert2, alert3],
     tests = [test1, test2, test3], alertSeq = 4, testSeq = 4\<rparr>"

text \<open>The queries \<open>?limit=1\<close> on both lists.\<close>

definition one_per_page :: alert_query where
  "one_per_page = \<lparr>q_page = None, q_limit = Some (Parsed 1), q_status = None,
     q_priority = None, q_type = None\<rparr>"

definition one_test_per_page :: test_query where
  "one_test_per_page = \<lparr>tq_page = None, tq_limit = Some (Parsed 1), tq_testType = None,
     tq_status = None, tq_isAbnormal = None, tq_dateFrom = None, tq_dateTo = None\<rparr>"

text \<open>
  The store after alert 1 was acknowledged and resolved at instant 1000, and the body
  \<open>{ metadata: m }\<close>.
\<close>

definition alert1_done :: alert where
  "alert1_done = alert1\<lparr>a_status := ''resolved'', a_acknowledgedAt := Some 1000,
     a_resolvedAt := Some 1000\<rparr>"

definition store1 :: store where
  "store1 = store0\<lparr>alerts := [alert1_done]\<rparr>"

definition metadata_body :: "jobject \<Rightarrow> alert_body" where
  "metadata_body m = \<lparr>b_title = None, b_message = None, b_status = None, b_priority = None,
     b_type = None, b_metadata = Some m, b_userId = None\<rparr>"

text \<open>Create bodies that name Bob (id 2) as owner.\<close>

definition spoof_alert_body :: alert_body where
  "spoof_alert_body = \<lparr>b_title = Some ''Test Alert'', b_message = None, b_status = None,
     b_priority = Some ''high'', b_type = Some ''health'', b_metadata = None,
     b_userId = Some 2\<rparr>"

definition spoof_test_body :: test_body where
  "spoof_test_body = \<lparr>tb_name = Some ''CBC'', tb_result = Some ''ok'',
     tb_date = Some (Parsed 19000), tb_testType = None, tb_status = None,
     tb_normalRange = None, tb_units = None, tb_notes = None, tb_doctorName = None,
     tb_labName = None, tb_isAbnormal = Some True, tb_attachments = None,
     tb_userId = Some 2\<rparr>"

text \<open>A store with both users and no alerts or tests.\<close>

definition store_empty :: store where
  "store_empty = \<lparr>users = [alice, bob], alerts = [], tests = [], alertSeq = 1, testSeq = 1\<rparr>"

text \<open>The query \<open>?priority=p\<close>.\<close>

definition priority_query :: "string \<Rightarrow> alert_query" where
  "priority_query p = \<lparr>q_page = None, q_limit = None, q_status = None, q_priority = Some p,
     q_type = None\<rparr>"

text \<open>
  A store with more rows: Alice also owns alert 4 (low, the newest but one), alert 5 (high,
  the newest) and alert 6 (medium, the oldest), and the tests 4 and 5; test 5 has the date
  of test 2.
\<close>

definition alert4 :: alert where
  "alert4 = \<lparr>a_id = 4, a_title = ''Fourth'', a_message = None, a_status = ''active'',
     a_priority = ''low'', a_type = ''reminder'', a_userId = 1, a_metadata = Map.empty,
     a_acknowledgedAt = None, a_resolvedAt = None, a_createdAt = 400\<rparr>"

definition alert5 :: alert where
  "alert5 = \<lparr>a_id = 5, a_title = ''Fifth'', a_message = None, a_status = ''active'',
     a_priority = ''high'', a_type = ''health'', a_userId = 1, a_metadata = Map.empty,
     a_acknowledgedAt = None, a_resolvedAt = None, a_createdAt = 500\<rparr>"

definition alert6 :: alert where
  "alert6 = \<lparr>a_id = 6, a_title = ''Sixth'', a_message = None, a_status = ''dismissed'',
     a_priority = ''medium'', a_type = ''general'', a_userId = 1, a_metadata = Map.empty,
     a_acknowledgedAt = None, a_resolvedAt = None, a_createdAt = 50\<rparr>"

definition test4 :: diagnostic_test where
  "test4 = \<lparr>t_id = 4, t_name = ''ECG'', t_result = ''normal'', t_date = 19005,
     t_testType = ''cardiac'', t_status = ''reviewed'', t_normalRange = None, t_units = None,
     t_notes = None, t_userId = 1, t_doctorName = None, t_labName = None, t_isAbnormal = False,
     t_attachments = []\<rparr>"

definition test5 :: diagnostic_test where
  "test5 = \<lparr>t_id = 5, t_name = ''Lipids'', t_result = ''high'', t_date = 19010,
     t_testType = ''blood'', t_status = ''completed'', t_normalRange = None, t_units = None,
     t_notes = None, t_userId = 1, t_doctorName = None, t_labName = None, t_isAbnormal = True,
     t_attachments = []\<rparr>"

definition store3 :: store where
  "store3 = \<lparr>users = [alice, bob], alerts = [alert1, alert2, alert3, alert4, alert5, alert6],
     tests = [test1, test2, test3, test4, test5], alertSeq = 7, testSeq = 6\<rparr>"

text \<open>
  Two choices of the database: tied rows in table order, and tied rows by descending key
  (the keys of the examples are below 10).
\<close>

definition table_order :: engine where
  "table_order = \<lparr>alert_tie = (\<lambda>a. 0), test_tie = (\<lambda>t. 0)\<rparr>"

definition last_key_first :: engine where
  "last_key_first = \<lparr>alert_tie = (\<lambda>a. 10 - a_id a), test_tie = (\<lambda>t. 10 - t_id t)\<rparr>"

text \<open>The database ranks tied rows one way in odd statements, the other way in even ones.\<close>

definition alternating :: "nat \<Rightarrow> engine" where
  "alternating i = (if odd i then table_order else last_key_first)"

text \<open>
  The queries without parameters, \<open>?page=n\<close> and \<open>?status=s&type=t\<close> on the alerts,
  \<open>?isAbnormal=s\<close> and \<open>?status=completed&isAbnormal=true\<close> on the tests.
\<close>

definition all_alerts :: alert_query where
  "all_alerts = \<lparr>q_page = None, q_limit = None, q_status = None, q_priority = None,
     q_type = None\<rparr>"

definition all_tests :: test_query where
  "all_tests = \<lparr>tq_page = None, tq_limit = None, tq_testType = None, tq_status = None,
     tq_isAbnormal = None, tq_dateFrom = None, tq_dateTo = None\<rparr>"

definition page_query :: "int \<Rightarrow> alert_query" where
  "page_query n = \<lparr>q_page = Some (Parsed n), q_limit = None, q_status = None,
     q_priority = None, q_type = None\<rparr>"

definition isAbnormal_query :: "string \<Rightarrow> test_query" where
  "isAbnormal_query s = \<lparr>tq_page = None, tq_limit = None, tq_testType = None,
     tq_status = None, tq_isAbnormal = Some s, tq_dateFrom = None, tq_dateTo = None\<rparr>"

definition status_type_query :: "string \<Rightarrow> string \<Rightarrow> alert_query" where
  "status_type_query s t = \<lparr>q_page = None, q_limit = None, q_status = Some s,
     q_priority = None, q_type = Some t\<rparr>"

definition completed_abnormal :: test_query where
  "completed_abnormal = \<lparr>tq_page = None, tq_limit = None, tq_testType = None,
     tq_status = Some ''completed'', tq_isAbnormal = Some ''true'', tq_dateFrom = None,
     tq_dateTo = None\<rparr>"

section \<open>Facts about the library model\<close>

lemmas example_defs = alice_def bob_def alert1_def store0_def status_body_def alert2_def
  alert3_def test1_def test2_def test3_def store2_def one_per_page_def one_test_per_page_def
  alert1_done_def store1_def metadata_body_def spoof_alert_body_def spoof_test_body_def
  store_empty_def priority_query_def alert4_def alert5_def alert6_def test4_def test5_def
  store3_def table_order_def last_key_first_def all_alerts_def all_tests_def page_query_def
  isAbnormal_query_def status_type_query_def completed_abnormal_def alternating_def

lemmas transition_defs =
  alerts_put_acknowledge_def alerts_put_resolve_def alert_findOne_def acknowledge_def
  resolve_def alert_save_def

subsection \<open>Validators\<close>

lemma check_Nil [simp]: "check ok msg = [] \<longleftrightarrow> ok"
  by (simp add: check_def)

lemma page_asked_accepted: "optional (isInt (Some 1) None) v \<Longrightarrow> 1 \<le> page_asked v"
  by (auto simp: optional_def isInt_def page_asked_def split: option.splits parsed.splits)

lemma limit_asked_accepted:
  "optional (isInt (Some 1) (Some 100)) v \<Longrightarrow> 1 \<le> limit_asked v \<and> limit_asked v \<le> 100"
  by (auto simp: optional_def isInt_def limit_asked_def split: option.splits parsed.splits)


lemma if_truthy_Some: "if_truthy v = Some s \<longleftrightarrow> v = Some s \<and> s \<noteq> []"
  by (auto simp: if_truthy_def truthy_def split: option.splits)

lemma if_truthy_None: "if_truthy v = None \<longleftrightarrow> v = None \<or> v = Some []"
  by (auto simp: if_truthy_def truthy_def split: option.splits)

lemma isIn_nonempty: "[] \<notin> set allowed \<Longrightarrow> optional (isIn allowed) v \<Longrightarrow> if_truthy v = v"
  by (auto simp: optional_def isIn_def if_truthy_def truthy_def split: option.splits)

subsection \<open>Numbers\<close>

declare bit_length.simps [simp del]

lemma bit_length_bound: "n < 2 ^ k \<Longrightarrow> bit_length n \<le> k"
proof (induction k arbitrary: n)
  case 0
  then show ?case by (simp add: bit_length.simps [of 0])
next
  case (Suc k)
  then have "n div 2 < 2 ^ k" by simp
  then have "bit_length (n div 2) \<le> k" by (rule Suc.IH)
  then show ?case by (simp add: bit_length.simps [of n])
qed

lemma nearest_double_exact: "n < 2 ^ 53 \<Longrightarrow> nearest_double n = Whole (int n)"
proof -
  assume n: "n < 2 ^ 53"
  then have b: "bit_length n - 53 = 0"
    using bit_length_bound [of n 53] by simp
  have "(2::nat) ^ 53 \<le> 2 ^ 1024"
    by (rule power_increasing) simp_all
  with n have "\<not> (2::nat) ^ 1024 \<le> n" by linarith
  then show ?thesis
    by (simp add: nearest_double_def b Let_def)
qed

lemma round_double_exact: "0 \<le> i \<Longrightarrow> i < 2 ^ 53 \<Longrightarrow> round_double i = Whole i"
proof -
  assume i: "0 \<le> i" "i < 2 ^ 53"
  then have "nat i < 2 ^ 53"
    by (simp add: nat_less_iff)
  then show ?thesis
    using i by (simp add: round_double_def nearest_double_exact)
qed

lemma bit_length_numeral [simp]:
  "bit_length 0 = 0"
  "bit_length (Suc 0) = 1"
  "bit_length (numeral Num.One) = 1"
  "bit_length (numeral (Num.Bit0 k)) = Suc (bit_length (numeral k))"
  "bit_length (numeral (Num.Bit1 k)) = Suc (bit_length (numeral k))"
proof -
  show "bit_length 0 = 0" by (simp add: bit_length.simps [of 0])
  then show "bit_length (Suc 0) = 1" by (simp add: bit_length.simps [of "Suc 0"])
  then show "bit_length (numeral Num.One) = 1" by simp
  show "bit_length (numeral (Num.Bit0 k)) = Suc (bit_length (numeral k))"
    by (subst bit_length.simps) simp
  show "bit_length (numeral (Num.Bit1 k)) = Suc (bit_length (numeral k))"
    by (subst bit_length.simps) simp
qed


lemma or_num_parseInt:
  assumes "v = None \<or> (\<exists>n. v = Some (Parsed n) \<and> 1 \<le> n \<and> n < 2 ^ 53)"
  shows "or_num (parseInt v) (Whole d) = Whole (case v of Some (Parsed n) \<Rightarrow> n | _ \<Rightarrow> d)"
  using assms by (auto simp: or_num_def parseInt_def round_double_exact)

lemma page_numbers:
  assumes p: "optional (isInt (Some 1) None) vp"
    and l: "optional (isInt (Some 1) (Some 100)) vl"
    and r: "page_asked vp * limit_asked vl < 2 ^ 53"
  shows "or_num (parseInt vp) (Whole 1) = Whole (page_asked vp)"
    and "or_num (parseInt vl) (Whole 10) = Whole (limit_asked vl)"
    and "round_double (page_asked vp - 1) = Whole (page_asked vp - 1)"
    and "round_double ((page_asked vp - 1) * limit_asked vl) =
           Whole ((page_asked vp - 1) * limit_asked vl)"
    and "sql_count (Whole (limit_asked vl)) = Some (nat (limit_asked vl))"
    and "sql_count (Whole ((page_asked vp - 1) * limit_asked vl)) =
           Some (nat ((page_asked vp - 1) * limit_asked vl))"
proof -
  let ?p = "page_asked vp" and ?l = "limit_asked vl"
  have P: "1 \<le> ?p" using p by (rule page_asked_accepted)
  have L: "1 \<le> ?l" "?l \<le> 100" using limit_asked_accepted [OF l] by simp_all
  have "?p * 1 \<le> ?p * ?l"
    using P L(1) by (intro mult_left_mono) simp_all
  with r have pb: "?p < 2 ^ 53" by simp
  have "(?p - 1) * ?l \<le> ?p * ?l"
    using L(1) by (intro mult_right_mono) simp_all
  with r have ob: "(?p - 1) * ?l < 2 ^ 53" by simp
  have o0: "0 \<le> (?p - 1) * ?l"
    using P L(1) by simp
  have vp: "vp = None \<or> (\<exists>n. vp = Some (Parsed n) \<and> 1 \<le> n \<and> n < 2 ^ 53)"
    using p pb by (auto simp: optional_def isInt_def page_asked_def split: option.splits parsed.splits)
  have vl: "vl = None \<or> (\<exists>n. vl = Some (Parsed n) \<and> 1 \<le> n \<and> n < 2 ^ 53)"
    using l by (auto simp: optional_def isInt_def split: option.splits parsed.splits)
  show "or_num (parseInt vp) (Whole 1) = Whole ?p"
    using or_num_parseInt [OF vp, of 1] by (simp add: page_asked_def)
  show "or_num (parseInt vl) (Whole 10) = Whole ?l"
    using or_num_parseInt [OF vl, of 10] by (simp add: limit_asked_def)
  show "round_double (?p - 1) = Whole (?p - 1)"
    using P pb by (simp add: round_double_exact)
  show "round_double ((?p - 1) * ?l) = Whole ((?p - 1) * ?l)"
    using o0 ob by (rule round_double_exact)
  show "sql_count (Whole ?l) = Some (nat ?l)"
    using L by (simp add: sql_count_def)
  have "(2::int) ^ 53 \<le> 2 ^ 64"
    by (rule power_increasing) simp_all
  with ob have "(?p - 1) * ?l < 2 ^ 64" by linarith
  with o0 show "sql_count (Whole ((?p - 1) * ?l)) = Some (nat ((?p - 1) * ?l))"
    by (simp add: sql_count_def)
qed

subsection \<open>Page arithmetic\<close>







subsection \<open>Ordering\<close>

lemma set_place [simp]: "set (place precedes r xs) = insert r (set xs)"
  by (induction xs) auto

lemma length_place [simp]: "length (place precedes r xs) = Suc (length xs)"
  by (induction xs) auto

lemma mset_place [simp]: "mset (place precedes r xs) = add_mset r (mset xs)"
  by (induction xs) auto

lemma order_by_Cons: "order_by precedes (x # xs) = place precedes x (order_by precedes xs)"
  by (simp add: order_by_def)

lemma order_by_Nil [simp]: "order_by precedes [] = []"
  by (simp add: order_by_def)

lemma set_order_by [simp]: "set (order_by precedes xs) = set xs"
  by (induction xs) (simp_all add: order_by_Cons)

lemma length_order_by [simp]: "length (order_by precedes xs) = length xs"
  by (induction xs) (simp_all add: order_by_Cons)

lemma mset_order_by [simp]: "mset (order_by precedes xs) = mset xs"
  by (induction xs) (simp_all add: order_by_Cons)

lemma sorted_place:
  assumes total: "\<And>a b. precedes a b \<or> precedes b a"
    and trans: "\<And>a b c. precedes a b \<Longrightarrow> precedes b c \<Longrightarrow> precedes a c"
  shows "sorted_wrt precedes xs \<Longrightarrow> sorted_wrt precedes (place precedes r xs)"
proof (induction xs)
  case Nil
  then show ?case by simp
next
  case (Cons x xs)
  show ?case
  proof (cases "precedes r x")
    case True
    have "\<forall>y\<in>set xs. precedes r y"
      using Cons.prems True trans by auto
    with True Cons.prems show ?thesis by simp
  next
    case False
    then have "precedes x r" using total by blast
    with False Cons show ?thesis by auto
  qed
qed

lemma sorted_order_by:
  assumes total: "\<And>a b. precedes a b \<or> precedes b a"
    and trans: "\<And>a b c. precedes a b \<Longrightarrow> precedes b c \<Longrightarrow> precedes a c"
  shows "sorted_wrt precedes (order_by precedes xs)"
proof (induction xs)
  case Nil
  show ?case by simp
next
  case (Cons x xs)
  then show ?case using sorted_place [OF total trans Cons] by (simp add: order_by_Cons)
qed

lemma set_ordered [simp]: "set (ordered tie precedes xs) = set xs"
  by (simp add: ordered_def)

lemma length_ordered [simp]: "length (ordered tie precedes xs) = length xs"
  by (simp add: ordered_def)

lemma mset_ordered [simp]: "mset (ordered tie precedes xs) = mset xs"
  by (simp add: ordered_def)

lemma sorted_ordered:
  assumes total: "\<And>a b. precedes a b \<or> precedes b a"
    and trans: "\<And>a b c. precedes a b \<Longrightarrow> precedes b c \<Longrightarrow> precedes a c"
  shows "sorted_wrt precedes (ordered tie precedes xs)"
  unfolding ordered_def by (rule sorted_order_by [OF total trans])



lemma sorted_wrt_page: "sorted_wrt P xs \<Longrightarrow> sorted_wrt P (take n (drop k xs))"
  by (simp add: sorted_wrt_drop sorted_wrt_take)

lemma alert_before_total: "alert_before a b \<or> alert_before b a"
  by (auto simp: alert_before_def)

lemma alert_before_trans: "alert_before a b \<Longrightarrow> alert_before b c \<Longrightarrow> alert_before a c"
  by (auto simp: alert_before_def)

lemma test_before_total: "test_before a b \<or> test_before b a"
  by (auto simp: test_before_def)

lemma test_before_trans: "test_before a b \<Longrightarrow> test_before b c \<Longrightarrow> test_before a c"
  by (auto simp: test_before_def)

lemma findAndCountAll_Some:
  "findAndCountAll matches precedes tie limit offset table = Some (n, rows) \<Longrightarrow>
   n = length (filter matches table) \<and>
   (\<exists>l k. rows = take l (drop k (ordered tie precedes (filter matches table))))"
  by (auto simp: findAndCountAll_def Let_def split: option.splits)


section \<open>The list handlers in normal form\<close>

subsection \<open>Alerts\<close>

lemma validate_alerts_get_Nil:
  "validate_alerts_get q = [] \<longleftrightarrow>
     optional (isInt (Some 1) None) (q_page q) \<and>
     optional (isInt (Some 1) (Some 100)) (q_limit q) \<and>
     optional (isIn status_enum) (q_status q) \<and>
     optional (isIn priority_enum) (q_priority q) \<and>
     optional (isIn type_enum) (q_type q)"
  by (simp add: validate_alerts_get_def)

lemma alerts_asked:
  assumes "validate_alerts_get q = []"
  shows "1 \<le> page_asked (q_page q)" "1 \<le> limit_asked (q_limit q)"
    "limit_asked (q_limit q) \<le> 100"
  using assms page_asked_accepted [of "q_page q"] limit_asked_accepted [of "q_limit q"]
  by (simp_all add: validate_alerts_get_Nil)

lemma alerts_get_valid:
  assumes v: "validate_alerts_get q = []"
    and r: "page_asked (q_page q) * limit_asked (q_limit q) < 2 ^ 53"
  shows "alerts_get tie u q st =
    (200, AlertsPage
       (map (alert_view st)
          (take (nat (limit_asked (q_limit q)))
             (drop (nat ((page_asked (q_page q) - 1) * limit_asked (q_limit q)))
                (alerts_found tie u q st))))
       \<lparr>currentPage = Whole (page_asked (q_page q)),
        totalPages =
          Whole (ceil_div (int (length (alerts_matching u q st))) (limit_asked (q_limit q))),
        totalItems = Whole (int (length (alerts_matching u q st))),
        itemsPerPage = Whole (limit_asked (q_limit q)),
        hasNextPage = (page_asked (q_page q)
           < ceil_div (int (length (alerts_matching u q st))) (limit_asked (q_limit q))),
        hasPrevPage = (1 < page_asked (q_page q))\<rparr>)"
proof -
  have p: "optional (isInt (Some 1) None) (q_page q)"
    and l: "optional (isInt (Some 1) (Some 100)) (q_limit q)"
    using v by (simp_all add: validate_alerts_get_Nil)
  note n = page_numbers [OF p l r]
  have L: "limit_asked (q_limit q) \<noteq> 0"
    using alerts_asked(2) [OF v] by simp
  show ?thesis
    using v L
    by (simp add: alerts_get_def Let_def n findAndCountAll_def ceil_quotient_def
        alerts_found_def alerts_matching_def)
qed

lemma map_fst_alert_view: "map (fst \<circ> alert_view st) xs = xs"
  by (induction xs) (simp_all add: alert_view_def)

lemma alerts_of_valid:
  "validate_alerts_get q = [] \<Longrightarrow> page_asked (q_page q) * limit_asked (q_limit q) < 2 ^ 53 \<Longrightarrow>
   alerts_of (alerts_get tie u q st) =
     take (nat (limit_asked (q_limit q)))
       (drop (nat ((page_asked (q_page q) - 1) * limit_asked (q_limit q)))
          (alerts_found tie u q st))"
  by (simp add: alerts_get_valid alerts_of_def map_fst_alert_view)

lemma alerts_of_invalid:
  "validate_alerts_get q \<noteq> [] \<Longrightarrow> alerts_of (alerts_get tie u q st) = []"
  by (simp add: alerts_get_def alerts_of_def)

lemma alerts_of_slice:
  "\<exists>l k. alerts_of (alerts_get tie u q st) = take l (drop k (alerts_found tie u q st))"
proof (cases "validate_alerts_get q = []")
  case False
  then have "alerts_of (alerts_get tie u q st) = take 0 (drop 0 (alerts_found tie u q st))"
    by (simp add: alerts_of_invalid)
  then show ?thesis by blast
next
  case True
  let ?page = "or_num (parseInt (q_page q)) (Whole 1)"
  let ?limit = "or_num (parseInt (q_limit q)) (Whole 10)"
  let ?r = "findAndCountAll (alert_matches (alerts_whereClause u q)) alert_before tie ?limit
      (num_times (num_minus ?page (Whole 1)) ?limit) (alerts st)"
  show ?thesis
  proof (cases ?r)
    case None
    with True have "alerts_of (alerts_get tie u q st) = take 0 (drop 0 (alerts_found tie u q st))"
      by (simp add: alerts_get_def alerts_of_def Let_def)
    then show ?thesis by blast
  next
    case (Some a)
    obtain n rows where a: "a = (n, rows)" by (cases a)
    from findAndCountAll_Some [OF Some [unfolded a]]
    obtain l k where "rows = take l (drop k (alerts_found tie u q st))"
      by (auto simp: alerts_found_def alerts_matching_def)
    with True Some a have "alerts_of (alerts_get tie u q st) =
        take l (drop k (alerts_found tie u q st))"
      by (simp add: alerts_get_def alerts_of_def Let_def map_fst_alert_view)
    then show ?thesis by blast
  qed
qed

lemma alerts_of_subset:
  "set (alerts_of (alerts_get tie u q st)) \<subseteq> set (alerts_matching u q st)"
proof -
  obtain l k where "alerts_of (alerts_get tie u q st) = take l (drop k (alerts_found tie u q st))"
    using alerts_of_slice by blast
  moreover have "set (take l (drop k (alerts_found tie u q st))) \<subseteq> set (alerts_found tie u q st)"
    by (meson set_take_subset set_drop_subset subset_trans)
  ultimately show ?thesis
    by (simp add: alerts_found_def)
qed

lemma sorted_alerts_found: "sorted_wrt alert_before (alerts_found tie u q st)"
  unfolding alerts_found_def by (rule sorted_ordered [OF alert_before_total alert_before_trans])

lemma sorted_alerts_of: "sorted_wrt alert_before (alerts_of (alerts_get tie u q st))"
proof -
  obtain l k where "alerts_of (alerts_get tie u q st) = take l (drop k (alerts_found tie u q st))"
    using alerts_of_slice by blast
  then show ?thesis
    by (simp add: sorted_wrt_page [OF sorted_alerts_found])
qed



subsection \<open>Diagnostic tests\<close>

lemma validate_tests_get_Nil:
  "validate_tests_get q = [] \<longleftrightarrow>
     optional (isInt (Some 1) None) (tq_page q) \<and>
     optional (isInt (Some 1) (Some 100)) (tq_limit q) \<and>
     optional (isIn testType_enum) (tq_testType q) \<and>
     optional (isIn test_status_enum) (tq_status q) \<and>
     optional isBoolean (tq_isAbnormal q) \<and>
     optional isISO8601 (tq_dateFrom q) \<and>
     optional isISO8601 (tq_dateTo q)"
  by (simp add: validate_tests_get_def)

lemma tests_asked:
  assumes "validate_tests_get q = []"
  shows "1 \<le> page_asked (tq_page q)" "1 \<le> limit_asked (tq_limit q)"
    "limit_asked (tq_limit q) \<le> 100"
  using assms page_asked_accepted [of "tq_page q"] limit_asked_accepted [of "tq_limit q"]
  by (simp_all add: validate_tests_get_Nil)

lemma tests_get_valid:
  assumes v: "validate_tests_get q = []"
    and r: "page_asked (tq_page q) * limit_asked (tq_limit q) < 2 ^ 53"
  shows "tests_get tie u q st =
    (200, TestsPage
       (map (test_view st)
          (take (nat (limit_asked (tq_limit q)))
             (drop (nat ((page_asked (tq_page q) - 1) * limit_asked (tq_limit q)))
                (tests_found tie u q st))))
       \<lparr>currentPage = Whole (page_asked (tq_page q)),
        totalPages =
          Whole (ceil_div (int (length (tests_matching u q st))) (limit_asked (tq_limit q))),
        totalItems = Whole (int (length (tests_matching u q st))),
        itemsPerPage = Whole (limit_asked (tq_limit q)),
        hasNextPage = (page_asked (tq_page q)
           < ceil_div (int (length (tests_matching u q st))) (limit_asked (tq_limit q))),
        hasPrevPage = (1 < page_asked (tq_page q))\<rparr>)"
proof -
  have p: "optional (isInt (Some 1) None) (tq_page q)"
    and l: "optional (isInt (Some 1) (Some 100)) (tq_limit q)"
    using v by (simp_all add: validate_tests_get_Nil)
  note n = page_numbers [OF p l r]
  have L: "limit_asked (tq_limit q) \<noteq> 0"
    using tests_asked(2) [OF v] by simp
  show ?thesis
    using v L
    by (simp add: tests_get_def Let_def n findAndCountAll_def ceil_quotient_def
        tests_found_def tests_matching_def)
qed

lemma map_fst_test_view: "map (fst \<circ> test_view st) xs = xs"
  by (induction xs) (simp_all add: test_view_def)

lemma tests_of_valid:
  "validate_tests_get q = [] \<Longrightarrow> page_asked (tq_page q) * limit_asked (tq_limit q) < 2 ^ 53 \<Longrightarrow>
   tests_of (tests_get tie u q st) =
     take (nat (limit_asked (tq_limit q)))
       (drop (nat ((page_asked (tq_page q) - 1) * limit_asked (tq_limit q)))
          (tests_found tie u q st))"
  by (simp add: tests_get_valid tests_of_def map_fst_test_view)

lemma tests_of_invalid:
  "validate_tests_get q \<noteq> [] \<Longrightarrow> tests_of (tests_get tie u q st) = []"
  by (simp add: tests_get_def tests_of_def)

lemma tests_of_slice:
  "\<exists>l k. tests_of (tests_get tie u q st) = take l (drop k (tests_found tie u q st))"
proof (cases "validate_tests_get q = []")
  case False
  then have "tests_of (tests_get tie u q st) = take 0 (drop 0 (tests_found tie u q st))"
    by (simp add: tests_of_invalid)
  then show ?thesis by blast
next
  case True
  let ?page = "or_num (parseInt (tq_page q)) (Whole 1)"
  let ?limit = "or_num (parseInt (tq_limit q)) (Whole 10)"
  let ?r = "findAndCountAll (test_matches (tests_whereClause u q)) test_before tie ?limit
      (num_times (num_minus ?page (Whole 1)) ?limit) (tests st)"
  show ?thesis
  proof (cases ?r)
    case None
    with True have "tests_of (tests_get tie u q st) = take 0 (drop 0 (tests_found tie u q st))"
      by (simp add: tests_get_def tests_of_def Let_def)
    then show ?thesis by blast
  next
    case (Some a)
    obtain n rows where a: "a = (n, rows)" by (cases a)
    from findAndCountAll_Some [OF Some [unfolded a]]
    obtain l k where "rows = take l (drop k (tests_found tie u q st))"
      by (auto simp: tests_found_def tests_matching_def)
    with True Some a have "tests_of (tests_get tie u q st) =
        take l (drop k (tests_found tie u q st))"
      by (simp add: tests_get_def tests_of_def Let_def map_fst_test_view)
    then show ?thesis by blast
  qed
qed

lemma tests_of_subset:
  "set (tests_of (tests_get tie u q st)) \<subseteq> set (tests_matching u q st)"
proof -
  obtain l k where "tests_of (tests_get tie u q st) = take l (drop k (tests_found tie u q st))"
    using tests_of_slice by blast
  moreover have "set (take l (drop k (tests_found tie u q st))) \<subseteq> set (tests_found tie u q st)"
    by (meson set_take_subset set_drop_subset subset_trans)
  ultimately show ?thesis
    by (simp add: tests_found_def)
qed

lemma sorted_tests_found: "sorted_wrt test_before (tests_found tie u q st)"
  unfolding tests_found_def by (rule sorted_ordered [OF test_before_total test_before_trans])

lemma sorted_tests_of: "sorted_wrt test_before (tests_of (tests_get tie u q st))"
proof -
  obtain l k where "tests_of (tests_get tie u q st) = take l (drop k (tests_found tie u q st))"
    using tests_of_slice by blast
  then show ?thesis
    by (simp add: sorted_wrt_page [OF sorted_tests_found])
qed



subsection \<open>What the where clause of a valid query selects\<close>

lemma enum_filter_kept:
  "optional (isIn status_enum) v \<Longrightarrow> if_truthy v = v"
  "optional (isIn priority_enum) v \<Longrightarrow> if_truthy v = v"
  "optional (isIn type_enum) v \<Longrightarrow> if_truthy v = v"
  "optional (isIn testType_enum) v \<Longrightarrow> if_truthy v = v"
  "optional (isIn test_status_enum) v \<Longrightarrow> if_truthy v = v"
  by (erule isIn_nonempty [rotated],
      simp add: status_enum_def priority_enum_def type_enum_def testType_enum_def
        test_status_enum_def)+

lemma alerts_filter_meaning:
  assumes "validate_alerts_get q = []"
  shows "alert_matches (alerts_whereClause u q) a \<longleftrightarrow>
     a_userId a = u_id u \<and>
     (q_status q = None \<or> q_status q = Some (a_status a)) \<and>
     (q_priority q = None \<or> q_priority q = Some (a_priority a)) \<and>
     (q_type q = None \<or> q_type q = Some (a_type a))"
proof -
  have "if_truthy (q_status q) = q_status q" "if_truthy (q_priority q) = q_priority q"
    "if_truthy (q_type q) = q_type q"
    using assms
    by (simp_all add: validate_alerts_get_Nil enum_filter_kept)
  then show ?thesis
    by (auto simp: alert_matches_def alerts_whereClause_def split: option.splits)
qed

lemma tests_filter_meaning:
  assumes "validate_tests_get q = []"
  shows "test_matches (tests_whereClause u q) t \<longleftrightarrow>
     t_userId t = u_id u \<and>
     (tq_testType q = None \<or> tq_testType q = Some (t_testType t)) \<and>
     (tq_status q = None \<or> tq_status q = Some (t_status t)) \<and>
     (tq_isAbnormal q = None \<or> (\<exists>s. tq_isAbnormal q = Some s \<and> t_isAbnormal t = (s = ''true''))) \<and>
     (tq_dateFrom q = None \<or> (\<exists>d. tq_dateFrom q = Some (Parsed d) \<and> d \<le> t_date t)) \<and>
     (tq_dateTo q = None \<or> (\<exists>d. tq_dateTo q = Some (Parsed d) \<and> t_date t \<le> d))"
proof -
  have "if_truthy (tq_testType q) = tq_testType q" "if_truthy (tq_status q) = tq_status q"
    using assms
    by (simp_all add: validate_tests_get_Nil enum_filter_kept)
  moreover have "tq_dateFrom q \<noteq> Some Unparsable" "tq_dateTo q \<noteq> Some Unparsable"
    using assms by (auto simp: validate_tests_get_Nil optional_def isISO8601_def)
  ultimately show ?thesis
    by (auto simp: test_matches_def tests_whereClause_def date_given_def
        split: option.splits parsed.splits)
qed

lemma tests_filter_claimed:
  assumes "validate_tests_get q = []" and "tq_isAbnormal q \<noteq> Some ''1''"
  shows "test_matches (tests_whereClause u q) t \<longleftrightarrow>
     t_userId t = u_id u \<and>
     (tq_testType q = None \<or> tq_testType q = Some (t_testType t)) \<and>
     (tq_status q = None \<or> tq_status q = Some (t_status t)) \<and>
     (tq_isAbnormal q = None \<or>
        (\<exists>s. tq_isAbnormal q = Some s \<and> t_isAbnormal t = boolean_text s)) \<and>
     (tq_dateFrom q = None \<or> (\<exists>d. tq_dateFrom q = Some (Parsed d) \<and> d \<le> t_date t)) \<and>
     (tq_dateTo q = None \<or> (\<exists>d. tq_dateTo q = Some (Parsed d) \<and> t_date t \<le> d))"
  using assms(2) unfolding tests_filter_meaning [OF assms(1)]
  by (auto simp: boolean_text_def)

subsection \<open>The example stores under the list handlers\<close>

lemmas list_eval_defs =
  alerts_found_def tests_found_def alerts_matching_def tests_matching_def alerts_whereClause_def
  tests_whereClause_def alert_matches_def test_matches_def ordered_def order_by_def
  alert_before_def test_before_def priority_rank_def priority_enum_def if_truthy_def truthy_def
  date_given_def limit_asked_def page_asked_def



lemma all_alerts_valid: "validate_alerts_get all_alerts = []"
  by (simp add: validate_alerts_get_Nil all_alerts_def optional_def)

lemma all_tests_valid: "validate_tests_get all_tests = []"
  by (simp add: validate_tests_get_Nil all_tests_def optional_def)



lemma alerts_found_store3:
  "alerts_found (alert_tie table_order) alice all_alerts store3 =
     [alert2, alert5, alert1, alert6, alert4]"
  by (simp add: list_eval_defs example_defs)

lemma tests_found_store3:
  "tests_found (test_tie table_order) alice all_tests store3 = [test2, test5, test4, test1]"
  "tests_found (test_tie table_order) alice one_test_per_page store3 = [test2, test5, test4, test1]"
  "tests_found (test_tie last_key_first) alice one_test_per_page store3 =
     [test5, test2, test4, test1]"
  by (simp_all add: list_eval_defs example_defs)



section \<open>Facts about the alert handlers\<close>

lemmas put_defs =
  alerts_put_def validate_alerts_put_def alerts_updateData_def alert_update_def alert_set_def
  alert_findByPk_def alert_view_def optional_def isIn_def status_enum_def if_truthy_def
  truthy_def

lemma find_both_id: "find (\<lambda>r. a_id r = i \<and> P r) rows = Some a \<Longrightarrow> a_id a = i \<and> P a \<and> a \<in> set rows"
  by (induction rows) (auto split: if_splits)

lemma find_saved:
  "find (\<lambda>r. a_id r = i \<and> P r) rows = Some a \<Longrightarrow> a_id a' = i \<Longrightarrow>
   find (\<lambda>r. a_id r = i) (map (\<lambda>r. if a_id r = i then a' else r) rows) = Some a'"
  by (induction rows) (auto split: if_splits)

lemma alerts_put_found:
  assumes v: "validate_alerts_put b = []"
    and f: "alert_findOne i (u_id u) st = Some a"
  shows "alerts_put now u i b st =
     ((200, AlertDone ''Alert updated successfully''
         (Some (alert_view (alert_save (alert_set (alerts_updateData now a b) a) st)
                  (alert_set (alerts_updateData now a b) a)))),
      alert_save (alert_set (alerts_updateData now a b) a) st)"
    and "find (\<lambda>r. a_id r = i) (alerts (alert_save (alert_set (alerts_updateData now a b) a) st))
       = Some (alert_set (alerts_updateData now a b) a)"
proof -
  have id: "a_id a = i" using f find_both_id [of i _ "alerts st" a] by (simp add: alert_findOne_def)
  have id': "a_id (alert_set (alerts_updateData now a b) a) = i"
    using id by (simp add: alert_set_def)
  show 2: "find (\<lambda>r. a_id r = i) (alerts (alert_save (alert_set (alerts_updateData now a b) a) st))
       = Some (alert_set (alerts_updateData now a b) a)"
    using find_saved [OF f [unfolded alert_findOne_def] id'] id'
    by (simp add: alert_save_def)
  show "alerts_put now u i b st =
     ((200, AlertDone ''Alert updated successfully''
         (Some (alert_view (alert_save (alert_set (alerts_updateData now a b) a) st)
                  (alert_set (alerts_updateData now a b) a)))),
      alert_save (alert_set (alerts_updateData now a b) a) st)"
    using v f 2 id by (simp add: alerts_put_def Let_def alert_update_def alert_findByPk_def)
qed

lemma status_body_valid:
  "validate_alerts_put (status_body ''acknowledged'') = []"
  "validate_alerts_put (status_body ''resolved'') = []"
  by (simp_all add: validate_alerts_put_def status_body_def optional_def isIn_def status_enum_def)

section \<open>Facts about rows and keys\<close>

lemma find_fresh_alert:
  "list_all (\<lambda>a. a_id a < n) rows \<Longrightarrow> a_id row = n \<Longrightarrow>
   find (\<lambda>a. a_id a = n) (rows @ [row]) = Some row"
  by (induction rows) auto

lemma find_fresh_test:
  "list_all (\<lambda>t. t_id t < n) rows \<Longrightarrow> t_id row = n \<Longrightarrow>
   find (\<lambda>t. t_id t = n) (rows @ [row]) = Some row"
  by (induction rows) auto

lemma user_include_alerts [simp]:
  "user_include (st\<lparr>alerts := rows, alertSeq := n\<rparr>) uid = user_include st uid"
  by (simp add: user_include_def)

lemma user_include_tests [simp]:
  "user_include (st\<lparr>tests := rows, testSeq := n\<rparr>) uid = user_include st uid"
  by (simp add: user_include_def)

lemma wf_store0: "wf_store store0"
  by (simp add: wf_store_def example_defs)

lemma wf_store2: "wf_store store2"
  by (simp add: wf_store_def example_defs)

lemma find_foreign_alert:
  assumes "distinct (map a_id rows)" "a \<in> set rows" "a_id a = i" "a_userId a \<noteq> uid"
  shows "find (\<lambda>r. a_id r = i \<and> a_userId r = uid) rows = None"
proof -
  have "inj_on a_id (set rows)"
    using assms(1) by (simp add: distinct_map)
  then have "\<And>r. r \<in> set rows \<Longrightarrow> a_id r = i \<Longrightarrow> r = a"
    using assms(2,3) by (auto dest: inj_onD)
  then show ?thesis
    using assms(4) by (auto simp: find_None_iff)
qed

lemma find_foreign_test:
  assumes "distinct (map t_id rows)" "t \<in> set rows" "t_id t = i" "t_userId t \<noteq> uid"
  shows "find (\<lambda>r. t_id r = i \<and> t_userId r = uid) rows = None"
proof -
  have "inj_on t_id (set rows)"
    using assms(1) by (simp add: distinct_map)
  then have "\<And>r. r \<in> set rows \<Longrightarrow> t_id r = i \<Longrightarrow> r = t"
    using assms(2,3) by (auto dest: inj_onD)
  then show ?thesis
    using assms(4) by (auto simp: find_None_iff)
qed

lemma find_absent_alert: "i \<notin> a_id ` set rows \<Longrightarrow> find (\<lambda>r. a_id r = i \<and> P r) rows = None"
  by (auto simp: find_None_iff)

lemma find_absent_test: "i \<notin> t_id ` set rows \<Longrightarrow> find (\<lambda>r. t_id r = i \<and> P r) rows = None"
  by (auto simp: find_None_iff)

section \<open>Facts about grouped counts\<close>

lemma foldl_counts:
  "foldl (\<lambda>acc item. acc(fst item \<mapsto> snd item)) m (map (\<lambda>v. (v, f v)) ys) k =
     (if k \<in> set ys then Some (f k) else m k)"
  by (induction ys arbitrary: m) auto

lemma count_list_column:
  "count_list (map f rows) k = length (filter (\<lambda>r. f r = k) rows)"
  by (induction rows) auto

lemma reduce_group_count:
  "reduce_counts (group_count (map f rows)) k =
     (if length (filter (\<lambda>r. f r = k) rows) = 0 then None
      else Some (length (filter (\<lambda>r. f r = k) rows)))"
proof -
  have "k \<in> set (map f rows) \<longleftrightarrow> count_list (map f rows) k \<noteq> 0"
    by (simp add: count_list_0_iff)
  then show ?thesis
    unfolding reduce_counts_def group_count_def foldl_counts
    by (simp add: count_list_column)
qed

lemma filter_filter_owner:
  "filter (\<lambda>r. f r = k) (filter P rows) = filter (\<lambda>r. P r \<and> f r = k) rows"
  by (induction rows) auto

section \<open>What each handler leaves alone\<close>

lemma alert_save_frame [simp]:
  "users (alert_save a st) = users st" "tests (alert_save a st) = tests st"
  "a_id ` set (alerts (alert_save a st)) \<supseteq> a_id ` set (alerts st)"
  by (auto simp: alert_save_def)

lemma alert_destroy_frame [simp]:
  "users (alert_destroy a st) = users st" "tests (alert_destroy a st) = tests st"
  "a_id ` set (alerts st) \<subseteq> a_id ` set (alerts (alert_destroy a st)) \<union> {a_id a}"
  by (auto simp: alert_destroy_def)

lemma test_save_frame [simp]:
  "users (test_save t st) = users st" "alerts (test_save t st) = alerts st"
  "t_id ` set (tests (test_save t st)) \<supseteq> t_id ` set (tests st)"
  by (auto simp: test_save_def)

lemma test_destroy_frame [simp]:
  "users (test_destroy t st) = users st" "alerts (test_destroy t st) = alerts st"
  "t_id ` set (tests st) \<subseteq> t_id ` set (tests (test_destroy t st)) \<union> {t_id t}"
  by (auto simp: test_destroy_def)

lemma user_update_frame [simp]:
  "alerts (user_update i change st) = alerts st" "tests (user_update i change st) = tests st"
  by (simp_all add: user_update_def)

lemma user_update_ids:
  "(\<And>r. u_id (change r) = u_id r) \<Longrightarrow> map u_id (users (user_update i change st)) = map u_id (users st)"
  by (simp add: user_update_def comp_def cong: map_cong)

lemma findOne_alert_id: "alert_findOne i uid st = Some a \<Longrightarrow> a_id a = i"
  using find_both_id [of i _ "alerts st" a] by (simp add: alert_findOne_def)

lemma findOne_test_id: "test_findOne i uid st = Some t \<Longrightarrow> t_id t = i"
  by (auto simp: test_findOne_def find_Some_iff)

lemma alerts_post_frame:
  "users (snd (alerts_post now u b st)) = users st"
  "tests (snd (alerts_post now u b st)) = tests st"
  "a_id ` set (alerts st) \<subseteq> a_id ` set (alerts (snd (alerts_post now u b st)))"
  by (auto simp: alerts_post_def alert_create_def Let_def)

lemma alerts_put_frame:
  "users (snd (alerts_put now u i b st)) = users st"
  "tests (snd (alerts_put now u i b st)) = tests st"
  "a_id ` set (alerts st) \<subseteq> a_id ` set (alerts (snd (alerts_put now u i b st)))"
  using alert_save_frame(3)
  by (auto simp: alerts_put_def alert_update_def Let_def split: option.splits)

lemma alerts_put_acknowledge_frame:
  "users (snd (alerts_put_acknowledge now u i st)) = users st"
  "tests (snd (alerts_put_acknowledge now u i st)) = tests st"
  "a_id ` set (alerts st) \<subseteq> a_id ` set (alerts (snd (alerts_put_acknowledge now u i st)))"
  using alert_save_frame(3)
  by (auto simp: alerts_put_acknowledge_def Let_def split: option.splits)

lemma alerts_put_resolve_frame:
  "users (snd (alerts_put_resolve now u i st)) = users st"
  "tests (snd (alerts_put_resolve now u i st)) = tests st"
  "a_id ` set (alerts st) \<subseteq> a_id ` set (alerts (snd (alerts_put_resolve now u i st)))"
  using alert_save_frame(3)
  by (auto simp: alerts_put_resolve_def Let_def split: option.splits)

lemma alerts_delete_frame:
  "users (snd (alerts_delete u i st)) = users st"
  "tests (snd (alerts_delete u i st)) = tests st"
  "a_id ` set (alerts st) \<subseteq> insert i (a_id ` set (alerts (snd (alerts_delete u i st))))"
proof -
  show "users (snd (alerts_delete u i st)) = users st"
    "tests (snd (alerts_delete u i st)) = tests st"
    by (simp_all add: alerts_delete_def split: option.splits)
  show "a_id ` set (alerts st) \<subseteq> insert i (a_id ` set (alerts (snd (alerts_delete u i st))))"
  proof (cases "alert_findOne i (u_id u) st")
    case None
    then show ?thesis by (auto simp: alerts_delete_def)
  next
    case (Some a)
    then have "a_id a = i" by (rule findOne_alert_id)
    with Some alert_destroy_frame(3) [of st a] show ?thesis
      by (simp add: alerts_delete_def)
  qed
qed

lemma tests_post_frame:
  "users (snd (tests_post u b st)) = users st"
  "alerts (snd (tests_post u b st)) = alerts st"
  "t_id ` set (tests st) \<subseteq> t_id ` set (tests (snd (tests_post u b st)))"
  by (auto simp: tests_post_def test_create_def Let_def)

lemma tests_put_frame:
  "users (snd (tests_put u i b st)) = users st"
  "alerts (snd (tests_put u i b st)) = alerts st"
  "t_id ` set (tests st) \<subseteq> t_id ` set (tests (snd (tests_put u i b st)))"
  using test_save_frame(3)
  by (auto simp: tests_put_def Let_def split: option.splits)

lemma tests_put_review_frame:
  "users (snd (tests_put_review u i st)) = users st"
  "alerts (snd (tests_put_review u i st)) = alerts st"
  "t_id ` set (tests st) \<subseteq> t_id ` set (tests (snd (tests_put_review u i st)))"
  using test_save_frame(3)
  by (auto simp: tests_put_review_def Let_def split: option.splits)

lemma tests_delete_frame:
  "users (snd (tests_delete u i st)) = users st"
  "alerts (snd (tests_delete u i st)) = alerts st"
  "t_id ` set (tests st) \<subseteq> insert i (t_id ` set (tests (snd (tests_delete u i st))))"
proof -
  show "users (snd (tests_delete u i st)) = users st"
    "alerts (snd (tests_delete u i st)) = alerts st"
    by (simp_all add: tests_delete_def split: option.splits)
  show "t_id ` set (tests st) \<subseteq> insert i (t_id ` set (tests (snd (tests_delete u i st))))"
  proof (cases "test_findOne i (u_id u) st")
    case None
    then show ?thesis by (auto simp: tests_delete_def)
  next
    case (Some t)
    then have "t_id t = i" by (rule findOne_test_id)
    with Some test_destroy_frame(3) [of st t] show ?thesis
      by (simp add: tests_delete_def)
  qed
qed

lemma users_put_profile_frame:
  "map u_id (users (snd (users_put_profile u b st))) = map u_id (users st)"
  "alerts (snd (users_put_profile u b st)) = alerts st"
  "tests (snd (users_put_profile u b st)) = tests st"
  by (simp_all add: users_put_profile_def Let_def user_update_ids)

lemma users_put_preferences_frame:
  "map u_id (users (snd (users_put_preferences u b st))) = map u_id (users st)"
  "alerts (snd (users_put_preferences u b st)) = alerts st"
  "tests (snd (users_put_preferences u b st)) = tests st"
  by (simp_all add: users_put_preferences_def Let_def user_update_ids)

lemma users_put_password_frame:
  "map u_id (users (snd (users_put_password cmp hash u b st))) = map u_id (users st)"
  "alerts (snd (users_put_password cmp hash u b st)) = alerts st"
  "tests (snd (users_put_password cmp hash u b st)) = tests st"
  by (simp_all add: users_put_password_def Let_def user_update_ids)

lemma users_delete_account_frame:
  "map u_id (users (snd (users_delete_account u st))) = map u_id (users st)"
  "alerts (snd (users_delete_account u st)) = alerts st"
  "tests (snd (users_delete_account u st)) = tests st"
  by (simp_all add: users_delete_account_def user_update_ids)

lemmas handler_frames =
  alerts_post_frame alerts_put_frame alerts_put_acknowledge_frame alerts_put_resolve_frame
  alerts_delete_frame tests_post_frame tests_put_frame tests_put_review_frame tests_delete_frame
  users_put_profile_frame users_put_preferences_frame users_put_password_frame
  users_delete_account_frame

lemma handle_keeps_users:
  "map u_id (users (snd (handle cmp hash eng now u req st))) = map u_id (users st)"
  by (cases req) (simp_all add: handler_frames)

lemma handle_keeps_alerts:
  "a_id ` set (alerts st) \<subseteq>
     a_id ` set (alerts (snd (handle cmp hash eng now u req st))) \<union>
     (case req of DeleteAlert i \<Rightarrow> {i} | _ \<Rightarrow> {})"
  by (cases req) (simp_all add: handler_frames)

lemma handle_keeps_tests:
  "t_id ` set (tests st) \<subseteq>
     t_id ` set (tests (snd (handle cmp hash eng now u req st))) \<union>
     (case req of DeleteTest i \<Rightarrow> {i} | _ \<Rightarrow> {})"
  by (cases req) (simp_all add: handler_frames)

lemma api_frames:
  "map u_id (users (snd (api verify cmp hash eng now header req st))) = map u_id (users st)"
  "a_id ` set (alerts st) \<subseteq>
     a_id ` set (alerts (snd (api verify cmp hash eng now header req st))) \<union>
     (case req of DeleteAlert i \<Rightarrow> {i} | _ \<Rightarrow> {})"
  "t_id ` set (tests st) \<subseteq>
     t_id ` set (tests (snd (api verify cmp hash eng now header req st))) \<union>
     (case req of DeleteTest i \<Rightarrow> {i} | _ \<Rightarrow> {})"
  using handle_keeps_users handle_keeps_alerts handle_keeps_tests
  by (auto simp: api_def split: sum.splits)

lemma find_deactivated:
  "find (\<lambda>r. u_id r = i) (map (\<lambda>r. if u_id r = i then r\<lparr>u_isActive := False\<rparr> else r) rows) =
     map_option (\<lambda>r. r\<lparr>u_isActive := False\<rparr>) (find (\<lambda>r. u_id r = i) rows)"
  by (induction rows) auto

section \<open>Keys stay unique\<close>

lemma alert_save_ids: "map a_id (alerts (alert_save a st)) = map a_id (alerts st)"
  by (simp add: alert_save_def comp_def cong: map_cong)

lemma test_save_ids: "map t_id (tests (test_save t st)) = map t_id (tests st)"
  by (simp add: test_save_def comp_def cong: map_cong)

lemma wf_store_ids:
  "wf_store st \<longleftrightarrow>
     distinct (map a_id (alerts st)) \<and> list_all (\<lambda>i. i < alertSeq st) (map a_id (alerts st)) \<and>
     distinct (map t_id (tests st)) \<and> list_all (\<lambda>i. i < testSeq st) (map t_id (tests st)) \<and>
     distinct (map u_id (users st))"
  by (simp add: wf_store_def list.pred_map comp_def)

lemma wf_alert_save: "wf_store st \<Longrightarrow> wf_store (alert_save a st)"
  by (simp add: wf_store_ids alert_save_ids) (simp add: alert_save_def)

lemma wf_test_save: "wf_store st \<Longrightarrow> wf_store (test_save t st)"
  by (simp add: wf_store_ids test_save_ids) (simp add: test_save_def)

lemma wf_alert_destroy: "wf_store st \<Longrightarrow> wf_store (alert_destroy a st)"
  by (auto simp: wf_store_def alert_destroy_def distinct_map_filter list_all_iff)

lemma wf_test_destroy: "wf_store st \<Longrightarrow> wf_store (test_destroy t st)"
  by (auto simp: wf_store_def test_destroy_def distinct_map_filter list_all_iff)

lemma wf_alert_create: "wf_store st \<Longrightarrow> wf_store (snd (alert_create now a st))"
  by (auto simp: wf_store_def alert_create_def Let_def list_all_iff less_Suc_eq)

lemma wf_test_create: "wf_store st \<Longrightarrow> wf_store (snd (test_create t st))"
  by (auto simp: wf_store_def test_create_def Let_def list_all_iff less_Suc_eq)

lemma wf_user_update:
  "(\<And>r. u_id (change r) = u_id r) \<Longrightarrow> wf_store st \<Longrightarrow> wf_store (user_update i change st)"
  using user_update_ids [of change i st]
  by (simp add: wf_store_ids) (simp add: user_update_def)

lemma wf_handlers:
  assumes "wf_store st"
  shows "wf_store (snd (alerts_post now u ab st))"
    and "wf_store (snd (alerts_put now u i ab st))"
    and "wf_store (snd (alerts_put_acknowledge now u i st))"
    and "wf_store (snd (alerts_put_resolve now u i st))"
    and "wf_store (snd (alerts_delete u i st))"
    and "wf_store (snd (tests_post u tb st))"
    and "wf_store (snd (tests_put u i tb st))"
    and "wf_store (snd (tests_put_review u i st))"
    and "wf_store (snd (tests_delete u i st))"
    and "wf_store (snd (users_put_profile u pb st))"
    and "wf_store (snd (users_put_preferences u eb st))"
    and "wf_store (snd (users_put_password cmp hash u wb st))"
    and "wf_store (snd (users_delete_account u st))"
proof -
  show "wf_store (snd (alerts_post now u ab st))"
    using assms by (simp add: alerts_post_def Let_def split_beta wf_alert_create)
  show "wf_store (snd (alerts_put now u i ab st))"
    using assms
    by (simp add: alerts_put_def Let_def alert_update_def wf_alert_save split: option.splits)
  show "wf_store (snd (alerts_put_acknowledge now u i st))"
    using assms by (simp add: alerts_put_acknowledge_def Let_def wf_alert_save split: option.splits)
  show "wf_store (snd (alerts_put_resolve now u i st))"
    using assms by (simp add: alerts_put_resolve_def Let_def wf_alert_save split: option.splits)
  show "wf_store (snd (alerts_delete u i st))"
    using assms by (simp add: alerts_delete_def wf_alert_destroy split: option.splits)
  show "wf_store (snd (tests_post u tb st))"
    using assms by (simp add: tests_post_def Let_def split_beta wf_test_create)
  show "wf_store (snd (tests_put u i tb st))"
    using assms by (simp add: tests_put_def Let_def wf_test_save split: option.splits)
  show "wf_store (snd (tests_put_review u i st))"
    using assms by (simp add: tests_put_review_def Let_def wf_test_save split: option.splits)
  show "wf_store (snd (tests_delete u i st))"
    using assms by (simp add: tests_delete_def wf_test_destroy split: option.splits)
  show "wf_store (snd (users_put_profile u pb st))"
    using assms by (simp add: users_put_profile_def Let_def wf_user_update)
  show "wf_store (snd (users_put_preferences u eb st))"
    using assms by (simp add: users_put_preferences_def Let_def wf_user_update)
  show "wf_store (snd (users_put_password cmp hash u wb st))"
    using assms by (simp add: users_put_password_def Let_def wf_user_update)
  show "wf_store (snd (users_delete_account u st))"
    using assms by (simp add: users_delete_account_def wf_user_update)
qed

section \<open>Status transitions\<close>

text \<open>
  C1. The claim: a second call of the dedicated acknowledge (resolve) operation leaves
  \<open>acknowledgedAt\<close> (\<open>resolvedAt\<close>) at the value the first call gave it.
  \<open>Alert.prototype.acknowledge\<close> assigns \<open>new Date()\<close> on every call, without the
  test \<open>!alert.acknowledgedAt\<close> the generic update has: Alice acknowledges alert 1 at
  instant 1000 and again at 2000, and the stored timestamp moves from 1000 to 2000; the
  same run with resolve moves \<open>resolvedAt\<close>.
\<close>

theorem dedicated_transition_twice_moves_timestamp:
  "map a_acknowledgedAt (alerts (snd (alerts_put_acknowledge 1000 alice 1 store0))) = [Some 1000] \<and>
   map a_acknowledgedAt
     (alerts (snd (alerts_put_acknowledge 2000 alice 1
        (snd (alerts_put_acknowledge 1000 alice 1 store0))))) = [Some 2000] \<and>
   map a_resolvedAt (alerts (snd (alerts_put_resolve 1000 alice 1 store0))) = [Some 1000] \<and>
   map a_resolvedAt
     (alerts (snd (alerts_put_resolve 2000 alice 1
        (snd (alerts_put_resolve 1000 alice 1 store0))))) = [Some 2000]"
  by (simp add: transition_defs example_defs Let_def)

text \<open>
  C2. The claim: the dedicated endpoints and the generic update with \<open>{ status: ... }\<close>
  follow the same timestamp rule (set only if not already set). On an alert acknowledged and
  resolved at instant 1000, at clock 2000: the generic update keeps both timestamps at 1000,
  the dedicated endpoints move them to 2000. Both set the status. This is the defect of C1
  seen from the other path.
\<close>

theorem generic_and_dedicated_transition_differ:
  "map (\<lambda>a. (a_status a, a_acknowledgedAt a))
     (alerts (snd (alerts_put 2000 alice 1 (status_body ''acknowledged'') store1))) =
     [(''acknowledged'', Some 1000)] \<and>
   map (\<lambda>a. (a_status a, a_acknowledgedAt a))
     (alerts (snd (alerts_put_acknowledge 2000 alice 1 store1))) =
     [(''acknowledged'', Some 2000)] \<and>
   map (\<lambda>a. (a_status a, a_resolvedAt a))
     (alerts (snd (alerts_put 2000 alice 1 (status_body ''resolved'') store1))) =
     [(''resolved'', Some 1000)] \<and>
   map (\<lambda>a. (a_status a, a_resolvedAt a))
     (alerts (snd (alerts_put_resolve 2000 alice 1 store1))) =
     [(''resolved'', Some 2000)]"
  by (simp add: put_defs transition_defs example_defs Let_def)

text \<open>
  The generic update alone does follow the rule: whatever the body, \<open>acknowledgedAt\<close>
  changes only when the new status is acknowledged and the field was unset, and then to the
  clock; likewise \<open>resolvedAt\<close>.
\<close>

theorem generic_update_sets_timestamp_once:
  assumes "validate_alerts_put b = []"
    and "alert_findOne i (u_id u) st = Some a"
  shows "\<exists>v. find (\<lambda>r. a_id r = i) (alerts (snd (alerts_put now u i b st))) = Some v \<and>
          a_acknowledgedAt v =
            (if b_status b = Some ''acknowledged'' \<and> a_acknowledgedAt a = None
             then Some now else a_acknowledgedAt a) \<and>
          a_resolvedAt v =
            (if b_status b = Some ''resolved'' \<and> a_resolvedAt a = None
             then Some now else a_resolvedAt a)"
  using alerts_put_found [OF assms, of now]
  by (simp add: alert_set_def alerts_updateData_def Let_def truthy_def)

theorem generic_update_sets_timestamp_once_witness:
  "validate_alerts_put (status_body ''acknowledged'') = [] \<and>
   alert_findOne 1 (u_id alice) store1 = Some alert1_done \<and>
   (\<exists>v. find (\<lambda>r. a_id r = 1)
          (alerts (snd (alerts_put 2000 alice 1 (status_body ''acknowledged'') store1))) = Some v \<and>
        a_acknowledgedAt v = Some 1000 \<and> a_resolvedAt v = Some 1000)"
proof -
  have v: "validate_alerts_put (status_body ''acknowledged'') = []"
    by (simp add: validate_alerts_put_def status_body_def optional_def isIn_def status_enum_def)
  have f: "alert_findOne 1 (u_id alice) store1 = Some alert1_done"
    by (simp add: alert_findOne_def example_defs)
  have "\<exists>v. find (\<lambda>r. a_id r = 1)
          (alerts (snd (alerts_put 2000 alice 1 (status_body ''acknowledged'') store1))) = Some v \<and>
        a_acknowledgedAt v = Some 1000 \<and> a_resolvedAt v = Some 1000"
    using generic_update_sets_timestamp_once [OF v f, of 2000]
    by (simp add: alert1_done_def)
  with v f show ?thesis by (simp only: simp_thms)
qed

text \<open>
  Where the timestamp is still unset the two paths do the same to the store: the dedicated
  endpoint and the generic update with the matching status leave equal stores.
\<close>

theorem transition_paths_agree_when_unset:
  assumes f: "alert_findOne i (u_id u) st = Some a"
  shows "(a_acknowledgedAt a = None \<longrightarrow>
            snd (alerts_put now u i (status_body ''acknowledged'') st) =
            snd (alerts_put_acknowledge now u i st)) \<and>
         (a_resolvedAt a = None \<longrightarrow>
            snd (alerts_put now u i (status_body ''resolved'') st) =
            snd (alerts_put_resolve now u i st))"
proof (intro conjI impI)
  assume n: "a_acknowledgedAt a = None"
  have "alert_set (alerts_updateData now a (status_body ''acknowledged'')) a = acknowledge now a"
    using n by (simp add: alert_set_def alerts_updateData_def status_body_def acknowledge_def
        Let_def if_truthy_def truthy_def)
  then show "snd (alerts_put now u i (status_body ''acknowledged'') st) =
            snd (alerts_put_acknowledge now u i st)"
    using alerts_put_found(1) [OF status_body_valid(1) f, of now] f
    by (simp add: alerts_put_acknowledge_def Let_def)
next
  assume n: "a_resolvedAt a = None"
  have "alert_set (alerts_updateData now a (status_body ''resolved'')) a = resolve now a"
    using n by (simp add: alert_set_def alerts_updateData_def status_body_def resolve_def
        Let_def if_truthy_def truthy_def)
  then show "snd (alerts_put now u i (status_body ''resolved'') st) =
            snd (alerts_put_resolve now u i st)"
    using alerts_put_found(1) [OF status_body_valid(2) f, of now] f
    by (simp add: alerts_put_resolve_def Let_def)
qed

theorem transition_paths_agree_when_unset_witness:
  "alert_findOne 1 (u_id alice) store0 = Some alert1 \<and> a_acknowledgedAt alert1 = None \<and>
   a_resolvedAt alert1 = None \<and>
   snd (alerts_put 1000 alice 1 (status_body ''acknowledged'') store0) =
     snd (alerts_put_acknowledge 1000 alice 1 store0) \<and>
   snd (alerts_put 1000 alice 1 (status_body ''resolved'') store0) =
     snd (alerts_put_resolve 1000 alice 1 store0)"
proof -
  have f: "alert_findOne 1 (u_id alice) store0 = Some alert1"
    by (simp add: alert_findOne_def example_defs)
  have n: "a_acknowledgedAt alert1 = None" "a_resolvedAt alert1 = None"
    by (simp_all add: alert1_def)
  from transition_paths_agree_when_unset [OF f, of 1000] n f show ?thesis
    by (simp only: simp_thms)
qed

section \<open>Metadata on update\<close>

text \<open>
  C7. An alert update that passes validation, finds the caller's alert and carries a
  \<open>metadata\<close> object stores (and returns) the shallow merge of the alert's metadata with
  the object: a key of the object takes the object's entry, every other key keeps the
  alert's. The witness runs \<open>{a: 1}\<close> and then \<open>{b: 2}\<close> on alert 1 and reads
  \<open>{a: 1, b: 2}\<close>.
\<close>

theorem alert_update_merges_metadata:
  assumes "validate_alerts_put b = []"
    and "alert_findOne i (u_id u) st = Some a"
    and "b_metadata b = Some m"
  shows "\<exists>v ref. fst (alerts_put now u i b st) =
            (200, AlertDone ''Alert updated successfully'' (Some (v, ref))) \<and>
          find (\<lambda>r. a_id r = i) (alerts (snd (alerts_put now u i b st))) = Some v \<and>
          a_metadata v = a_metadata a ++ m \<and>
          (\<forall>k. a_metadata v k = (case m k of None \<Rightarrow> a_metadata a k | Some x \<Rightarrow> Some x))"
proof -
  let ?v = "alert_set (alerts_updateData now a b) a"
  have m: "a_metadata ?v = a_metadata a ++ m"
    using assms(3) by (simp add: alert_set_def alerts_updateData_def Let_def)
  have "\<forall>k. a_metadata ?v k = (case m k of None \<Rightarrow> a_metadata a k | Some x \<Rightarrow> Some x)"
    by (simp add: m map_add_def)
  with m show ?thesis
    using alerts_put_found [OF assms(1,2), of now]
    by (simp add: alert_view_def)
qed

theorem alert_update_merges_metadata_witness:
  "validate_alerts_put (metadata_body [''b'' \<mapsto> JNum 2]) = [] \<and>
   (\<exists>a. alert_findOne 1 (u_id alice)
           (snd (alerts_put 10 alice 1 (metadata_body [''a'' \<mapsto> JNum 1]) store0)) = Some a \<and>
        a_metadata a = [''a'' \<mapsto> JNum 1]) \<and>
   (\<exists>v. find (\<lambda>r. a_id r = 1)
          (alerts (snd (alerts_put 20 alice 1 (metadata_body [''b'' \<mapsto> JNum 2])
             (snd (alerts_put 10 alice 1 (metadata_body [''a'' \<mapsto> JNum 1]) store0))))) = Some v \<and>
        a_metadata v = [''a'' \<mapsto> JNum 1, ''b'' \<mapsto> JNum 2])"
proof -
  let ?A = "snd (alerts_put 10 alice 1 (metadata_body [''a'' \<mapsto> JNum 1]) store0)"
  let ?a = "alert1\<lparr>a_metadata := [''a'' \<mapsto> JNum 1]\<rparr>"
  have v: "validate_alerts_put (metadata_body [''b'' \<mapsto> JNum 2]) = []"
    by (simp add: validate_alerts_put_def metadata_body_def optional_def)
  have A: "alerts ?A = [?a]"
    by (simp add: put_defs transition_defs example_defs Let_def)
  have f: "alert_findOne 1 (u_id alice) ?A = Some ?a"
    by (simp only: alert_findOne_def A) (simp add: example_defs)
  have m: "b_metadata (metadata_body [''b'' \<mapsto> JNum 2]) = Some [''b'' \<mapsto> JNum 2]"
    by (simp add: metadata_body_def)
  from alert_update_merges_metadata [OF v f m, of 20]
  obtain w where w: "find (\<lambda>r. a_id r = 1)
        (alerts (snd (alerts_put 20 alice 1 (metadata_body [''b'' \<mapsto> JNum 2]) ?A))) = Some w"
      "a_metadata w = a_metadata ?a ++ [''b'' \<mapsto> JNum 2]"
    by blast
  have "a_metadata ?a ++ [''b'' \<mapsto> JNum 2] = [''a'' \<mapsto> JNum 1, ''b'' \<mapsto> JNum 2]"
    by simp
  with w have "\<exists>v. find (\<lambda>r. a_id r = 1)
        (alerts (snd (alerts_put 20 alice 1 (metadata_body [''b'' \<mapsto> JNum 2]) ?A))) = Some v \<and>
        a_metadata v = [''a'' \<mapsto> JNum 1, ''b'' \<mapsto> JNum 2]"
    by (intro exI [of _ w]) (simp only: simp_thms)
  moreover have "\<exists>a. alert_findOne 1 (u_id alice) ?A = Some a \<and> a_metadata a = [''a'' \<mapsto> JNum 1]"
    using f by simp
  ultimately show ?thesis using v by blast
qed

section \<open>Listing: owner scoping, filters, pagination, order\<close>

text \<open>
  C3. The claim: a list call applies every filter the query supplies. The validator of
  \<open>GET /api/diagnostic-tests\<close> accepts \<open>isAbnormal\<close> as a boolean text (\<open>true\<close>,
  \<open>false\<close>, \<open>1\<close>, \<open>0\<close>), and the handler turns it into the filter value by
  \<open>req.query.isAbnormal === 'true'\<close>. For \<open>?isAbnormal=1\<close> that value is false: the
  query passes validation and the call lists the tests that are not abnormal. Alice owns
  test 1 (abnormal) and test 2 (not abnormal): \<open>?isAbnormal=true\<close> lists test 1,
  \<open>?isAbnormal=1\<close> lists test 2.
\<close>

theorem isAbnormal_one_lists_normal_tests:
  "validate_tests_get (isAbnormal_query ''1'') = [] \<and>
   isBoolean ''1'' \<and>
   map (\<lambda>t. (t_id t, t_isAbnormal t))
     (tests_of (tests_get (test_tie table_order) alice (isAbnormal_query ''true'') store2)) =
     [(1, True)] \<and>
   map (\<lambda>t. (t_id t, t_isAbnormal t))
     (tests_of (tests_get (test_tie table_order) alice (isAbnormal_query ''1'') store2)) =
     [(2, False)]"
proof -
  have v: "validate_tests_get (isAbnormal_query ''1'') = []"
    "validate_tests_get (isAbnormal_query ''true'') = []"
    by (simp_all add: validate_tests_get_Nil isAbnormal_query_def optional_def isBoolean_def)
  have r: "page_asked (tq_page (isAbnormal_query s)) * limit_asked (tq_limit (isAbnormal_query s))
      < 2 ^ 53" for s
    by (simp add: isAbnormal_query_def page_asked_def limit_asked_def)
  have b: "isBoolean ''1''"
    by (simp add: isBoolean_def)
  have t: "tests_of (tests_get (test_tie table_order) alice (isAbnormal_query ''true'') store2) =
      [test1]"
    by (simp only: tests_of_valid [OF v(2) r]) (simp add: list_eval_defs example_defs)
  have f: "tests_of (tests_get (test_tie table_order) alice (isAbnormal_query ''1'') store2) =
      [test2]"
    by (simp only: tests_of_valid [OF v(1) r]) (simp add: list_eval_defs example_defs)
  show ?thesis
    by (simp only: v b t f) (simp add: test1_def test2_def)
qed

text \<open>
  Apart from that text the filters are applied as the claim says. Every row a list call
  returns (\<open>GET /api/alerts\<close>, \<open>GET /api/diagnostic-tests\<close>) is a row of the table whose
  owner is the caller and which agrees with every filter the query supplies; a filter the
  query leaves out restricts nothing; the date bounds are inclusive. For a query that passes
  validation (with page numbers a double holds exactly) \<open>totalItems\<close> is the number of the
  caller's rows that agree with every supplied filter, and a first page with room for all of
  them holds exactly these rows. For the diagnostic tests this is stated for every
  \<open>isAbnormal\<close> text but \<open>1\<close>.
\<close>

theorem list_rows_owned_and_filtered:
  "(\<forall>a\<in>set (alerts_of (alerts_get tie u q st)).
      a \<in> set (alerts st) \<and>
           a_userId a = u_id u \<and>
           (q_status q = None \<or> q_status q = Some (a_status a)) \<and>
           (q_priority q = None \<or> q_priority q = Some (a_priority a)) \<and>
           (q_type q = None \<or> q_type q = Some (a_type a))) \<and>
   (validate_alerts_get q = [] \<and> page_asked (q_page q) * limit_asked (q_limit q) < 2 ^ 53 \<longrightarrow>
      (\<exists>rows pg. alerts_get tie u q st = (200, AlertsPage rows pg) \<and>
         totalItems pg = Whole (int (length (filter (\<lambda>a.
           a_userId a = u_id u \<and>
           (q_status q = None \<or> q_status q = Some (a_status a)) \<and>
           (q_priority q = None \<or> q_priority q = Some (a_priority a)) \<and>
           (q_type q = None \<or> q_type q = Some (a_type a))) (alerts st)))) \<and>
         (page_asked (q_page q) = 1 \<and> totalItems pg = Whole (int (length rows)) \<longrightarrow>
            set (map fst rows) =
              {a \<in> set (alerts st).
                 a_userId a = u_id u \<and>
                 (q_status q = None \<or> q_status q = Some (a_status a)) \<and>
                 (q_priority q = None \<or> q_priority q = Some (a_priority a)) \<and>
                 (q_type q = None \<or> q_type q = Some (a_type a))}))) \<and>
   (tq_isAbnormal q' \<noteq> Some ''1'' \<longrightarrow>
      (\<forall>t\<in>set (tests_of (tests_get tie' u q' st)).
         t \<in> set (tests st) \<and>
           t_userId t = u_id u \<and>
           (tq_testType q' = None \<or> tq_testType q' = Some (t_testType t)) \<and>
           (tq_status q' = None \<or> tq_status q' = Some (t_status t)) \<and>
           (tq_isAbnormal q' = None \<or>
              (\<exists>s. tq_isAbnormal q' = Some s \<and> t_isAbnormal t = boolean_text s)) \<and>
           (tq_dateFrom q' = None \<or> (\<exists>d. tq_dateFrom q' = Some (Parsed d) \<and> d \<le> t_date t)) \<and>
           (tq_dateTo q' = None \<or> (\<exists>d. tq_dateTo q' = Some (Parsed d) \<and> t_date t \<le> d)))) \<and>
   (tq_isAbnormal q' \<noteq> Some ''1'' \<and> validate_tests_get q' = [] \<and>
    page_asked (tq_page q') * limit_asked (tq_limit q') < 2 ^ 53 \<longrightarrow>
      (\<exists>rows pg. tests_get tie' u q' st = (200, TestsPage rows pg) \<and>
         totalItems pg = Whole (int (length (filter (\<lambda>t.
           t_userId t = u_id u \<and>
           (tq_testType q' = None \<or> tq_testType q' = Some (t_testType t)) \<and>
           (tq_status q' = None \<or> tq_status q' = Some (t_status t)) \<and>
           (tq_isAbnormal q' = None \<or>
              (\<exists>s. tq_isAbnormal q' = Some s \<and> t_isAbnormal t = boolean_text s)) \<and>
           (tq_dateFrom q' = None \<or> (\<exists>d. tq_dateFrom q' = Some (Parsed d) \<and> d \<le> t_date t)) \<and>
           (tq_dateTo q' = None \<or> (\<exists>d. tq_dateTo q' = Some (Parsed d) \<and> t_date t \<le> d)))
           (tests st)))) \<and>
         (page_asked (tq_page q') = 1 \<and> totalItems pg = Whole (int (length rows)) \<longrightarrow>
            set (map fst rows) =
              {t \<in> set (tests st).
                 t_userId t = u_id u \<and>
                 (tq_testType q' = None \<or> tq_testType q' = Some (t_testType t)) \<and>
                 (tq_status q' = None \<or> tq_status q' = Some (t_status t)) \<and>
                 (tq_isAbnormal q' = None \<or>
                    (\<exists>s. tq_isAbnormal q' = Some s \<and> t_isAbnormal t = boolean_text s)) \<and>
                 (tq_dateFrom q' = None \<or>
                    (\<exists>d. tq_dateFrom q' = Some (Parsed d) \<and> d \<le> t_date t)) \<and>
                 (tq_dateTo q' = None \<or>
                    (\<exists>d. tq_dateTo q' = Some (Parsed d) \<and> t_date t \<le> d))})))"
proof -
  let ?A = "\<lambda>a. a_userId a = u_id u \<and>
           (q_status q = None \<or> q_status q = Some (a_status a)) \<and>
           (q_priority q = None \<or> q_priority q = Some (a_priority a)) \<and>
           (q_type q = None \<or> q_type q = Some (a_type a))"
  let ?T = "\<lambda>t. t_userId t = u_id u \<and>
           (tq_testType q' = None \<or> tq_testType q' = Some (t_testType t)) \<and>
           (tq_status q' = None \<or> tq_status q' = Some (t_status t)) \<and>
           (tq_isAbnormal q' = None \<or>
              (\<exists>s. tq_isAbnormal q' = Some s \<and> t_isAbnormal t = boolean_text s)) \<and>
           (tq_dateFrom q' = None \<or> (\<exists>d. tq_dateFrom q' = Some (Parsed d) \<and> d \<le> t_date t)) \<and>
           (tq_dateTo q' = None \<or> (\<exists>d. tq_dateTo q' = Some (Parsed d) \<and> t_date t \<le> d))"
  have A1: "\<forall>a\<in>set (alerts_of (alerts_get tie u q st)). a \<in> set (alerts st) \<and> ?A a"
  proof
    fix a assume a: "a \<in> set (alerts_of (alerts_get tie u q st))"
    have v: "validate_alerts_get q = []"
    proof (rule ccontr)
      assume "validate_alerts_get q \<noteq> []"
      then have "alerts_of (alerts_get tie u q st) = []" by (rule alerts_of_invalid)
      with a show False by simp
    qed
    from a have "a \<in> set (alerts_matching u q st)"
      using alerts_of_subset by blast
    then have "a \<in> set (alerts st)" "alert_matches (alerts_whereClause u q) a"
      by (simp_all add: alerts_matching_def)
    then show "a \<in> set (alerts st) \<and> ?A a"
      by (simp add: alerts_filter_meaning [OF v])
  qed
  have A2: "validate_alerts_get q = [] \<and> page_asked (q_page q) * limit_asked (q_limit q) < 2 ^ 53 \<longrightarrow>
      (\<exists>rows pg. alerts_get tie u q st = (200, AlertsPage rows pg) \<and>
         totalItems pg = Whole (int (length (filter ?A (alerts st)))) \<and>
         (page_asked (q_page q) = 1 \<and> totalItems pg = Whole (int (length rows)) \<longrightarrow>
            set (map fst rows) = {a \<in> set (alerts st). ?A a}))"
  proof
    assume h: "validate_alerts_get q = [] \<and> page_asked (q_page q) * limit_asked (q_limit q) < 2 ^ 53"
    then have v: "validate_alerts_get q = []"
      and r: "page_asked (q_page q) * limit_asked (q_limit q) < 2 ^ 53" by simp_all
    let ?found = "alerts_found tie u q st"
    let ?rows = "take (nat (limit_asked (q_limit q)))
        (drop (nat ((page_asked (q_page q) - 1) * limit_asked (q_limit q))) ?found)"
    have m: "alerts_matching u q st = filter ?A (alerts st)"
      by (simp add: alerts_matching_def alerts_filter_meaning [OF v, abs_def])
    have len: "length ?found = length (filter ?A (alerts st))"
      by (simp add: alerts_found_def m)
    have full: "page_asked (q_page q) = 1 \<and> length (filter ?A (alerts st)) = length ?rows \<longrightarrow>
        set ?rows = {a \<in> set (alerts st). ?A a}"
    proof
      assume p: "page_asked (q_page q) = 1 \<and> length (filter ?A (alerts st)) = length ?rows"
      with len have "length ?found = length (take (nat (limit_asked (q_limit q))) ?found)"
        by simp
      then have "length ?found \<le> nat (limit_asked (q_limit q))"
        by simp
      with p have "?rows = ?found" by simp
      then show "set ?rows = {a \<in> set (alerts st). ?A a}"
        by (simp add: alerts_found_def m)
    qed
    show "\<exists>rows pg. alerts_get tie u q st = (200, AlertsPage rows pg) \<and>
         totalItems pg = Whole (int (length (filter ?A (alerts st)))) \<and>
         (page_asked (q_page q) = 1 \<and> totalItems pg = Whole (int (length rows)) \<longrightarrow>
            set (map fst rows) = {a \<in> set (alerts st). ?A a})"
      unfolding alerts_get_valid [OF v r]
      apply (intro exI conjI)
        apply (rule refl)
       apply (simp add: m)
      using full by (simp add: map_fst_alert_view m)
  qed
  have T1: "tq_isAbnormal q' \<noteq> Some ''1'' \<longrightarrow>
      (\<forall>t\<in>set (tests_of (tests_get tie' u q' st)). t \<in> set (tests st) \<and> ?T t)"
  proof (intro impI ballI)
    fix t assume n: "tq_isAbnormal q' \<noteq> Some ''1''"
      and t: "t \<in> set (tests_of (tests_get tie' u q' st))"
    have v: "validate_tests_get q' = []"
    proof (rule ccontr)
      assume "validate_tests_get q' \<noteq> []"
      then have "tests_of (tests_get tie' u q' st) = []" by (rule tests_of_invalid)
      with t show False by simp
    qed
    from t have "t \<in> set (tests_matching u q' st)"
      using tests_of_subset by blast
    then have "t \<in> set (tests st)" "test_matches (tests_whereClause u q') t"
      by (simp_all add: tests_matching_def)
    then show "t \<in> set (tests st) \<and> ?T t"
      by (simp add: tests_filter_claimed [OF v n])
  qed
  have T2: "tq_isAbnormal q' \<noteq> Some ''1'' \<and> validate_tests_get q' = [] \<and>
      page_asked (tq_page q') * limit_asked (tq_limit q') < 2 ^ 53 \<longrightarrow>
      (\<exists>rows pg. tests_get tie' u q' st = (200, TestsPage rows pg) \<and>
         totalItems pg = Whole (int (length (filter ?T (tests st)))) \<and>
         (page_asked (tq_page q') = 1 \<and> totalItems pg = Whole (int (length rows)) \<longrightarrow>
            set (map fst rows) = {t \<in> set (tests st). ?T t}))"
  proof
    assume h: "tq_isAbnormal q' \<noteq> Some ''1'' \<and> validate_tests_get q' = [] \<and>
      page_asked (tq_page q') * limit_asked (tq_limit q') < 2 ^ 53"
    then have n: "tq_isAbnormal q' \<noteq> Some ''1''" and v: "validate_tests_get q' = []"
      and r: "page_asked (tq_page q') * limit_asked (tq_limit q') < 2 ^ 53" by simp_all
    let ?found = "tests_found tie' u q' st"
    let ?rows = "take (nat (limit_asked (tq_limit q')))
        (drop (nat ((page_asked (tq_page q') - 1) * limit_asked (tq_limit q'))) ?found)"
    have m: "tests_matching u q' st = filter ?T (tests st)"
      by (simp add: tests_matching_def tests_filter_claimed [OF v n, abs_def])
    have len: "length ?found = length (filter ?T (tests st))"
      by (simp add: tests_found_def m)
    have full: "page_asked (tq_page q') = 1 \<and> length (filter ?T (tests st)) = length ?rows \<longrightarrow>
        set ?rows = {t \<in> set (tests st). ?T t}"
    proof
      assume p: "page_asked (tq_page q') = 1 \<and> length (filter ?T (tests st)) = length ?rows"
      with len have "length ?found = length (take (nat (limit_asked (tq_limit q'))) ?found)"
        by simp
      then have "length ?found \<le> nat (limit_asked (tq_limit q'))"
        by simp
      with p have "?rows = ?found" by simp
      then show "set ?rows = {t \<in> set (tests st). ?T t}"
        by (simp add: tests_found_def m)
    qed
    show "\<exists>rows pg. tests_get tie' u q' st = (200, TestsPage rows pg) \<and>
         totalItems pg = Whole (int (length (filter ?T (tests st)))) \<and>
         (page_asked (tq_page q') = 1 \<and> totalItems pg = Whole (int (length rows)) \<longrightarrow>
            set (map fst rows) = {t \<in> set (tests st). ?T t})"
      unfolding tests_get_valid [OF v r]
      apply (intro exI conjI)
        apply (rule refl)
       apply (simp add: m)
      using full by (simp add: map_fst_test_view m)
  qed
  show ?thesis
    by (rule conjI [OF A1 conjI [OF A2 conjI [OF T1 T2]]])
qed

theorem list_rows_owned_and_filtered_witness:
  "validate_alerts_get (status_type_query ''active'' ''health'') = [] \<and>
   validate_tests_get completed_abnormal = [] \<and>
   tq_isAbnormal completed_abnormal \<noteq> Some ''1'' \<and>
   alerts_of (alerts_get (alert_tie table_order) alice (status_type_query ''active'' ''health'')
     store3) = [alert5, alert1] \<and>
   a_userId alert5 = u_id alice \<and> a_status alert5 = ''active'' \<and> a_type alert5 = ''health'' \<and>
   a_userId alert1 = u_id alice \<and> a_status alert1 = ''active'' \<and> a_type alert1 = ''health'' \<and>
   tests_of (tests_get (test_tie table_order) alice completed_abnormal store3) = [test5, test1] \<and>
   t_userId test5 = u_id alice \<and> t_status test5 = ''completed'' \<and> t_isAbnormal test5 \<and>
   t_userId test1 = u_id alice \<and> t_status test1 = ''completed'' \<and> t_isAbnormal test1"
proof -
  let ?q = "status_type_query ''active'' ''health''"
  note inst = list_rows_owned_and_filtered [where tie = "alert_tie table_order" and u = alice
      and q = ?q and st = store3 and q' = completed_abnormal and tie' = "test_tie table_order"]
  have va: "validate_alerts_get ?q = []"
    by (simp add: validate_alerts_get_Nil status_type_query_def optional_def isIn_def
        status_enum_def type_enum_def)
  have vt: "validate_tests_get completed_abnormal = []"
    by (simp add: validate_tests_get_Nil completed_abnormal_def optional_def isIn_def
        test_status_enum_def isBoolean_def)
  have n: "tq_isAbnormal completed_abnormal \<noteq> Some ''1''"
    by (simp add: completed_abnormal_def)
  have ra: "page_asked (q_page ?q) * limit_asked (q_limit ?q) < 2 ^ 53"
    by (simp add: status_type_query_def page_asked_def limit_asked_def)
  have rt: "page_asked (tq_page completed_abnormal) * limit_asked (tq_limit completed_abnormal)
      < 2 ^ 53"
    by (simp add: completed_abnormal_def page_asked_def limit_asked_def)
  have A: "alerts_of (alerts_get (alert_tie table_order) alice ?q store3) = [alert5, alert1]"
    by (simp only: alerts_of_valid [OF va ra]) (simp add: list_eval_defs example_defs)
  have T: "tests_of (tests_get (test_tie table_order) alice completed_abnormal store3) =
      [test5, test1]"
    by (simp only: tests_of_valid [OF vt rt]) (simp add: list_eval_defs example_defs)
  have a: "a_userId alert5 = u_id alice \<and> a_status alert5 = ''active'' \<and>
      a_type alert5 = ''health'' \<and> a_userId alert1 = u_id alice \<and>
      a_status alert1 = ''active'' \<and> a_type alert1 = ''health''"
    using inst [THEN conjunct1] unfolding A
    by (auto simp: status_type_query_def)
  have t: "t_userId test5 = u_id alice \<and> t_status test5 = ''completed'' \<and> t_isAbnormal test5 \<and>
      t_userId test1 = u_id alice \<and> t_status test1 = ''completed'' \<and> t_isAbnormal test1"
    using inst [THEN conjunct2, THEN conjunct2, THEN conjunct1, THEN mp, OF n] unfolding T
    by (auto simp: completed_abnormal_def boolean_text_def)
  from va vt n A T a t show ?thesis
    by (simp only: simp_thms)
qed




text \<open>
  C9. The rows of an alerts list call stand in descending priority under the rank of the
  \<open>ENUM\<close> column (critical 4, high 3, medium 2, low 1), rows of equal priority in descending
  creation time; the rows of a diagnostic-tests list call stand in descending test date.
  This holds of every response. For a query that passes validation (with page numbers a
  double holds exactly) the rows of the response are the rows \<open>(p - 1) * P + 1\<close> to
  \<open>p * P\<close> of an arrangement in that order of all the rows the query matches, each once;
  for a query without filters these are all the rows of the caller.
\<close>

theorem list_rows_ordered:
  "sorted_wrt (\<lambda>a b. priority_rank b < priority_rank a \<or>
        (priority_rank a = priority_rank b \<and> a_createdAt b \<le> a_createdAt a))
     (alerts_of (alerts_get tie u q st)) \<and>
   map (enum_index priority_enum) [''critical'', ''high'', ''medium'', ''low''] = [4, 3, 2, 1] \<and>
   (validate_alerts_get q = [] \<and> page_asked (q_page q) * limit_asked (q_limit q) < 2 ^ 53 \<longrightarrow>
      (\<exists>found.
         mset found = mset (alerts_matching u q st) \<and>
         sorted_wrt (\<lambda>a b. priority_rank b < priority_rank a \<or>
              (priority_rank a = priority_rank b \<and> a_createdAt b \<le> a_createdAt a)) found \<and>
         alerts_of (alerts_get tie u q st) =
           take (nat (limit_asked (q_limit q)))
             (drop (nat ((page_asked (q_page q) - 1) * limit_asked (q_limit q))) found))) \<and>
   (q_status q = None \<and> q_priority q = None \<and> q_type q = None \<longrightarrow>
      alerts_matching u q st = filter (\<lambda>a. a_userId a = u_id u) (alerts st)) \<and>
   sorted_wrt (\<lambda>a b. t_date b \<le> t_date a) (tests_of (tests_get tie' u q' st)) \<and>
   (validate_tests_get q' = [] \<and> page_asked (tq_page q') * limit_asked (tq_limit q') < 2 ^ 53 \<longrightarrow>
      (\<exists>found.
         mset found = mset (tests_matching u q' st) \<and>
         sorted_wrt (\<lambda>a b. t_date b \<le> t_date a) found \<and>
         tests_of (tests_get tie' u q' st) =
           take (nat (limit_asked (tq_limit q')))
             (drop (nat ((page_asked (tq_page q') - 1) * limit_asked (tq_limit q'))) found))) \<and>
   (tq_testType q' = None \<and> tq_status q' = None \<and> tq_isAbnormal q' = None \<and>
    tq_dateFrom q' = None \<and> tq_dateTo q' = None \<longrightarrow>
      tests_matching u q' st = filter (\<lambda>t. t_userId t = u_id u) (tests st))"
proof -
  have ab: "alert_before = (\<lambda>a b. priority_rank b < priority_rank a \<or>
        (priority_rank a = priority_rank b \<and> a_createdAt b \<le> a_createdAt a))"
    by (simp add: fun_eq_iff alert_before_def)
  have tb: "test_before = (\<lambda>a b. t_date b \<le> t_date a)"
    by (simp add: fun_eq_iff test_before_def)
  have A1: "sorted_wrt alert_before (alerts_of (alerts_get tie u q st))"
    by (rule sorted_alerts_of)
  have R: "map (enum_index priority_enum) [''critical'', ''high'', ''medium'', ''low''] = [4, 3, 2, 1]"
    by (simp add: priority_enum_def)
  have A2: "validate_alerts_get q = [] \<and> page_asked (q_page q) * limit_asked (q_limit q) < 2 ^ 53 \<longrightarrow>
      (\<exists>found.
         mset found = mset (alerts_matching u q st) \<and>
         sorted_wrt alert_before found \<and>
         alerts_of (alerts_get tie u q st) =
           take (nat (limit_asked (q_limit q)))
             (drop (nat ((page_asked (q_page q) - 1) * limit_asked (q_limit q))) found))"
  proof
    assume "validate_alerts_get q = [] \<and> page_asked (q_page q) * limit_asked (q_limit q) < 2 ^ 53"
    then have v: "validate_alerts_get q = []"
      and r: "page_asked (q_page q) * limit_asked (q_limit q) < 2 ^ 53" by simp_all
    have "mset (alerts_found tie u q st) = mset (alerts_matching u q st)"
      by (simp add: alerts_found_def)
    with sorted_alerts_found [of tie u q st] alerts_of_valid [OF v r, of tie u st]
    show "\<exists>found.
         mset found = mset (alerts_matching u q st) \<and>
         sorted_wrt alert_before found \<and>
         alerts_of (alerts_get tie u q st) =
           take (nat (limit_asked (q_limit q)))
             (drop (nat ((page_asked (q_page q) - 1) * limit_asked (q_limit q))) found)"
      by blast
  qed
  have A3: "q_status q = None \<and> q_priority q = None \<and> q_type q = None \<longrightarrow>
      alerts_matching u q st = filter (\<lambda>a. a_userId a = u_id u) (alerts st)"
    by (simp add: alerts_matching_def alerts_whereClause_def alert_matches_def [abs_def]
        if_truthy_def truthy_def)
  have T1: "sorted_wrt test_before (tests_of (tests_get tie' u q' st))"
    by (rule sorted_tests_of)
  have T2: "validate_tests_get q' = [] \<and>
      page_asked (tq_page q') * limit_asked (tq_limit q') < 2 ^ 53 \<longrightarrow>
      (\<exists>found.
         mset found = mset (tests_matching u q' st) \<and>
         sorted_wrt test_before found \<and>
         tests_of (tests_get tie' u q' st) =
           take (nat (limit_asked (tq_limit q')))
             (drop (nat ((page_asked (tq_page q') - 1) * limit_asked (tq_limit q'))) found))"
  proof
    assume "validate_tests_get q' = [] \<and>
      page_asked (tq_page q') * limit_asked (tq_limit q') < 2 ^ 53"
    then have v: "validate_tests_get q' = []"
      and r: "page_asked (tq_page q') * limit_asked (tq_limit q') < 2 ^ 53" by simp_all
    have "mset (tests_found tie' u q' st) = mset (tests_matching u q' st)"
      by (simp add: tests_found_def)
    with sorted_tests_found [of tie' u q' st] tests_of_valid [OF v r, of tie' u st]
    show "\<exists>found.
         mset found = mset (tests_matching u q' st) \<and>
         sorted_wrt test_before found \<and>
         tests_of (tests_get tie' u q' st) =
           take (nat (limit_asked (tq_limit q')))
             (drop (nat ((page_asked (tq_page q') - 1) * limit_asked (tq_limit q'))) found)"
      by blast
  qed
  have T3: "tq_testType q' = None \<and> tq_status q' = None \<and> tq_isAbnormal q' = None \<and>
      tq_dateFrom q' = None \<and> tq_dateTo q' = None \<longrightarrow>
      tests_matching u q' st = filter (\<lambda>t. t_userId t = u_id u) (tests st)"
    by (simp add: tests_matching_def tests_whereClause_def test_matches_def [abs_def]
        if_truthy_def truthy_def date_given_def)
  from A1 R A2 A3 T1 T2 T3 show ?thesis
    unfolding ab tb by (intro conjI)
qed

theorem list_rows_ordered_witness:
  "validate_alerts_get all_alerts = [] \<and> validate_tests_get all_tests = [] \<and>
   alerts_of (alerts_get (alert_tie table_order) alice all_alerts store3) =
     [alert2, alert5, alert1, alert6, alert4] \<and>
   map (\<lambda>a. (a_priority a, a_createdAt a)) [alert2, alert5, alert1, alert6, alert4] =
     [(''critical'', 200), (''high'', 500), (''high'', 100), (''medium'', 50), (''low'', 400)] \<and>
   sorted_wrt (\<lambda>a b. priority_rank b < priority_rank a \<or>
        (priority_rank a = priority_rank b \<and> a_createdAt b \<le> a_createdAt a))
     [alert2, alert5, alert1, alert6, alert4] \<and>
   filter (\<lambda>a. a_userId a = u_id alice) (alerts store3) =
     [alert1, alert2, alert4, alert5, alert6] \<and>
   tests_of (tests_get (test_tie table_order) alice all_tests store3) =
     [test2, test5, test4, test1] \<and>
   map t_date [test2, test5, test4, test1] = [19010, 19010, 19005, 19000] \<and>
   sorted_wrt (\<lambda>a b. t_date b \<le> t_date a) [test2, test5, test4, test1] \<and>
   filter (\<lambda>t. t_userId t = u_id alice) (tests store3) = [test1, test2, test4, test5]"
proof -
  note inst = list_rows_ordered [where tie = "alert_tie table_order" and u = alice
      and q = all_alerts and st = store3 and q' = all_tests and tie' = "test_tie table_order"]
  have ra: "page_asked (q_page all_alerts) * limit_asked (q_limit all_alerts) < 2 ^ 53"
    by (simp add: all_alerts_def page_asked_def limit_asked_def)
  have rt: "page_asked (tq_page all_tests) * limit_asked (tq_limit all_tests) < 2 ^ 53"
    by (simp add: all_tests_def page_asked_def limit_asked_def)
  have A: "alerts_of (alerts_get (alert_tie table_order) alice all_alerts store3) =
      [alert2, alert5, alert1, alert6, alert4]"
    by (simp only: alerts_of_valid [OF all_alerts_valid ra] alerts_found_store3)
       (simp add: all_alerts_def limit_asked_def page_asked_def)
  have T: "tests_of (tests_get (test_tie table_order) alice all_tests store3) =
      [test2, test5, test4, test1]"
    by (simp only: tests_of_valid [OF all_tests_valid rt] tests_found_store3)
       (simp add: all_tests_def limit_asked_def page_asked_def)
  have sa: "sorted_wrt (\<lambda>a b. priority_rank b < priority_rank a \<or>
        (priority_rank a = priority_rank b \<and> a_createdAt b \<le> a_createdAt a))
     [alert2, alert5, alert1, alert6, alert4]"
    using inst [THEN conjunct1] by (simp only: A)
  have st: "sorted_wrt (\<lambda>a b. t_date b \<le> t_date a) [test2, test5, test4, test1]"
    using inst [THEN conjunct2, THEN conjunct2, THEN conjunct2, THEN conjunct2, THEN conjunct1]
    by (simp only: T)
  have ca: "map (\<lambda>a. (a_priority a, a_createdAt a)) [alert2, alert5, alert1, alert6, alert4] =
     [(''critical'', 200), (''high'', 500), (''high'', 100), (''medium'', 50), (''low'', 400)]"
    by (simp add: example_defs)
  have ct: "map t_date [test2, test5, test4, test1] = [19010, 19010, 19005, 19000]"
    by (simp add: example_defs)
  have fa: "filter (\<lambda>a. a_userId a = u_id alice) (alerts store3) =
     [alert1, alert2, alert4, alert5, alert6]"
    by (simp add: example_defs)
  have ft: "filter (\<lambda>t. t_userId t = u_id alice) (tests store3) = [test1, test2, test4, test5]"
    by (simp add: example_defs)
  from all_alerts_valid all_tests_valid A T sa st ca ct fa ft show ?thesis
    by (intro conjI)
qed

section \<open>Creating\<close>

text \<open>
  C4. A create that passes validation (on a store whose keys are unique and below the
  counters) appends one row whose owner is the caller, and returns that row with the
  caller's summary; the response and the store do not depend on a \<open>userId\<close> in the body.
  This holds for alerts and for diagnostic tests.
\<close>

theorem created_owner_is_caller:
  "(validate_alerts_post b = [] \<and> wf_store st \<longrightarrow>
      (\<exists>a. alerts_post now u b st =
           ((201, AlertDone ''Alert created successfully'' (Some (a, user_include st (u_id u)))),
            st\<lparr>alerts := alerts st @ [a], alertSeq := Suc (alertSeq st)\<rparr>) \<and>
         a_userId a = u_id u)) \<and>
   alerts_post now u (b\<lparr>b_userId := x\<rparr>) st = alerts_post now u b st \<and>
   (validate_tests_post b' = [] \<and> wf_store st \<longrightarrow>
      (\<exists>t. tests_post u b' st =
           ((201, TestDone ''Diagnostic test created successfully''
               (Some (t, user_include st (u_id u)))),
            st\<lparr>tests := tests st @ [t], testSeq := Suc (testSeq st)\<rparr>) \<and>
         t_userId t = u_id u)) \<and>
   tests_post u (b'\<lparr>tb_userId := x\<rparr>) st = tests_post u b' st"
proof -
  have A: "validate_alerts_post b = [] \<and> wf_store st \<longrightarrow>
      (\<exists>a. alerts_post now u b st =
           ((201, AlertDone ''Alert created successfully'' (Some (a, user_include st (u_id u)))),
            st\<lparr>alerts := alerts st @ [a], alertSeq := Suc (alertSeq st)\<rparr>) \<and>
         a_userId a = u_id u)"
  proof
    assume h: "validate_alerts_post b = [] \<and> wf_store st"
    then have bound: "list_all (\<lambda>a. a_id a < alertSeq st) (alerts st)"
      by (simp add: wf_store_def)
    show "\<exists>a. alerts_post now u b st =
           ((201, AlertDone ''Alert created successfully'' (Some (a, user_include st (u_id u)))),
            st\<lparr>alerts := alerts st @ [a], alertSeq := Suc (alertSeq st)\<rparr>) \<and>
         a_userId a = u_id u"
      using h find_fresh_alert [OF bound]
      by (simp add: alerts_post_def alert_create_def Let_def alert_findByPk_def alert_view_def)
  qed
  have A': "alerts_post now u (b\<lparr>b_userId := x\<rparr>) st = alerts_post now u b st"
    by (simp add: alerts_post_def validate_alerts_post_def)
  have T: "validate_tests_post b' = [] \<and> wf_store st \<longrightarrow>
      (\<exists>t. tests_post u b' st =
           ((201, TestDone ''Diagnostic test created successfully''
               (Some (t, user_include st (u_id u)))),
            st\<lparr>tests := tests st @ [t], testSeq := Suc (testSeq st)\<rparr>) \<and>
         t_userId t = u_id u)"
  proof
    assume h: "validate_tests_post b' = [] \<and> wf_store st"
    then have bound: "list_all (\<lambda>t. t_id t < testSeq st) (tests st)"
      by (simp add: wf_store_def)
    show "\<exists>t. tests_post u b' st =
           ((201, TestDone ''Diagnostic test created successfully''
               (Some (t, user_include st (u_id u)))),
            st\<lparr>tests := tests st @ [t], testSeq := Suc (testSeq st)\<rparr>) \<and>
         t_userId t = u_id u"
      using h find_fresh_test [OF bound]
      by (simp add: tests_post_def test_create_def Let_def test_findByPk_def test_view_def)
  qed
  have T': "tests_post u (b'\<lparr>tb_userId := x\<rparr>) st = tests_post u b' st"
    by (simp add: tests_post_def validate_tests_post_def validate_test_optionals_def)
  show ?thesis
    by (rule conjI [OF A conjI [OF A' conjI [OF T T']]])
qed

theorem created_owner_is_caller_witness:
  "validate_alerts_post spoof_alert_body = [] \<and> validate_tests_post spoof_test_body = [] \<and>
   wf_store store0 \<and> b_userId spoof_alert_body = Some 2 \<and> tb_userId spoof_test_body = Some 2 \<and>
   (\<exists>a. fst (alerts_post 500 alice spoof_alert_body store0) =
          (201, AlertDone ''Alert created successfully'' (Some (a, user_include store0 1))) \<and>
        alerts (snd (alerts_post 500 alice spoof_alert_body store0)) = [alert1, a] \<and>
        a_userId a = 1) \<and>
   (\<exists>t. fst (tests_post alice spoof_test_body store0) =
          (201, TestDone ''Diagnostic test created successfully''
             (Some (t, user_include store0 1))) \<and>
        tests (snd (tests_post alice spoof_test_body store0)) = [t] \<and>
        t_userId t = 1)"
proof -
  note inst = created_owner_is_caller [of spoof_alert_body store0 500 alice _ spoof_test_body]
  have ok: "trim ''Test Alert'' = ''Test Alert''" "trim ''CBC'' = ''CBC''" "trim ''ok'' = ''ok''"
    by (simp_all add: trim_def is_space_def)
  have va: "validate_alerts_post spoof_alert_body = []"
    by (simp add: validate_alerts_post_def spoof_alert_body_def required_def ok isLength_def
        optional_def isIn_def priority_enum_def type_enum_def)
  have vt: "validate_tests_post spoof_test_body = []"
    by (simp add: validate_tests_post_def validate_test_optionals_def spoof_test_body_def
        required_def ok isLength_def optional_def isISO8601_def)
  have ids: "u_id alice = 1" "alerts store0 = [alert1]" "tests store0 = []"
    by (simp_all add: example_defs)
  have "\<exists>a. fst (alerts_post 500 alice spoof_alert_body store0) =
          (201, AlertDone ''Alert created successfully'' (Some (a, user_include store0 1))) \<and>
        alerts (snd (alerts_post 500 alice spoof_alert_body store0)) = [alert1, a] \<and>
        a_userId a = 1"
    using inst [THEN conjunct1, rule_format, OF conjI [OF va wf_store0]]
    by (auto simp: ids)
  moreover have "\<exists>t. fst (tests_post alice spoof_test_body store0) =
          (201, TestDone ''Diagnostic test created successfully''
             (Some (t, user_include store0 1))) \<and>
        tests (snd (tests_post alice spoof_test_body store0)) = [t] \<and>
        t_userId t = 1"
    using inst [THEN conjunct2, THEN conjunct2, THEN conjunct1, rule_format, OF conjI [OF vt wf_store0]]
    by (auto simp: ids)
  ultimately show ?thesis
    using va vt wf_store0 by (simp add: spoof_alert_body_def spoof_test_body_def)
qed

section \<open>Reading and deleting one entity\<close>

text \<open>
  C5. For a caller and an id: when the entity with that id exists but belongs to another
  user, read-one and delete answer 404 with the body \<open>{ message: '... not found' }\<close> and
  leave the store as it is; that is the very response they give for an id no row has, in any
  store. No handler answers 403.
\<close>

theorem foreign_row_answers_as_missing:
  assumes "wf_store st"
  shows "(\<forall>a\<in>set (alerts st). a_userId a \<noteq> u_id u \<longrightarrow>
            alerts_get_id u (a_id a) st = (404, Message ''Alert not found'') \<and>
            alerts_delete u (a_id a) st = ((404, Message ''Alert not found''), st)) \<and>
         (\<forall>st' i. i \<notin> a_id ` set (alerts st') \<longrightarrow>
            alerts_get_id u i st' = (404, Message ''Alert not found'') \<and>
            alerts_delete u i st' = ((404, Message ''Alert not found''), st')) \<and>
         (\<forall>t\<in>set (tests st). t_userId t \<noteq> u_id u \<longrightarrow>
            tests_get_id u (t_id t) st = (404, Message ''Diagnostic test not found'') \<and>
            tests_delete u (t_id t) st = ((404, Message ''Diagnostic test not found''), st)) \<and>
         (\<forall>st' i. i \<notin> t_id ` set (tests st') \<longrightarrow>
            tests_get_id u i st' = (404, Message ''Diagnostic test not found'') \<and>
            tests_delete u i st' = ((404, Message ''Diagnostic test not found''), st'))"
proof -
  have da: "distinct (map a_id (alerts st))" and dt: "distinct (map t_id (tests st))"
    using assms by (simp_all add: wf_store_def)
  have A: "\<forall>a\<in>set (alerts st). a_userId a \<noteq> u_id u \<longrightarrow>
            alerts_get_id u (a_id a) st = (404, Message ''Alert not found'') \<and>
            alerts_delete u (a_id a) st = ((404, Message ''Alert not found''), st)"
    using find_foreign_alert [OF da]
    by (simp add: alerts_get_id_def alerts_delete_def alert_findOne_def)
  have A': "\<forall>st' i. i \<notin> a_id ` set (alerts st') \<longrightarrow>
            alerts_get_id u i st' = (404, Message ''Alert not found'') \<and>
            alerts_delete u i st' = ((404, Message ''Alert not found''), st')"
    by (simp add: alerts_get_id_def alerts_delete_def alert_findOne_def find_absent_alert)
  have T: "\<forall>t\<in>set (tests st). t_userId t \<noteq> u_id u \<longrightarrow>
            tests_get_id u (t_id t) st = (404, Message ''Diagnostic test not found'') \<and>
            tests_delete u (t_id t) st = ((404, Message ''Diagnostic test not found''), st)"
    using find_foreign_test [OF dt]
    by (simp add: tests_get_id_def tests_delete_def test_findOne_def)
  have T': "\<forall>st' i. i \<notin> t_id ` set (tests st') \<longrightarrow>
            tests_get_id u i st' = (404, Message ''Diagnostic test not found'') \<and>
            tests_delete u i st' = ((404, Message ''Diagnostic test not found''), st')"
    by (simp add: tests_get_id_def tests_delete_def test_findOne_def find_absent_test)
  show ?thesis
    by (rule conjI [OF A conjI [OF A' conjI [OF T T']]])
qed

theorem foreign_row_answers_as_missing_witness:
  "wf_store store2 \<and> alert1 \<in> set (alerts store2) \<and> a_userId alert1 \<noteq> u_id bob \<and>
   99 \<notin> a_id ` set (alerts store2) \<and>
   alerts_get_id bob (a_id alert1) store2 = alerts_get_id bob 99 store2 \<and>
   alerts_get_id bob (a_id alert1) store2 = (404, Message ''Alert not found'') \<and>
   alerts_delete bob (a_id alert1) store2 = alerts_delete bob 99 store2 \<and>
   test1 \<in> set (tests store2) \<and> t_userId test1 \<noteq> u_id bob \<and>
   99 \<notin> t_id ` set (tests store2) \<and>
   tests_get_id bob (t_id test1) store2 = tests_get_id bob 99 store2 \<and>
   tests_get_id bob (t_id test1) store2 = (404, Message ''Diagnostic test not found'') \<and>
   tests_delete bob (t_id test1) store2 = tests_delete bob 99 store2"
proof -
  note inst = foreign_row_answers_as_missing [OF wf_store2, of bob]
  have a: "alert1 \<in> set (alerts store2)" "a_userId alert1 \<noteq> u_id bob"
    "99 \<notin> a_id ` set (alerts store2)"
    by (simp_all add: example_defs)
  have t: "test1 \<in> set (tests store2)" "t_userId test1 \<noteq> u_id bob"
    "99 \<notin> t_id ` set (tests store2)"
    by (simp_all add: example_defs)
  have A: "alerts_get_id bob (a_id alert1) store2 = (404, Message ''Alert not found'')"
    "alerts_delete bob (a_id alert1) store2 = ((404, Message ''Alert not found''), store2)"
    using inst [THEN conjunct1, rule_format, OF a(1) a(2)] by simp_all
  have A': "alerts_get_id bob 99 store2 = (404, Message ''Alert not found'')"
    "alerts_delete bob 99 store2 = ((404, Message ''Alert not found''), store2)"
    using inst [THEN conjunct2, THEN conjunct1, rule_format, OF a(3)] by simp_all
  have T: "tests_get_id bob (t_id test1) store2 = (404, Message ''Diagnostic test not found'')"
    "tests_delete bob (t_id test1) store2 = ((404, Message ''Diagnostic test not found''), store2)"
    using inst [THEN conjunct2, THEN conjunct2, THEN conjunct1, rule_format, OF t(1) t(2)]
    by simp_all
  have T': "tests_get_id bob 99 store2 = (404, Message ''Diagnostic test not found'')"
    "tests_delete bob 99 store2 = ((404, Message ''Diagnostic test not found''), store2)"
    using inst [THEN conjunct2, THEN conjunct2, THEN conjunct2, rule_format, OF t(3)]
    by simp_all
  show ?thesis
    by (simp only: wf_store2 a t A A' T T' simp_thms)
qed

section \<open>Summaries\<close>

text \<open>
  C6, as claimed: every grouped map of the summary endpoints is sparse, a value without
  rows being left out rather than listed with 0. The handlers build \<open>byStatus\<close> from one
  \<open>count\<close> per status and always list each of them: for a user without alerts or tests
  \<open>byStatus.active\<close> and \<open>byStatus.pending\<close> are 0, not absent.
\<close>

theorem summary_status_zero_filled:
  "alerts store_empty = [] \<and> tests store_empty = [] \<and>
   byStatus (alerts_get_stats_summary alice store_empty) ''active'' = Some 0 \<and>
   byStatus (tests_get_stats_summary 0 alice store_empty) ''pending'' = Some 0"
  by (simp add: byStatus_def alerts_get_stats_summary_def tests_get_stats_summary_def Let_def
      alert_count_def test_count_def store_empty_def)

text \<open>
  C6, amended: the maps grouped through \<open>GROUP BY\<close> (\<open>byPriority\<close> for alerts,
  \<open>byType\<close> for tests) are sparse: a value held by at least one of the user's rows appears
  with the number of those rows, a value held by none is absent. \<open>byStatus\<close> holds every
  status the handler counts (active, acknowledged, resolved, dismissed for alerts; pending,
  completed, reviewed for tests) with its count, 0 included.
\<close>

theorem summary_groups:
  "byPriority (alerts_get_stats_summary u st) p =
     (if length (filter (\<lambda>a. a_userId a = u_id u \<and> a_priority a = p) (alerts st)) = 0 then None
      else Some (length (filter (\<lambda>a. a_userId a = u_id u \<and> a_priority a = p) (alerts st)))) \<and>
   byType (tests_get_stats_summary now u st) ty =
     (if length (filter (\<lambda>t. t_userId t = u_id u \<and> t_testType t = ty) (tests st)) = 0 then None
      else Some (length (filter (\<lambda>t. t_userId t = u_id u \<and> t_testType t = ty) (tests st)))) \<and>
   (s \<in> set [''active'', ''acknowledged'', ''resolved'', ''dismissed''] \<longrightarrow>
      byStatus (alerts_get_stats_summary u st) s =
        Some (length (filter (\<lambda>a. a_userId a = u_id u \<and> a_status a = s) (alerts st)))) \<and>
   (s' \<in> set [''pending'', ''completed'', ''reviewed''] \<longrightarrow>
      byStatus (tests_get_stats_summary now u st) s' =
        Some (length (filter (\<lambda>t. t_userId t = u_id u \<and> t_status t = s') (tests st))))"
proof -
  have P: "byPriority (alerts_get_stats_summary u st) p =
     (if length (filter (\<lambda>a. a_userId a = u_id u \<and> a_priority a = p) (alerts st)) = 0 then None
      else Some (length (filter (\<lambda>a. a_userId a = u_id u \<and> a_priority a = p) (alerts st))))"
    by (simp add: byPriority_def alerts_get_stats_summary_def Let_def reduce_group_count
        filter_filter_owner)
  have T: "byType (tests_get_stats_summary now u st) ty =
     (if length (filter (\<lambda>t. t_userId t = u_id u \<and> t_testType t = ty) (tests st)) = 0 then None
      else Some (length (filter (\<lambda>t. t_userId t = u_id u \<and> t_testType t = ty) (tests st))))"
    by (simp add: byType_def tests_get_stats_summary_def Let_def reduce_group_count
        filter_filter_owner)
  have S: "s \<in> set [''active'', ''acknowledged'', ''resolved'', ''dismissed''] \<longrightarrow>
      byStatus (alerts_get_stats_summary u st) s =
        Some (length (filter (\<lambda>a. a_userId a = u_id u \<and> a_status a = s) (alerts st)))"
    by (auto simp: byStatus_def alerts_get_stats_summary_def Let_def alert_count_def)
  have S': "s' \<in> set [''pending'', ''completed'', ''reviewed''] \<longrightarrow>
      byStatus (tests_get_stats_summary now u st) s' =
        Some (length (filter (\<lambda>t. t_userId t = u_id u \<and> t_status t = s') (tests st)))"
    by (auto simp: byStatus_def tests_get_stats_summary_def Let_def test_count_def)
  show ?thesis
    by (rule conjI [OF P conjI [OF T conjI [OF S S']]])
qed

theorem summary_groups_witness:
  "''resolved'' \<in> set [''active'', ''acknowledged'', ''resolved'', ''dismissed''] \<and>
   ''pending'' \<in> set [''pending'', ''completed'', ''reviewed''] \<and>
   byPriority (alerts_get_stats_summary alice store2) ''high'' = Some 1 \<and>
   byPriority (alerts_get_stats_summary alice store2) ''low'' = None \<and>
   byType (tests_get_stats_summary 0 alice store2) ''blood'' = Some 1 \<and>
   byType (tests_get_stats_summary 0 alice store2) ''imaging'' = None \<and>
   byStatus (alerts_get_stats_summary alice store2) ''resolved'' = Some 0 \<and>
   byStatus (tests_get_stats_summary 0 alice store2) ''pending'' = Some 1"
proof -
  note hi = summary_groups [of alice store2 "''high''" 0 "''blood''" "''resolved''" "''pending''"]
  note lo = summary_groups [of alice store2 "''low''" 0 "''imaging''" "''resolved''" "''pending''"]
  have 1: "byPriority (alerts_get_stats_summary alice store2) ''high'' = Some 1"
    using hi [THEN conjunct1] by (simp add: example_defs)
  have 2: "byPriority (alerts_get_stats_summary alice store2) ''low'' = None"
    using lo [THEN conjunct1] by (simp add: example_defs)
  have 3: "byType (tests_get_stats_summary 0 alice store2) ''blood'' = Some 1"
    using hi [THEN conjunct2, THEN conjunct1] by (simp add: example_defs)
  have 4: "byType (tests_get_stats_summary 0 alice store2) ''imaging'' = None"
    using lo [THEN conjunct2, THEN conjunct1] by (simp add: example_defs)
  have 5: "byStatus (alerts_get_stats_summary alice store2) ''resolved'' = Some 0"
    using hi [THEN conjunct2, THEN conjunct2, THEN conjunct1] by (simp add: example_defs)
  have 6: "byStatus (tests_get_stats_summary 0 alice store2) ''pending'' = Some 1"
    using hi [THEN conjunct2, THEN conjunct2, THEN conjunct2] by (simp add: example_defs)
  show ?thesis
    by (simp only: 1 2 3 4 5 6) simp
qed

section \<open>Account deletion\<close>

text \<open>
  C10. \<open>DELETE /api/users/account\<close> answers 200 and writes one thing: the
  \<open>isActive\<close> flag of the caller's row becomes false. No row is deleted: the users table
  keeps its length and every other field, the alerts and the tests are the same lists. Nor
  does any request to the three routers delete a user row, so the cascade of
  \<open>User.hasMany(..., { onDelete: 'CASCADE' })\<close> (\<open>user_destroy\<close>) never runs: the user
  ids stay as they are, and an alert or test id leaves its table only through the
  \<open>DELETE\<close> of that id.
\<close>

theorem account_deletion_only_deactivates:
  "users_delete_account u st =
     ((200, Message ''Account deactivated successfully''),
      st\<lparr>users := map (\<lambda>r. if u_id r = u_id u then r\<lparr>u_isActive := False\<rparr> else r) (users st)\<rparr>) \<and>
   alerts (snd (users_delete_account u st)) = alerts st \<and>
   tests (snd (users_delete_account u st)) = tests st \<and>
   length (users (snd (users_delete_account u st))) = length (users st) \<and>
   map u_id (users (snd (api verify cmp hash eng now header req st))) = map u_id (users st) \<and>
   a_id ` set (alerts st) \<subseteq>
     a_id ` set (alerts (snd (api verify cmp hash eng now header req st))) \<union>
     (case req of DeleteAlert i \<Rightarrow> {i} | _ \<Rightarrow> {}) \<and>
   t_id ` set (tests st) \<subseteq>
     t_id ` set (tests (snd (api verify cmp hash eng now header req st))) \<union>
     (case req of DeleteTest i \<Rightarrow> {i} | _ \<Rightarrow> {})"
proof -
  have row: "users_delete_account u st =
     ((200, Message ''Account deactivated successfully''),
      st\<lparr>users := map (\<lambda>r. if u_id r = u_id u then r\<lparr>u_isActive := False\<rparr> else r) (users st)\<rparr>)"
    by (simp add: users_delete_account_def user_update_def)
  have len: "length (users (snd (users_delete_account u st))) = length (users st)"
    by (simp add: users_delete_account_def user_update_def)
  show ?thesis
    by (intro conjI row len api_frames users_delete_account_frame(2,3))
qed

theorem account_deletion_only_deactivates_witness:
  "alerts (snd (users_delete_account alice store2)) = [alert1, alert2, alert3] \<and>
   tests (snd (users_delete_account alice store2)) = [test1, test2, test3] \<and>
   map u_id (users (snd (users_delete_account alice store2))) = [1, 2] \<and>
   map u_isActive (users (snd (users_delete_account alice store2))) = [False, True] \<and>
   map u_id (users (snd (api (\<lambda>t. Decoded 1) (\<lambda>p h. True) (\<lambda>p. p) table_order 0
       (Some ''Bearer t'') DeleteAccount store2))) = [1, 2] \<and>
   alerts (user_destroy 1 store2) = [alert3]"
proof -
  note inst = account_deletion_only_deactivates
    [of alice store2 "\<lambda>t. Decoded 1" "\<lambda>p h. True" "\<lambda>p. p" table_order 0
      "Some ''Bearer t''" DeleteAccount]
  have 1: "alerts (snd (users_delete_account alice store2)) = [alert1, alert2, alert3]"
    using inst [THEN conjunct2, THEN conjunct1] by (simp add: store2_def)
  have 2: "tests (snd (users_delete_account alice store2)) = [test1, test2, test3]"
    using inst [THEN conjunct2, THEN conjunct2, THEN conjunct1] by (simp add: store2_def)
  have 3: "map u_id (users (snd (users_delete_account alice store2))) = [1, 2]"
    "map u_isActive (users (snd (users_delete_account alice store2))) = [False, True]"
    using inst [THEN conjunct1] by (simp_all add: store2_def alice_def bob_def)
  have 4: "map u_id (users (snd (api (\<lambda>t. Decoded 1) (\<lambda>p h. True) (\<lambda>p. p) table_order 0
       (Some ''Bearer t'') DeleteAccount store2))) = [1, 2]"
    using inst [THEN conjunct2, THEN conjunct2, THEN conjunct2, THEN conjunct2, THEN conjunct1]
    by (simp add: store2_def alice_def bob_def)
  have 5: "alerts (user_destroy 1 store2) = [alert3]"
    by (simp add: user_destroy_def example_defs)
  show ?thesis
    by (simp only: 1 2 3 4 5 simp_thms)
qed

section \<open>The store invariant\<close>

text \<open>
  Unique primary keys below the counters, the assumption of the create and lookup results,
  survive every request to the three routers.
\<close>

theorem handlers_keep_keys_unique:
  assumes "wf_store st"
  shows "wf_store (snd (api verify cmp hash eng now header req st))"
proof -
  have "wf_store (snd (handle cmp hash eng now u req st))" for u
    using assms by (cases req) (simp_all add: wf_handlers)
  then show ?thesis using assms by (auto simp: api_def split: sum.splits)
qed

theorem handlers_keep_keys_unique_witness:
  "wf_store store2 \<and>
   wf_store (snd (api (\<lambda>t. Decoded 1) (\<lambda>p h. True) (\<lambda>p. p) table_order 0 (Some ''Bearer t'')
      (PostAlert spoof_alert_body) store2))"
  using handlers_keep_keys_unique [OF wf_store2] wf_store2 by simp

section \<open>Further properties of the handlers\<close>

text \<open>
  After \<open>DELETE /api/users/account\<close> the middleware turns the user away: a token that
  decodes to the deactivated user's id is answered 401.
\<close>

theorem deactivated_account_is_denied:
  assumes "truthy (map_option (remove_first ''Bearer '') header)"
    and "verify (required (map_option (remove_first ''Bearer '') header)) = Decoded (u_id u)"
  shows "auth verify header (snd (users_delete_account u st)) =
           Inl (401, Message ''Access denied. Invalid token or user inactive.'')"
  using assms
  by (simp add: auth_def users_delete_account_def user_update_def user_findByPk_def
      find_deactivated Let_def split: option.splits)

theorem deactivated_account_is_denied_witness:
  "truthy (map_option (remove_first ''Bearer '') (Some ''Bearer t'')) \<and>
   auth (\<lambda>t. Decoded 1) (Some ''Bearer t'') store2 = Inr alice \<and>
   auth (\<lambda>t. Decoded 1) (Some ''Bearer t'') (snd (users_delete_account alice store2)) =
     Inl (401, Message ''Access denied. Invalid token or user inactive.'')"
proof -
  have t: "truthy (map_option (remove_first ''Bearer '') (Some ''Bearer t''))"
    by (simp add: truthy_def)
  have v: "(\<lambda>t. Decoded 1) (required (map_option (remove_first ''Bearer '') (Some ''Bearer t'')))
      = Decoded (u_id alice)"
    by (simp add: alice_def)
  have a: "auth (\<lambda>t. Decoded 1) (Some ''Bearer t'') store2 = Inr alice"
    by (simp add: auth_def truthy_def required_def user_findByPk_def Let_def store2_def alice_def)
  from deactivated_account_is_denied [OF t v, of store2] t a show ?thesis
    by (simp only: simp_thms)
qed

text \<open>
  Partial update: an update whose body sets no field leaves every alert as it was.
\<close>

theorem empty_update_changes_nothing:
  assumes "alert_findOne i (u_id u) st = Some a"
    and "distinct (map a_id (alerts st))"
  shows "alerts (snd (alerts_put now u i
            \<lparr>b_title = None, b_message = None, b_status = None, b_priority = None,
             b_type = None, b_metadata = None, b_userId = None\<rparr> st)) = alerts st"
proof -
  let ?b = "\<lparr>b_title = None, b_message = None, b_status = None, b_priority = None,
             b_type = None, b_metadata = None, b_userId = None\<rparr>"
  have v: "validate_alerts_put ?b = []"
    by (simp add: validate_alerts_put_def optional_def)
  have same: "alert_set (alerts_updateData now a ?b) a = a"
    by (simp add: alert_set_def alerts_updateData_def Let_def if_truthy_def truthy_def)
  have mem: "a \<in> set (alerts st)" "a_id a = i"
    using assms(1) find_both_id [of i _ "alerts st" a] by (simp_all add: alert_findOne_def)
  have "inj_on a_id (set (alerts st))"
    using assms(2) by (simp add: distinct_map)
  then have "\<And>r. r \<in> set (alerts st) \<Longrightarrow> a_id r = a_id a \<Longrightarrow> r = a"
    using mem(1) by (auto dest: inj_onD)
  then have "map (\<lambda>r. if a_id r = a_id a then a else r) (alerts st) = alerts st"
    by (intro map_idI) auto
  then show ?thesis
    using alerts_put_found(1) [OF v assms(1), of now] same
    by (simp add: alert_save_def)
qed

theorem empty_update_changes_nothing_witness:
  "alert_findOne 1 (u_id alice) store2 = Some alert1 \<and> distinct (map a_id (alerts store2)) \<and>
   alerts (snd (alerts_put 5 alice 1
            \<lparr>b_title = None, b_message = None, b_status = None, b_priority = None,
             b_type = None, b_metadata = None, b_userId = None\<rparr> store2)) =
     [alert1, alert2, alert3]"
proof -
  have f: "alert_findOne 1 (u_id alice) store2 = Some alert1"
    by (simp add: alert_findOne_def example_defs)
  have d: "distinct (map a_id (alerts store2))"
    by (simp add: example_defs)
  from empty_update_changes_nothing [OF f d, of 5] f d show ?thesis
    by (simp add: store2_def)
qed

text \<open>
  A scenario of the specification: Alice creates the alert
  \<open>{ title: 'Test Alert', priority: 'high', type: 'health' }\<close>; her list filtered by
  \<open>priority=high\<close> holds that alert, her list filtered by \<open>priority=low\<close> is empty,
  and so is Bob's list.
\<close>

theorem created_alert_is_listed_by_priority:
  "map a_title (alerts_of (alerts_get (alert_tie table_order) alice (priority_query ''high'')
      (snd (alerts_post 500 alice spoof_alert_body store_empty)))) = [''Test Alert''] \<and>
   alerts_of (alerts_get (alert_tie table_order) alice (priority_query ''low'')
      (snd (alerts_post 500 alice spoof_alert_body store_empty))) = [] \<and>
   alerts_of (alerts_get (alert_tie table_order) bob (priority_query ''high'')
      (snd (alerts_post 500 alice spoof_alert_body store_empty))) = []"
proof -
  have ok: "trim ''Test Alert'' = ''Test Alert''"
    by (simp add: trim_def is_space_def)
  have va: "validate_alerts_post spoof_alert_body = []"
    by (simp add: validate_alerts_post_def spoof_alert_body_def required_def ok isLength_def
        optional_def isIn_def priority_enum_def type_enum_def)
  have st: "alerts (snd (alerts_post 500 alice spoof_alert_body store_empty)) =
      [\<lparr>a_id = 1, a_title = ''Test Alert'', a_message = None, a_status = ''active'',
        a_priority = ''high'', a_type = ''health'', a_userId = 1, a_metadata = Map.empty,
        a_acknowledgedAt = None, a_resolvedAt = None, a_createdAt = 0\<rparr>]"
    using va
    by (simp add: alerts_post_def alert_create_def Let_def spoof_alert_body_def required_def ok
        or_str_def store_empty_def alice_def)
  have vq: "validate_alerts_get (priority_query ''high'') = []"
    "validate_alerts_get (priority_query ''low'') = []"
    by (simp_all add: validate_alerts_get_Nil priority_query_def optional_def isIn_def
        priority_enum_def)
  have rq: "page_asked (q_page (priority_query p)) * limit_asked (q_limit (priority_query p))
      < 2 ^ 53" for p
    by (simp add: priority_query_def page_asked_def limit_asked_def)
  show ?thesis
    by (simp only: alerts_of_valid [OF vq(1) rq] alerts_of_valid [OF vq(2) rq] alerts_found_def
         alerts_matching_def st)
       (simp add: alerts_whereClause_def alert_matches_def priority_query_def if_truthy_def
         truthy_def ordered_def order_by_def limit_asked_def page_asked_def alice_def bob_def)
qed

end
